theory Spec2Isabelle
  imports Complex_Main "HOL-Library.Char_ord"
begin

section \<open>JavaScript numbers\<close>

text \<open>
  The handlers compute on JavaScript numbers, that is IEEE 754 doubles: a finite double,
  given by its exact value, one of the two infinities, or NaN. The sign of a zero is not
  kept; no handler tells \<open>-0\<close> from \<open>0\<close>.
\<close>

datatype number = Fin rat | Infinity | MinusInfinity | NaN

text \<open>The number of binary digits of a positive integer.\<close>

function bitlen :: "int \<Rightarrow> int" where
  "bitlen n = (if n \<le> 0 then 0 else 1 + bitlen (n div 2))"
  by pat_completeness auto
termination
  by (relation "measure nat") auto

declare bitlen.simps [simp del]

definition pow2 :: "int \<Rightarrow> rat" where
  "pow2 e = (if 0 \<le> e then 2 ^ nat e else 1 / 2 ^ nat (- e))"

text \<open>The binary exponent of a positive value: the \<open>e\<close> with \<open>2^e \<le> x < 2^(e+1)\<close>.\<close>

definition ilog2 :: "rat \<Rightarrow> int" where
  "ilog2 x = (if 1 \<le> x then bitlen \<lfloor>x\<rfloor> - 1 else - bitlen (\<lceil>1 / x\<rceil> - 1))"

definition roundHalfEven :: "rat \<Rightarrow> int" where
  "roundHalfEven m =
     (if m - of_int \<lfloor>m\<rfloor> < 1 / 2 then \<lfloor>m\<rfloor>
      else if 1 / 2 < m - of_int \<lfloor>m\<rfloor> then \<lfloor>m\<rfloor> + 1
      else if even \<lfloor>m\<rfloor> then \<lfloor>m\<rfloor> else \<lfloor>m\<rfloor> + 1)"

text \<open>
  Rounding a non-negative exact value to the nearest double, ties to even: 53 significant
  bits, the exponent not below that of the subnormals, overflow to infinity.
\<close>

definition roundMagnitude :: "rat \<Rightarrow> number" where
  "roundMagnitude x =
     (if x \<le> 0 then Fin 0
      else if pow2 1024 \<le> of_int (roundHalfEven (x / pow2 (max (ilog2 x) (- 1022) - 52)))
                            * pow2 (max (ilog2 x) (- 1022) - 52)
      then Infinity
      else Fin (of_int (roundHalfEven (x / pow2 (max (ilog2 x) (- 1022) - 52)))
                 * pow2 (max (ilog2 x) (- 1022) - 52)))"

text \<open>Unary minus.\<close>

fun negate :: "number \<Rightarrow> number" where
  "negate (Fin a) = Fin (- a)"
| "negate Infinity = MinusInfinity"
| "negate MinusInfinity = Infinity"
| "negate NaN = NaN"

text \<open>Rounding any exact value to the nearest double: the rounding is symmetric in the sign.\<close>

definition toDouble :: "rat \<Rightarrow> number" where
  "toDouble x = (if x < 0 then negate (roundMagnitude (- x)) else roundMagnitude x)"

fun times_number :: "number \<Rightarrow> number \<Rightarrow> number" where
  "times_number (Fin a) (Fin b) = toDouble (a * b)"
| "times_number NaN y = NaN"
| "times_number x NaN = NaN"
| "times_number Infinity (Fin b) =
     (if b = 0 then NaN else if 0 < b then Infinity else MinusInfinity)"
| "times_number MinusInfinity (Fin b) =
     (if b = 0 then NaN else if 0 < b then MinusInfinity else Infinity)"
| "times_number (Fin a) Infinity =
     (if a = 0 then NaN else if 0 < a then Infinity else MinusInfinity)"
| "times_number (Fin a) MinusInfinity =
     (if a = 0 then NaN else if 0 < a then MinusInfinity else Infinity)"
| "times_number Infinity Infinity = Infinity"
| "times_number Infinity MinusInfinity = MinusInfinity"
| "times_number MinusInfinity Infinity = MinusInfinity"
| "times_number MinusInfinity MinusInfinity = Infinity"

fun plus_number :: "number \<Rightarrow> number \<Rightarrow> number" where
  "plus_number (Fin a) (Fin b) = toDouble (a + b)"
| "plus_number NaN y = NaN"
| "plus_number x NaN = NaN"
| "plus_number Infinity MinusInfinity = NaN"
| "plus_number MinusInfinity Infinity = NaN"
| "plus_number Infinity y = Infinity"
| "plus_number x Infinity = Infinity"
| "plus_number MinusInfinity y = MinusInfinity"
| "plus_number x MinusInfinity = MinusInfinity"

definition minus_number :: "number \<Rightarrow> number \<Rightarrow> number" where
  "minus_number x y = plus_number x (negate y)"

text \<open>\<open>x < y\<close>: false as soon as one side is NaN.\<close>

fun less_number :: "number \<Rightarrow> number \<Rightarrow> bool" where
  "less_number (Fin a) (Fin b) = (a < b)"
| "less_number NaN y = False"
| "less_number x NaN = False"
| "less_number x MinusInfinity = False"
| "less_number Infinity y = False"
| "less_number MinusInfinity y = True"
| "less_number x Infinity = True"

text \<open>\<open>x > c\<close> for a finite constant \<open>c\<close>.\<close>

fun greater_number :: "number \<Rightarrow> rat \<Rightarrow> bool" where
  "greater_number (Fin a) c = (c < a)"
| "greater_number Infinity c = True"
| "greater_number MinusInfinity c = False"
| "greater_number NaN c = False"

text \<open>\<open>Math.round\<close>: the nearest integer, a tie going up.\<close>

fun mathRound :: "number \<Rightarrow> number" where
  "mathRound (Fin a) = Fin (of_int \<lfloor>a + 1 / 2\<rfloor>)"
| "mathRound Infinity = Infinity"
| "mathRound MinusInfinity = MinusInfinity"
| "mathRound NaN = NaN"

section \<open>Authorization guard: roles (server/middleware/auth.ts)\<close>

datatype role = DIRECTOR | ACCOUNTANT | AGENT | CLIENT

text \<open>The identity that the \<open>auth\<close> middleware attaches to the request as \<open>req.user\<close>.\<close>

record identity =
  uid :: string
  uemail :: string
  uname :: string
  urole :: role
  ucompanyId :: string

text \<open>\<open>requireRole(...roles)\<close> lets the request through when \<open>roles.includes(req.user.role)\<close>.\<close>

definition requireRole :: "role list \<Rightarrow> identity \<Rightarrow> bool" where
  "requireRole roles u = (urole u \<in> set roles)"

definition requireDirector :: "identity \<Rightarrow> bool" where
  "requireDirector = requireRole [DIRECTOR]"

definition requireAccountant :: "identity \<Rightarrow> bool" where
  "requireAccountant = requireRole [DIRECTOR, ACCOUNTANT]"

definition requireAgent :: "identity \<Rightarrow> bool" where
  "requireAgent = requireRole [DIRECTOR, ACCOUNTANT, AGENT]"

section \<open>Ledger engine (server/routes/finance.ts)\<close>

subsection \<open>Rows of the store\<close>

datatype expense_type = PROVISION | DISBURSEMENT

text \<open>
  Modelled from the spec: the column types of the expense table (schema.prisma is not
  among the sources). Identifiers are the store's string keys, times are milliseconds
  since the epoch, and the amount, the quantity and the unit price are JavaScript
  numbers, as the handlers read and add them.
\<close>

record expense =
  eid :: string
  shipmentId :: string
  etype :: expense_type
  category :: string
  description :: string
  amount :: number
  quantity :: "number option"
  unitPrice :: "number option"
  reference :: "string option"
  supplier :: "string option"
  paid :: bool
  paidAt :: "int option"

text \<open>Of a shipment row the ledger reads the key and the owning company only.\<close>

record shipment_ref =
  sid :: string
  companyId :: string

record ledger =
  shipments :: "shipment_ref list"
  expenses :: "expense list"

text \<open>The answers of the ledger handlers, with the HTTP status each one is sent with.\<close>

datatype fin_error =
    Forbidden
  | NotFound
  | ValidationError
  | AlreadyPaid
  | InsufficientBalance number
  | CannotDeletePaid
  | ServerError

fun fin_status :: "fin_error \<Rightarrow> nat" where
  "fin_status Forbidden = 403"
| "fin_status NotFound = 404"
| "fin_status ValidationError = 400"
| "fin_status AlreadyPaid = 400"
| "fin_status (InsufficientBalance b) = 400"
| "fin_status CannotDeletePaid = 400"
| "fin_status ServerError = 500"

subsection \<open>Lookups scoped to the caller's company\<close>

text \<open>\<open>prisma.shipment.findFirst({ where: { id, companyId } })\<close>.\<close>

definition findShipment :: "ledger \<Rightarrow> string \<Rightarrow> string \<Rightarrow> shipment_ref option" where
  "findShipment db c i = find (\<lambda>s. sid s = i \<and> companyId s = c) (shipments db)"

text \<open>\<open>prisma.expense.findFirst({ where: { id, shipment: { companyId } } })\<close>.\<close>

definition ownedBy :: "ledger \<Rightarrow> string \<Rightarrow> expense \<Rightarrow> bool" where
  "ownedBy db c e = list_ex (\<lambda>s. sid s = shipmentId e \<and> companyId s = c) (shipments db)"

definition findExpense :: "ledger \<Rightarrow> string \<Rightarrow> string \<Rightarrow> expense option" where
  "findExpense db c i = find (\<lambda>e. eid e = i \<and> ownedBy db c e) (expenses db)"

text \<open>The relation \<open>shipment.expenses\<close>: the expense rows of one shipment.\<close>

definition shipmentExpenses :: "ledger \<Rightarrow> string \<Rightarrow> expense list" where
  "shipmentExpenses db s = filter (\<lambda>e. shipmentId e = s) (expenses db)"

text \<open>\<open>prisma.expense.update({ where: { id }, data })\<close> and \<open>prisma.expense.delete\<close>.\<close>

definition updateRow :: "string \<Rightarrow> (expense \<Rightarrow> expense) \<Rightarrow> expense list \<Rightarrow> expense list" where
  "updateRow i f es = map (\<lambda>e. if eid e = i then f e else e) es"

definition deleteRow :: "string \<Rightarrow> expense list \<Rightarrow> expense list" where
  "deleteRow i es = filter (\<lambda>e. eid e \<noteq> i) es"

subsection \<open>The balance\<close>

text \<open>
  The loop of the pay handler over \<open>expense.shipment.expenses\<close>, with its two running
  totals \<open>(provisions, paidDisbursements)\<close>.
\<close>

fun balanceLoop :: "expense list \<Rightarrow> number \<times> number \<Rightarrow> number \<times> number" where
  "balanceLoop [] acc = acc"
| "balanceLoop (e # es) (provisions, paidDisbursements) =
     balanceLoop es
       (if etype e = PROVISION then (plus_number provisions (amount e), paidDisbursements)
        else if paid e then (provisions, plus_number paidDisbursements (amount e))
        else (provisions, paidDisbursements))"

definition payBalance :: "expense list \<Rightarrow> number" where
  "payBalance es = (case balanceLoop es (Fin 0, Fin 0) of (provisions, paidDisbursements) \<Rightarrow>
     minus_number provisions paidDisbursements)"

text \<open>
  The balance in the words of the specification: the sum of the PROVISION amounts minus
  the sum of the paid DISBURSEMENT amounts, in exact arithmetic on the values of the
  amounts. An amount that is not finite has no value; it is counted as 0.
\<close>

fun exactValue :: "number \<Rightarrow> rat" where
  "exactValue (Fin a) = a"
| "exactValue Infinity = 0"
| "exactValue MinusInfinity = 0"
| "exactValue NaN = 0"

definition specBalance :: "expense list \<Rightarrow> rat" where
  "specBalance es =
     sum_list (map (\<lambda>e. exactValue (amount e)) (filter (\<lambda>e. etype e = PROVISION) es))
     - sum_list (map (\<lambda>e. exactValue (amount e))
                  (filter (\<lambda>e. etype e = DISBURSEMENT \<and> paid e) es))"

definition shipmentBalance :: "ledger \<Rightarrow> string \<Rightarrow> rat" where
  "shipmentBalance db s = specBalance (filter (\<lambda>e. shipmentId e = s) (expenses db))"

text \<open>
  The same formula in double arithmetic: each sum is accumulated from 0 in the order of
  the rows, every addition and the final subtraction rounding to the nearest double.
\<close>

definition doubleSum :: "number list \<Rightarrow> number" where
  "doubleSum xs = foldl plus_number (Fin 0) xs"

definition doubleBalance :: "expense list \<Rightarrow> number" where
  "doubleBalance es =
     minus_number
       (doubleSum (map amount (filter (\<lambda>e. etype e = PROVISION) es)))
       (doubleSum (map amount (filter (\<lambda>e. etype e = DISBURSEMENT \<and> paid e) es)))"

text \<open>
  The range in which the double sums are the exact ones: every amount of the rows is a
  whole number, not negative, and the amounts total at most 2^53.
\<close>

fun whole :: "number \<Rightarrow> bool" where
  "whole (Fin a) = (0 \<le> a \<and> a = of_int \<lfloor>a\<rfloor>)"
| "whole Infinity = False"
| "whole MinusInfinity = False"
| "whole NaN = False"

definition wholeRows :: "expense list \<Rightarrow> bool" where
  "wholeRows es =
     (list_all (\<lambda>e. whole (amount e)) es
      \<and> sum_list (map (\<lambda>e. exactValue (amount e)) es) \<le> 2 ^ 53)"

subsection \<open>createExpense: POST /expenses\<close>

text \<open>
  The body accepted by \<open>createExpenseSchema\<close>: \<open>z.number()\<close> refuses NaN, and
  \<open>positive()\<close> asks for \<open>amount > 0\<close>.
\<close>

record expense_input =
  in_shipmentId :: string
  in_type :: expense_type
  in_category :: string
  in_description :: string
  in_amount :: number
  in_quantity :: "number option"
  in_unitPrice :: "number option"
  in_reference :: "string option"
  in_supplier :: "string option"

definition createExpenseSchema :: "expense_input \<Rightarrow> bool" where
  "createExpenseSchema d =
     (in_description d \<noteq> [] \<and> greater_number (in_amount d) 0
      \<and> in_quantity d \<noteq> Some NaN \<and> in_unitPrice d \<noteq> Some NaN)"

text \<open>
  Modelled from the spec: the column defaults of the expense table (schema.prisma is not
  among the sources). A created expense starts unpaid with no paid-at time; its key
  \<open>newId\<close> is the one the store generates, and the store refuses a key it already holds
  (the handler's \<open>catch\<close> then answers 500).
\<close>

definition newExpense :: "string \<Rightarrow> expense_input \<Rightarrow> expense" where
  "newExpense newId d =
     \<lparr> eid = newId, shipmentId = in_shipmentId d, etype = in_type d,
       category = in_category d, description = in_description d, amount = in_amount d,
       quantity = in_quantity d, unitPrice = in_unitPrice d, reference = in_reference d,
       supplier = in_supplier d, paid = False, paidAt = None \<rparr>"

definition createExpense ::
  "identity \<Rightarrow> string \<Rightarrow> expense_input \<Rightarrow> ledger \<Rightarrow> (fin_error + expense) \<times> ledger" where
  "createExpense u newId d db =
     (if \<not> requireAccountant u then (Inl Forbidden, db)
      else if \<not> createExpenseSchema d then (Inl ValidationError, db)
      else case findShipment db (ucompanyId u) (in_shipmentId d) of
        None \<Rightarrow> (Inl NotFound, db)
      | Some s \<Rightarrow>
          if newId \<in> set (map eid (expenses db)) then (Inl ServerError, db)
          else (Inr (newExpense newId d),
                db\<lparr>expenses := expenses db @ [newExpense newId d]\<rparr>))"

subsection \<open>updateExpense: PATCH /expenses/:id\<close>

text \<open>
  The request body, spread into \<open>updateData\<close>: every column may be present or absent;
  a nullable column may be set to null (\<open>Some None\<close>).
\<close>

record expense_patch =
  p_shipmentId :: "string option"
  p_type :: "expense_type option"
  p_category :: "string option"
  p_description :: "string option"
  p_amount :: "number option"
  p_quantity :: "number option option"
  p_unitPrice :: "number option option"
  p_reference :: "string option option"
  p_supplier :: "string option option"
  p_paid :: "bool option"
  p_paidAt :: "int option option"

definition noPatch :: expense_patch where
  "noPatch = \<lparr> p_shipmentId = None, p_type = None, p_category = None, p_description = None,
     p_amount = None, p_quantity = None, p_unitPrice = None, p_reference = None,
     p_supplier = None, p_paid = None, p_paidAt = None \<rparr>"

definition orKeep :: "'a option \<Rightarrow> 'a \<Rightarrow> 'a" where
  "orKeep p old = (case p of None \<Rightarrow> old | Some v \<Rightarrow> v)"

text \<open>\<open>prisma.expense.update\<close> with \<open>data: updateData\<close>: present columns overwrite.\<close>

definition applyPatch :: "expense_patch \<Rightarrow> expense \<Rightarrow> expense" where
  "applyPatch p e =
     e\<lparr> shipmentId := orKeep (p_shipmentId p) (shipmentId e),
        etype := orKeep (p_type p) (etype e),
        category := orKeep (p_category p) (category e),
        description := orKeep (p_description p) (description e),
        amount := orKeep (p_amount p) (amount e),
        quantity := orKeep (p_quantity p) (quantity e),
        unitPrice := orKeep (p_unitPrice p) (unitPrice e),
        reference := orKeep (p_reference p) (reference e),
        supplier := orKeep (p_supplier p) (supplier e),
        paid := orKeep (p_paid p) (paid e),
        paidAt := orKeep (p_paidAt p) (paidAt e) \<rparr>"

text \<open>
  \<open>const updateData = { ...req.body };
  if (req.body.paid === true && !expense.paid) updateData.paidAt = new Date();\<close>
\<close>

definition updateData :: "expense_patch \<Rightarrow> expense \<Rightarrow> int \<Rightarrow> expense_patch" where
  "updateData body e now =
     (if p_paid body = Some True \<and> \<not> paid e then body\<lparr>p_paidAt := Some (Some now)\<rparr>
      else body)"

definition updateExpense ::
  "identity \<Rightarrow> string \<Rightarrow> expense_patch \<Rightarrow> int \<Rightarrow> ledger \<Rightarrow> (fin_error + expense) \<times> ledger" where
  "updateExpense u i body now db =
     (if \<not> requireAccountant u then (Inl Forbidden, db)
      else case findExpense db (ucompanyId u) i of
        None \<Rightarrow> (Inl NotFound, db)
      | Some e \<Rightarrow>
          (Inr (applyPatch (updateData body e now) e),
           db\<lparr>expenses := updateRow (eid e) (applyPatch (updateData body e now)) (expenses db)\<rparr>))"

subsection \<open>payExpense: POST /expenses/:id/pay\<close>

definition payExpense ::
  "identity \<Rightarrow> string \<Rightarrow> int \<Rightarrow> ledger \<Rightarrow> (fin_error + expense) \<times> ledger" where
  "payExpense u i now db =
     (if \<not> requireAccountant u then (Inl Forbidden, db)
      else case findExpense db (ucompanyId u) i of
        None \<Rightarrow> (Inl NotFound, db)
      | Some e \<Rightarrow>
          if paid e then (Inl AlreadyPaid, db)
          else if etype e = DISBURSEMENT
                  \<and> less_number (payBalance (shipmentExpenses db (shipmentId e))) (amount e)
          then (Inl (InsufficientBalance (payBalance (shipmentExpenses db (shipmentId e)))), db)
          else (Inr (e\<lparr>paid := True, paidAt := Some now\<rparr>),
                db\<lparr>expenses :=
                  updateRow (eid e) (\<lambda>r. r\<lparr>paid := True, paidAt := Some now\<rparr>) (expenses db)\<rparr>))"

subsection \<open>deleteExpense: DELETE /expenses/:id\<close>

definition deleteExpense :: "identity \<Rightarrow> string \<Rightarrow> ledger \<Rightarrow> (fin_error + unit) \<times> ledger" where
  "deleteExpense u i db =
     (if \<not> requireAccountant u then (Inl Forbidden, db)
      else case findExpense db (ucompanyId u) i of
        None \<Rightarrow> (Inl NotFound, db)
      | Some e \<Rightarrow>
          if paid e then (Inl CannotDeletePaid, db)
          else (Inr (), db\<lparr>expenses := deleteRow (eid e) (expenses db)\<rparr>))"

subsection \<open>Sequences of ledger operations\<close>

datatype ledger_op =
    Create identity string expense_input
  | Update identity string expense_patch int
  | Pay identity string int
  | Delete identity string

text \<open>A rejected request leaves the store as it was; an accepted one gives the new store.\<close>

fun step :: "ledger \<Rightarrow> ledger_op \<Rightarrow> ledger" where
  "step db (Create u newId d) = snd (createExpense u newId d db)"
| "step db (Update u i body now) = snd (updateExpense u i body now db)"
| "step db (Pay u i now) = snd (payExpense u i now db)"
| "step db (Delete u i) = snd (deleteExpense u i db)"

text \<open>The stores after each operation of a sequence, in order.\<close>

fun run :: "ledger \<Rightarrow> ledger_op list \<Rightarrow> ledger list" where
  "run db [] = []"
| "run db (x # xs) = step db x # run (step db x) xs"

text \<open>The primary key of the expense table.\<close>

definition uniqueKeys :: "ledger \<Rightarrow> bool" where
  "uniqueKeys db = distinct (map eid (expenses db))"

text \<open>What one expense row adds to the balance of its shipment.\<close>

definition contrib :: "expense \<Rightarrow> rat" where
  "contrib e =
     (if etype e = PROVISION then exactValue (amount e)
      else if paid e then - exactValue (amount e) else 0)"

text \<open>
  A rewritten row takes nothing from a balance: on the same shipment it adds at least
  what it added before; moved to another shipment, it added nothing positive to the
  one it leaves and adds nothing negative to the one it joins.
\<close>

definition keepsContrib :: "expense \<Rightarrow> expense \<Rightarrow> bool" where
  "keepsContrib e e' =
     (if shipmentId e' = shipmentId e then contrib e \<le> contrib e'
      else contrib e \<le> 0 \<and> 0 \<le> contrib e')"

text \<open>
  The operations under which the balance is kept. A patch is guarded when it is refused
  or rewrites the row without taking from a balance; a deletion when it is refused (the
  caller's role, a paid row) or removes a row that adds nothing positive, that is
  anything but an unpaid PROVISION of a positive amount. Creations and payments are not
  restricted.
\<close>

fun guarded :: "ledger \<Rightarrow> ledger_op \<Rightarrow> bool" where
  "guarded db (Create u newId d) = True"
| "guarded db (Update u i body now) =
     (case findExpense db (ucompanyId u) i of
        None \<Rightarrow> True
      | Some e \<Rightarrow> \<not> requireAccountant u
                  \<or> keepsContrib e (applyPatch (updateData body e now) e))"
| "guarded db (Pay u i now) = True"
| "guarded db (Delete u i) =
     (case findExpense db (ucompanyId u) i of
        None \<Rightarrow> True
      | Some e \<Rightarrow> \<not> requireAccountant u \<or> paid e \<or> contrib e \<le> 0)"

text \<open>The ledger is in the exact range when the rows of each of its shipments are.\<close>

definition exactLedger :: "ledger \<Rightarrow> bool" where
  "exactLedger db =
     list_all (\<lambda>s. wholeRows (filter (\<lambda>e. shipmentId e = s) (expenses db)))
       (map shipmentId (expenses db))"

text \<open>
  A guarded run: every operation is guarded in the store it meets, and the store it
  leaves is in the exact range.
\<close>

fun guardedRun :: "ledger \<Rightarrow> ledger_op list \<Rightarrow> bool" where
  "guardedRun db [] = True"
| "guardedRun db (x # xs) =
     (guarded db x \<and> exactLedger (step db x) \<and> guardedRun (step db x) xs)"

subsection \<open>A small ledger to run the handlers on\<close>

definition accountant1 :: identity where
  "accountant1 = \<lparr> uid = ''u1'', uemail = ''compta@agence.gn'', uname = ''Awa'',
     urole = ACCOUNTANT, ucompanyId = ''c1'' \<rparr>"

definition expenseInput :: "expense_type \<Rightarrow> rat \<Rightarrow> expense_input" where
  "expenseInput t a = \<lparr> in_shipmentId = ''s1'', in_type = t, in_category = ''AUTRE'',
     in_description = ''x'', in_amount = Fin a, in_quantity = None, in_unitPrice = None,
     in_reference = None, in_supplier = None \<rparr>"

definition row :: "string \<Rightarrow> expense_type \<Rightarrow> rat \<Rightarrow> bool \<Rightarrow> int option \<Rightarrow> expense" where
  "row i t a p ts = \<lparr> eid = i, shipmentId = ''s1'', etype = t, category = ''AUTRE'',
     description = ''x'', amount = Fin a, quantity = None, unitPrice = None,
     reference = None, supplier = None, paid = p, paidAt = ts \<rparr>"

definition ledgerOf :: "expense list \<Rightarrow> ledger" where
  "ledgerOf es = \<lparr> shipments = [\<lparr> sid = ''s1'', companyId = ''c1'' \<rparr>], expenses = es \<rparr>"

section \<open>Credential and session manager (server/routes/auth.ts)\<close>

subsection \<open>Signed tokens\<close>

text \<open>
  The payloads the server signs: \<open>{ userId, role, companyId }\<close> for an access token and
  \<open>{ userId, type: 'refresh' }\<close> for a refresh token.
\<close>

datatype claims = AccessClaims string role string | RefreshClaims string

fun claimsUserId :: "claims \<Rightarrow> string" where
  "claimsUserId (AccessClaims u r c) = u"
| "claimsUserId (RefreshClaims u) = u"

text \<open>
  A token of the jsonwebtoken library, symbolically: its payload, the secret it was
  signed with, and the two time stamps in seconds that \<open>jwt.sign\<close> adds.
\<close>

record jwt =
  payload :: claims
  signedWith :: string
  issuedAt :: int
  expiresAtSec :: int

text \<open>What a cookie or header can carry: a token, or a string that is not one.\<close>

datatype credential = Malformed string | Signed jwt

text \<open>\<open>jwt.sign(payload, secret, { expiresIn })\<close> when the clock shows \<open>now\<close> milliseconds.\<close>

definition jwtSign :: "claims \<Rightarrow> string \<Rightarrow> int \<Rightarrow> int \<Rightarrow> credential" where
  "jwtSign pl secret seconds now =
     Signed \<lparr> payload = pl, signedWith = secret, issuedAt = now div 1000,
              expiresAtSec = now div 1000 + seconds \<rparr>"

datatype verify_result = Decoded claims | TokenExpiredError | JsonWebTokenError

text \<open>
  \<open>jwt.verify(token, secret)\<close>: the signature is checked first, then the expiry against
  the clock in whole seconds.
\<close>

definition jwtVerify :: "credential \<Rightarrow> string \<Rightarrow> int \<Rightarrow> verify_result" where
  "jwtVerify c secret now =
     (case c of
        Malformed s \<Rightarrow> JsonWebTokenError
      | Signed t \<Rightarrow>
          if signedWith t \<noteq> secret then JsonWebTokenError
          else if expiresAtSec t \<le> now div 1000 then TokenExpiredError
          else Decoded (payload t))"

record env =
  JWT_SECRET :: string
  REFRESH_TOKEN_SECRET :: string

text \<open>\<open>generateTokens\<close>: 15 minutes for the access token, 7 days for the refresh token.\<close>

definition generateTokens :: "env \<Rightarrow> int \<Rightarrow> string \<Rightarrow> role \<Rightarrow> string \<Rightarrow> credential \<times> credential" where
  "generateTokens e now userId r cid =
     (jwtSign (AccessClaims userId r cid) (JWT_SECRET e) (15 * 60) now,
      jwtSign (RefreshClaims userId) (REFRESH_TOKEN_SECRET e) (7 * 24 * 60 * 60) now)"

subsection \<open>Tables\<close>

record company =
  company_id :: string
  company_name :: string

text \<open>A user row as the handlers read it, with \<open>include: { company: true }\<close>.\<close>

record user =
  user_id :: string
  email :: string
  password :: string
  user_name :: string
  user_role :: role
  user_companyId :: string
  user_company :: company
  emailVerified :: bool
  isActive :: bool
  verificationCode :: "string option"
  codeExpiresAt :: "int option"
  failedAttempts :: int
  lockedUntil :: "int option"
  lastLogin :: "int option"

record refresh_row =
  token :: credential
  rt_userId :: string
  expiresAt :: int
  revokedAt :: "int option"

text \<open>The calls made to the e-mail service.\<close>

datatype mail = VerificationEmail string string string | WelcomeEmail string string string

record authdb =
  users :: "user list"
  refreshTokens :: "refresh_row list"
  outbox :: "mail list"

definition findUserByEmail :: "authdb \<Rightarrow> string \<Rightarrow> user option" where
  "findUserByEmail db e = find (\<lambda>u. email u = e) (users db)"

definition findUserById :: "authdb \<Rightarrow> string \<Rightarrow> user option" where
  "findUserById db i = find (\<lambda>u. user_id u = i) (users db)"

definition updateUser :: "string \<Rightarrow> (user \<Rightarrow> user) \<Rightarrow> authdb \<Rightarrow> authdb" where
  "updateUser i f db = db\<lparr>users := map (\<lambda>u. if user_id u = i then f u else u) (users db)\<rparr>"

subsection \<open>Replies\<close>

text \<open>
  The message texts of the handlers: \<open>BadCredentials\<close> is "Email ou mot de passe
  incorrect", \<open>AccountLocked m\<close> is "Compte verrouille. Reessayez dans m minute(s)",
  \<open>TooManyAttempts\<close> is "Trop de tentatives. Compte verrouille pour 15 minutes.",
  \<open>EmailNotVerified\<close> is "Email non verifie. Un nouveau code a ete envoye.",
  \<open>CodeResent\<close> is "Si ce compte existe, un code a ete envoye".
\<close>

datatype message =
    InvalidData
  | BadCredentials
  | AccountLocked int
  | TooManyAttempts
  | EmailNotVerified
  | AccountDisabled
  | CodeResent
  | RefreshTokenMissing
  | TokenInvalidOrExpired
  | TokenInvalid

record reply =
  status :: nat
  success :: bool
  message :: "message option"
  code :: "string option"
  requiresVerification :: bool
  userData :: "identity option"
  accessCookie :: "credential option"
  refreshCookie :: "credential option"

definition failure :: "nat \<Rightarrow> message \<Rightarrow> reply" where
  "failure st m = \<lparr> status = st, success = False, message = Some m, code = None,
     requiresVerification = False, userData = None, accessCookie = None,
     refreshCookie = None \<rparr>"

definition okReply :: reply where
  "okReply = \<lparr> status = 200, success = True, message = None, code = None,
     requiresVerification = False, userData = None, accessCookie = None,
     refreshCookie = None \<rparr>"

subsection \<open>Library functions taken as parameters\<close>

text \<open>
  The e-mail format check of the validation schemas and \<open>bcrypt.compare(password, hash)\<close>.
\<close>

record lib =
  isEmail :: "string \<Rightarrow> bool"
  bcryptCompare :: "string \<Rightarrow> string \<Rightarrow> bool"

text \<open>\<open>toLowerCase\<close> on the characters an accepted e-mail address can hold.\<close>

definition lowerChar :: "char \<Rightarrow> char" where
  "lowerChar c = (if CHR ''A'' \<le> c \<and> c \<le> CHR ''Z'' then char_of (of_char c + (32::nat)) else c)"

definition toLowerCase :: "string \<Rightarrow> string" where
  "toLowerCase s = map lowerChar s"

subsection \<open>resendCode: POST /resend-code\<close>

text \<open>The new code and its expiry, 15 minutes after \<open>now\<close>, written to the user row.\<close>

definition issueCode :: "string \<Rightarrow> int \<Rightarrow> user \<Rightarrow> user" where
  "issueCode newCode now u =
     u\<lparr>verificationCode := Some newCode, codeExpiresAt := Some (now + 15 * 60 * 1000)\<rparr>"

definition sendVerificationEmail :: "string \<Rightarrow> string \<Rightarrow> string \<Rightarrow> authdb \<Rightarrow> authdb" where
  "sendVerificationEmail to newCode companyName db =
     db\<lparr>outbox := outbox db @ [VerificationEmail to newCode companyName]\<rparr>"

definition resentReply :: reply where
  "resentReply = okReply\<lparr>message := Some CodeResent\<rparr>"

text \<open>
  A body that fails \<open>resendCodeSchema\<close> makes \<open>parse\<close> throw; the \<open>catch\<close> sends the same
  reply as the normal path.
\<close>

definition resendCode :: "lib \<Rightarrow> int \<Rightarrow> string \<Rightarrow> string \<Rightarrow> authdb \<Rightarrow> reply \<times> authdb" where
  "resendCode L now newCode bodyEmail db =
     (if \<not> isEmail L bodyEmail then (resentReply, db)
      else case findUserByEmail db (toLowerCase bodyEmail) of
        None \<Rightarrow> (resentReply, db)
      | Some u \<Rightarrow>
          if \<not> emailVerified u
          then (resentReply,
                sendVerificationEmail bodyEmail newCode (company_name (user_company u))
                  (updateUser (user_id u) (issueCode newCode now) db))
          else (resentReply, db))"

subsection \<open>login: POST /login\<close>

record login_body =
  body_email :: string
  body_password :: string

definition loginSchema :: "lib \<Rightarrow> login_body \<Rightarrow> bool" where
  "loginSchema L b = (isEmail L (body_email b) \<and> body_password b \<noteq> [])"

text \<open>\<open>user.lockedUntil && user.lockedUntil > new Date()\<close>.\<close>

definition isLocked :: "user \<Rightarrow> int \<Rightarrow> bool" where
  "isLocked u now = (case lockedUntil u of None \<Rightarrow> False | Some t \<Rightarrow> now < t)"

text \<open>
  \<open>Math.ceil((lockedUntil - now) / 60000)\<close>; on millisecond time stamps the quotient is
  far below the size at which a double would lose the fraction.
\<close>

definition minutesLeft :: "int \<Rightarrow> int \<Rightarrow> int" where
  "minutesLeft t now = - ((now - t) div 60000)"

definition userView :: "user \<Rightarrow> identity" where
  "userView u = \<lparr> uid = user_id u, uemail = email u, uname = user_name u,
     urole = user_role u, ucompanyId = company_id (user_company u) \<rparr>"

definition recordFailure :: "int \<Rightarrow> user \<Rightarrow> user" where
  "recordFailure now u =
     u\<lparr>failedAttempts := failedAttempts u + 1,
       lockedUntil := (if failedAttempts u + 1 \<ge> 5 then Some (now + 15 * 60 * 1000) else None)\<rparr>"

definition recordSuccess :: "int \<Rightarrow> user \<Rightarrow> user" where
  "recordSuccess now u = u\<lparr>failedAttempts := 0, lockedUntil := None, lastLogin := Some now\<rparr>"

definition saveRefreshToken :: "credential \<Rightarrow> string \<Rightarrow> int \<Rightarrow> authdb \<Rightarrow> authdb" where
  "saveRefreshToken t userId now db =
     db\<lparr>refreshTokens := refreshTokens db @
        [\<lparr> token = t, rt_userId = userId, expiresAt = now + 7 * 24 * 60 * 60 * 1000,
           revokedAt = None \<rparr>]\<rparr>"

definition login ::
  "env \<Rightarrow> lib \<Rightarrow> int \<Rightarrow> string \<Rightarrow> login_body \<Rightarrow> authdb \<Rightarrow> reply \<times> authdb" where
  "login e L now newCode body db =
     (if \<not> loginSchema L body then (failure 400 InvalidData, db)
      else case findUserByEmail db (toLowerCase (body_email body)) of
        None \<Rightarrow> (failure 401 BadCredentials, db)
      | Some u \<Rightarrow>
          if isLocked u now
          then (failure 423 (AccountLocked (minutesLeft (the (lockedUntil u)) now)), db)
          else if \<not> emailVerified u
          then ((failure 403 EmailNotVerified)
                  \<lparr>requiresVerification := True, code := Some ''EMAIL_NOT_VERIFIED''\<rparr>,
                sendVerificationEmail (body_email body) newCode (company_name (user_company u))
                  (updateUser (user_id u) (issueCode newCode now) db))
          else if \<not> isActive u then (failure 401 AccountDisabled, db)
          else if \<not> bcryptCompare L (body_password body) (password u)
          then (failure 401 (if failedAttempts u + 1 \<ge> 5 then TooManyAttempts else BadCredentials),
                updateUser (user_id u) (recordFailure now) db)
          else (case generateTokens e now (user_id u) (user_role u) (user_companyId u) of
                  (accessToken, refreshToken) \<Rightarrow>
                    (okReply\<lparr>userData := Some (userView u), accessCookie := Some accessToken,
                             refreshCookie := Some refreshToken\<rparr>,
                     updateUser (user_id u) (recordSuccess now)
                       (saveRefreshToken refreshToken (user_id u) now db))))"

subsection \<open>refresh: POST /refresh\<close>

text \<open>
  \<open>prisma.refreshToken.findFirst({ where: { token, userId, revokedAt: null,
  expiresAt: { gt: new Date() } } })\<close>.
\<close>

definition findStoredToken :: "authdb \<Rightarrow> credential \<Rightarrow> string \<Rightarrow> int \<Rightarrow> refresh_row option" where
  "findStoredToken db t userId now =
     find (\<lambda>r. token r = t \<and> rt_userId r = userId \<and> revokedAt r = None \<and> now < expiresAt r)
       (refreshTokens db)"

text \<open>
  What JavaScript takes for true in \<open>if (!token)\<close>: a cookie that is present and is
  not the empty string.
\<close>

definition truthy :: "credential option \<Rightarrow> bool" where
  "truthy c = (c \<noteq> None \<and> c \<noteq> Some (Malformed []))"

text \<open>
  The refresh cookie may be absent or empty. Everything thrown inside the handler, a
  failed \<open>jwt.verify\<close> included, is answered by the \<open>catch\<close> with 401 "Token invalide".
\<close>

definition refresh :: "env \<Rightarrow> int \<Rightarrow> credential option \<Rightarrow> authdb \<Rightarrow> reply \<times> authdb" where
  "refresh e now cookie db =
     (if \<not> truthy cookie then (failure 401 RefreshTokenMissing, db)
      else case jwtVerify (the cookie) (REFRESH_TOKEN_SECRET e) now of
        Decoded decoded \<Rightarrow>
          (case findStoredToken db (the cookie) (claimsUserId decoded) now of
             None \<Rightarrow> (failure 401 TokenInvalidOrExpired, db)
           | Some storedToken \<Rightarrow>
               (case findUserById db (rt_userId storedToken) of
                  None \<Rightarrow> (failure 401 TokenInvalid, db)
                | Some u \<Rightarrow>
                    (okReply\<lparr>accessCookie :=
                       Some (jwtSign (AccessClaims (user_id u) (user_role u) (user_companyId u))
                               (JWT_SECRET e) (15 * 60) now)\<rparr>, db)))
      | TokenExpiredError \<Rightarrow> (failure 401 TokenInvalid, db)
      | JsonWebTokenError \<Rightarrow> (failure 401 TokenInvalid, db))"

subsection \<open>logout: POST /logout\<close>

text \<open>
  \<open>prisma.refreshToken.updateMany({ where: { userId, revokedAt: null },
  data: { revokedAt: new Date() } })\<close>, then both cookies are cleared.
\<close>

definition revokeAll :: "string \<Rightarrow> int \<Rightarrow> refresh_row list \<Rightarrow> refresh_row list" where
  "revokeAll userId now rs =
     map (\<lambda>r. if rt_userId r = userId \<and> revokedAt r = None then r\<lparr>revokedAt := Some now\<rparr> else r) rs"

definition logout :: "identity \<Rightarrow> int \<Rightarrow> authdb \<Rightarrow> reply \<times> authdb" where
  "logout u now db = (okReply, db\<lparr>refreshTokens := revokeAll (uid u) now (refreshTokens db)\<rparr>)"

subsection \<open>The guard: the auth middleware (server/middleware/auth.ts)\<close>

datatype guard_result =
    Accepted identity
  | NO_TOKEN
  | TOKEN_EXPIRED
  | INVALID_TOKEN
  | USER_NOT_FOUND
  | ACCOUNT_DISABLED
  | EMAIL_NOT_VERIFIED

text \<open>
  \<open>req.cookies?.accessToken || req.headers.authorization?.replace('Bearer ', '')\<close>: the
  cookie wins unless it is absent or the empty string.
\<close>

definition requestToken :: "credential option \<Rightarrow> credential option \<Rightarrow> credential option" where
  "requestToken cookie bearer = (if truthy cookie then cookie else bearer)"

definition auth :: "env \<Rightarrow> int \<Rightarrow> credential option \<Rightarrow> credential option \<Rightarrow> authdb \<Rightarrow> guard_result" where
  "auth e now cookie bearer db =
     (if \<not> truthy (requestToken cookie bearer) then NO_TOKEN
      else case jwtVerify (the (requestToken cookie bearer)) (JWT_SECRET e) now of
        TokenExpiredError \<Rightarrow> TOKEN_EXPIRED
      | JsonWebTokenError \<Rightarrow> INVALID_TOKEN
      | Decoded decoded \<Rightarrow>
          (case findUserById db (claimsUserId decoded) of
             None \<Rightarrow> USER_NOT_FOUND
           | Some u \<Rightarrow>
               if \<not> isActive u then ACCOUNT_DISABLED
               else if \<not> emailVerified u then EMAIL_NOT_VERIFIED
               else Accepted \<lparr> uid = user_id u, uemail = email u, uname = user_name u,
                               urole = user_role u, ucompanyId = user_companyId u \<rparr>))"

subsection \<open>A small user table to run the handlers on\<close>

definition env1 :: env where
  "env1 = \<lparr> JWT_SECRET = ''k-access'', REFRESH_TOKEN_SECRET = ''k-refresh'' \<rparr>"

text \<open>
  A stand-in for the two library functions: an address is accepted when it holds an
  \<open>@\<close>, and a password matches a hash when the hash is the password behind \<open>h:\<close>.
\<close>

definition lib1 :: lib where
  "lib1 = \<lparr> isEmail = (\<lambda>s. CHR ''@'' \<in> set s), bcryptCompare = (\<lambda>p h. h = ''h:'' @ p) \<rparr>"

definition userRow :: "bool \<Rightarrow> int \<Rightarrow> int option \<Rightarrow> user" where
  "userRow verified fails locked =
     \<lparr> user_id = ''u1'', email = ''a@b.gn'', password = ''h:secret'', user_name = ''Awa'',
       user_role = DIRECTOR, user_companyId = ''c1'',
       user_company = \<lparr> company_id = ''c1'', company_name = ''Agence'' \<rparr>,
       emailVerified = verified, isActive = verified, verificationCode = None,
       codeExpiresAt = None, failedAttempts = fails, lockedUntil = locked,
       lastLogin = None \<rparr>"

definition authdbOf :: "user \<Rightarrow> authdb" where
  "authdbOf u = \<lparr> users = [u], refreshTokens = [], outbox = [] \<rparr>"

definition loginBody :: "string \<Rightarrow> login_body" where
  "loginBody pw = \<lparr> body_email = ''A@b.gn'', body_password = pw \<rparr>"

subsection \<open>Stored refresh credentials and their owners\<close>

text \<open>
  A stored row is well formed when the payload of its token names the user the row
  belongs to, as in every row that login writes.
\<close>

definition issuedTo :: "credential \<Rightarrow> string \<Rightarrow> bool" where
  "issuedTo c i = (case c of Malformed s \<Rightarrow> True | Signed j \<Rightarrow> claimsUserId (payload j) = i)"

definition wellFormedRow :: "refresh_row \<Rightarrow> bool" where
  "wellFormedRow r = issuedTo (token r) (rt_userId r)"

section \<open>Shipment lifecycle store (server/routes/shipments.ts)\<close>

subsection \<open>JavaScript values\<close>

text \<open>
  The values of a parsed JSON request body and of the columns of a row. \<open>JDate\<close> is a
  \<open>Date\<close> object with its time value in milliseconds, \<open>None\<close> for an Invalid Date; it
  never comes from a parsed body.
\<close>

datatype jsvalue =
    JNull
  | JBool bool
  | JNum number
  | JStr string
  | JDate "int option"
  | JArr "jsvalue list"
  | JObj "(string \<times> jsvalue) list"

text \<open>What an \<open>if\<close>, \<open>&&\<close> or \<open>? :\<close> takes for true.\<close>

fun truthyValue :: "jsvalue \<Rightarrow> bool" where
  "truthyValue JNull = False"
| "truthyValue (JBool b) = b"
| "truthyValue (JNum n) = (n \<noteq> Fin 0 \<and> n \<noteq> NaN)"
| "truthyValue (JStr s) = (s \<noteq> [])"
| "truthyValue (JDate t) = True"
| "truthyValue (JArr xs) = True"
| "truthyValue (JObj kvs) = True"

text \<open>\<open>===\<close>: primitives by value, objects by identity (two values met here are never one object).\<close>

fun strictEquals :: "jsvalue \<Rightarrow> jsvalue \<Rightarrow> bool" where
  "strictEquals JNull JNull = True"
| "strictEquals (JBool a) (JBool b) = (a = b)"
| "strictEquals (JNum a) (JNum b) = (a = b \<and> a \<noteq> NaN)"
| "strictEquals (JStr a) (JStr b) = (a = b)"
| "strictEquals x y = False"

subsection \<open>Tables\<close>

text \<open>
  A shipment row holds its columns by name; among them \<open>id\<close>, \<open>companyId\<close> and \<open>status\<close>.
  A request body is an object of the same shape, each key once.
\<close>

type_synonym fields = "(string \<times> jsvalue) list"

definition column :: "fields \<Rightarrow> string \<Rightarrow> jsvalue option" where
  "column r k = map_of r k"

fun setColumn :: "string \<Rightarrow> jsvalue \<Rightarrow> fields \<Rightarrow> fields" where
  "setColumn k v [] = [(k, v)]"
| "setColumn k v ((k', v') # rest) =
     (if k' = k then (k, v) # rest else (k', v') # setColumn k v rest)"

text \<open>
  The action text of a timeline event: \<open>Created\<close> is "Dossier cree", \<open>StatusChanged v\<close> is
  "Statut change: " followed by the value \<open>v\<close> as the template string prints it, and
  \<open>ActionText\<close> is any other text.
\<close>

datatype timeline_action = Created | StatusChanged jsvalue | ActionText jsvalue

record timeline_event =
  ev_shipmentId :: string
  ev_action :: timeline_action
  ev_userId :: jsvalue
  ev_userName :: jsvalue

record shipdb =
  shipmentRows :: "fields list"
  timeline :: "timeline_event list"

subsection \<open>Library behaviour taken as parameters\<close>

text \<open>
  What the handler leaves to the runtime and to the store client, whose schema is not
  among the sources: the time value of \<open>new Date(v)\<close> (\<open>None\<close> for an Invalid Date); the
  column value that \<open>prisma.shipment.update\<close> writes for a value given under a key of
  \<open>data\<close> (\<open>None\<close> when it refuses the key or the value and throws); and the nested write it
  performs for a value given under the relation key \<open>timeline\<close>, on the events of the
  store, for the shipment with the given key (\<open>None\<close> when it throws).
\<close>

record store_lib =
  dateValue :: "jsvalue \<Rightarrow> int option"
  storedValue :: "string \<Rightarrow> jsvalue \<Rightarrow> jsvalue option"
  writeTimeline :: "jsvalue \<Rightarrow> string \<Rightarrow> timeline_event list \<Rightarrow> timeline_event list option"

subsection \<open>update: PATCH /:id\<close>

text \<open>\<open>prisma.shipment.findFirst({ where: { id, companyId } })\<close>.\<close>

definition findShipmentRow :: "shipdb \<Rightarrow> string \<Rightarrow> string \<Rightarrow> fields option" where
  "findShipmentRow db c i =
     find (\<lambda>r. column r ''id'' = Some (JStr i) \<and> column r ''companyId'' = Some (JStr c))
       (shipmentRows db)"

text \<open>
  \<open>data: { ...req.body, eta: req.body.eta ? new Date(req.body.eta) : undefined, ... }\<close>:
  the whole body, with each of the three dates replaced by a \<open>Date\<close> when the body's value
  is truthy and by \<open>undefined\<close>, which the store ignores, otherwise.
\<close>

definition dateEntry :: "store_lib \<Rightarrow> fields \<Rightarrow> string \<Rightarrow> fields" where
  "dateEntry L body k =
     (case column body k of
        None \<Rightarrow> []
      | Some v \<Rightarrow> if truthyValue v then [(k, JDate (dateValue L v))] else [])"

definition shipmentData :: "store_lib \<Rightarrow> fields \<Rightarrow> fields" where
  "shipmentData L body =
     filter (\<lambda>kv. fst kv \<noteq> ''eta'' \<and> fst kv \<noteq> ''ata'' \<and> fst kv \<noteq> ''deliveryDate'') body
     @ dateEntry L body ''eta'' @ dateEntry L body ''ata'' @ dateEntry L body ''deliveryDate''"

text \<open>
  \<open>prisma.shipment.update({ where: { id }, data })\<close>: every key of \<open>data\<close> but the relation
  key is written to its column, the relation key \<open>timeline\<close> is a nested write on the
  events; the call throws, and writes nothing, when a key or value is refused, when no
  row has the key, or when the new key of the row is the key of another row.
\<close>

fun writeRow :: "store_lib \<Rightarrow> fields \<Rightarrow> fields \<Rightarrow> fields option" where
  "writeRow L [] r = Some r"
| "writeRow L ((k, v) # kvs) r =
     (if k = ''timeline'' then writeRow L kvs r
      else case storedValue L k v of
        None \<Rightarrow> None
      | Some w \<Rightarrow> writeRow L kvs (setColumn k w r))"

definition shipmentUpdate ::
  "store_lib \<Rightarrow> string \<Rightarrow> fields \<Rightarrow> shipdb \<Rightarrow> (fields \<times> shipdb) option" where
  "shipmentUpdate L i data db =
     (case find (\<lambda>r. column r ''id'' = Some (JStr i)) (shipmentRows db) of
        None \<Rightarrow> None
      | Some r \<Rightarrow>
          (case writeRow L data r of
             None \<Rightarrow> None
           | Some r' \<Rightarrow>
               if column r' ''id'' \<noteq> Some (JStr i)
                  \<and> column r' ''id'' \<in> set (map (\<lambda>x. column x ''id'') (shipmentRows db))
               then None
               else (case (case column data ''timeline'' of
                             None \<Rightarrow> Some (timeline db)
                           | Some v \<Rightarrow> writeTimeline L v i (timeline db)) of
                       None \<Rightarrow> None
                     | Some evs \<Rightarrow>
                         Some (r', \<lparr> shipmentRows =
                                       map (\<lambda>x. if column x ''id'' = Some (JStr i) then r' else x)
                                         (shipmentRows db),
                                     timeline = evs \<rparr>))))"

text \<open>\<open>prisma.timelineEvent.create\<close> for a status change made by the caller.\<close>

definition statusEvent :: "identity \<Rightarrow> string \<Rightarrow> jsvalue \<Rightarrow> timeline_event" where
  "statusEvent u i st =
     \<lparr> ev_shipmentId = i, ev_action = StatusChanged st, ev_userId = JStr (uid u),
       ev_userName = JStr (uname u) \<rparr>"

text \<open>\<open>req.body.status && req.body.status !== shipment.status\<close>.\<close>

definition statusChanges :: "fields \<Rightarrow> fields \<Rightarrow> bool" where
  "statusChanges body s =
     (case column body ''status'' of
        None \<Rightarrow> False
      | Some v \<Rightarrow>
          truthyValue v
          \<and> (case column s ''status'' of None \<Rightarrow> True | Some w \<Rightarrow> \<not> strictEquals v w))"

datatype ship_reply = Updated fields | ShipForbidden | ShipNotFound | ShipServerError

fun ship_status_code :: "ship_reply \<Rightarrow> nat" where
  "ship_status_code (Updated s) = 200"
| "ship_status_code ShipForbidden = 403"
| "ship_status_code ShipNotFound = 404"
| "ship_status_code ShipServerError = 500"

text \<open>
  The handler awaits three store calls in a row: the lookup, the row update and, for a
  status change, the creation of the timeline event. They are separate calls, not one
  transaction; \<open>failsAt\<close> names the call (0, 1 or 2) at which the store fails for a reason
  of its own (a lost connection, say), if any. What was written before a failing call
  stays written, and the \<open>catch\<close> answers 500.
\<close>

definition updateShipment ::
  "store_lib \<Rightarrow> identity \<Rightarrow> string \<Rightarrow> fields \<Rightarrow> nat option \<Rightarrow> shipdb \<Rightarrow> ship_reply \<times> shipdb" where
  "updateShipment L u i body failsAt db =
     (if \<not> requireAgent u then (ShipForbidden, db)
      else if failsAt = Some 0 then (ShipServerError, db)
      else case findShipmentRow db (ucompanyId u) i of
        None \<Rightarrow> (ShipNotFound, db)
      | Some s \<Rightarrow>
          (case (if failsAt = Some 1 then None else shipmentUpdate L i (shipmentData L body) db) of
             None \<Rightarrow> (ShipServerError, db)
           | Some (updated, db1) \<Rightarrow>
               if statusChanges body s
               then (if failsAt = Some 2 then (ShipServerError, db1)
                     else (Updated updated,
                           db1\<lparr>timeline := timeline db1 @
                                  [statusEvent u i (the (column body ''status''))]\<rparr>))
               else (Updated updated, db1)))"

subsection \<open>A small shipment table to run the handler on\<close>

definition agent1 :: identity where
  "agent1 = \<lparr> uid = ''u2'', uemail = ''agent@agence.gn'', uname = ''Binta'',
     urole = AGENT, ucompanyId = ''c1'' \<rparr>"

definition shipmentIn :: "string \<Rightarrow> fields" where
  "shipmentIn st = [(''id'', JStr ''s1''), (''companyId'', JStr ''c1''), (''status'', JStr st)]"

definition shipdbOf :: "fields \<Rightarrow> timeline_event list \<Rightarrow> shipdb" where
  "shipdbOf s evs = \<lparr> shipmentRows = [s], timeline = evs \<rparr>"

text \<open>
  A store client that writes every value as given, takes a number for the time value of
  a date, and under \<open>timeline\<close> performs the nested \<open>create\<close> that the create handler uses:
  \<open>timeline: { create: { action, userId, userName } }\<close>, one object or an array of them.
\<close>

definition eventOf :: "string \<Rightarrow> jsvalue \<Rightarrow> timeline_event option" where
  "eventOf i v =
     (case v of
        JObj f \<Rightarrow>
          (case (map_of f ''action'', map_of f ''userId'', map_of f ''userName'') of
             (Some a, Some ui, Some un) \<Rightarrow>
               Some \<lparr> ev_shipmentId = i, ev_action = ActionText a, ev_userId = ui,
                      ev_userName = un \<rparr>
           | _ \<Rightarrow> None)
      | _ \<Rightarrow> None)"

definition nestedCreate ::
  "jsvalue \<Rightarrow> string \<Rightarrow> timeline_event list \<Rightarrow> timeline_event list option" where
  "nestedCreate v i evs =
     (case v of
        JObj kvs \<Rightarrow>
          (case map_of kvs ''create'' of
             Some (JArr xs) \<Rightarrow>
               if list_all (\<lambda>x. eventOf i x \<noteq> None) xs
               then Some (evs @ map (\<lambda>x. the (eventOf i x)) xs) else None
           | Some x \<Rightarrow> (case eventOf i x of None \<Rightarrow> None | Some e \<Rightarrow> Some (evs @ [e]))
           | None \<Rightarrow> None)
      | _ \<Rightarrow> None)"

definition lib2 :: store_lib where
  "lib2 = \<lparr> dateValue = (\<lambda>v. case v of JNum (Fin q) \<Rightarrow> Some \<lfloor>q\<rfloor> | _ \<Rightarrow> None),
            storedValue = (\<lambda>k v. Some v),
            writeTimeline = nestedCreate \<rparr>"

section \<open>Customs duty calculator (server/routes/ai.ts)\<close>

subsection \<open>POST /calculate-customs\<close>

text \<open>
  \<open>rates[currency] || rates.USD\<close> on the table \<open>{ USD: 8646, EUR: 9400, GNF: 1 }\<close>. Under a
  name that every object inherits the table has a function (an object for \<open>__proto__\<close>),
  which is truthy and makes every product NaN; that entry is shown as NaN.
\<close>

definition inheritedNames :: "string list" where
  "inheritedNames =
     [''constructor'', ''__defineGetter__'', ''__defineSetter__'', ''hasOwnProperty'',
      ''__lookupGetter__'', ''__lookupSetter__'', ''isPrototypeOf'', ''propertyIsEnumerable'',
      ''toString'', ''valueOf'', ''__proto__'', ''toLocaleString'']"

definition rateOf :: "string \<Rightarrow> number" where
  "rateOf currency =
     (if currency = ''USD'' then Fin 8646
      else if currency = ''EUR'' then Fin 9400
      else if currency = ''GNF'' then Fin 1
      else if currency \<in> set inheritedNames then NaN
      else Fin 8646)"

text \<open>The decimal literals of the source, each read as the nearest double.\<close>

definition ddRate :: number where "ddRate = toDouble (35 / 100)"
definition rtlRate :: number where "rtlRate = toDouble (2 / 100)"
definition pcRate :: number where "pcRate = toDouble (5 / 1000)"
definition caRate :: number where "caRate = toDouble (25 / 10000)"
definition tvaRate :: number where "tvaRate = toDouble (18 / 100)"

record customs =
  exchangeRate :: number
  cifValueGnf :: number
  dd :: number
  rtl :: number
  pc :: number
  ca :: number
  tvaBase :: number
  tva :: number
  bfu :: number
  totalDuties :: number

definition calculateCustoms :: "number \<Rightarrow> string \<Rightarrow> customs" where
  "calculateCustoms v currency =
     (let rate = rateOf currency;
          valueGnf = times_number v rate;
          dd = mathRound (times_number valueGnf ddRate);
          rtl = mathRound (times_number valueGnf rtlRate);
          pc = mathRound (times_number valueGnf pcRate);
          ca = mathRound (times_number valueGnf caRate);
          tvaBase = plus_number valueGnf dd;
          tva = mathRound (times_number tvaBase tvaRate);
          bfu = (if greater_number valueGnf 100000000 then Fin 500000
                 else if greater_number valueGnf 50000000 then Fin 350000
                 else Fin 200000);
          totalDuties =
            plus_number (plus_number (plus_number (plus_number (plus_number dd rtl) pc) ca) tva) bfu
      in \<lparr> exchangeRate = rate, cifValueGnf = valueGnf, dd = dd, rtl = rtl, pc = pc, ca = ca,
           tvaBase = tvaBase, tva = tva, bfu = bfu, totalDuties = totalDuties \<rparr>)"

text \<open>
  The value in the words of the specification: rounding half up to the whole unit of the
  exact product with the decimal rate.
\<close>

definition roundHalfUp :: "rat \<Rightarrow> int" where
  "roundHalfUp x = \<lfloor>x + 1 / 2\<rfloor>"

section \<open>General facts about lists\<close>

lemma find_map_preserved:
  assumes "\<And>x. P (f x) = P x"
  shows "find P (map f xs) = map_option f (find P xs)"
  using assms by (induction xs) simp_all

lemma find_unique_key:
  assumes "distinct (map k xs)" and "x \<in> set xs"
  shows "find (\<lambda>y. k y = k x) xs = Some x"
  using assms
proof (induction xs)
  case Nil
  then show ?case by simp
next
  case (Cons a xs)
  show ?case
  proof (cases "k a = k x")
    case True
    have "a = x"
    proof (rule ccontr)
      assume "a \<noteq> x"
      then have "x \<in> set xs" using Cons.prems(2) by simp
      then have "k x \<in> k ` set xs" by (rule imageI)
      then show False using Cons.prems(1) True by simp
    qed
    then show ?thesis by simp
  next
    case False
    then have "x \<in> set xs" using Cons.prems(2) by auto
    then show ?thesis using Cons.IH Cons.prems(1) False by simp
  qed
qed

section \<open>Properties of the double arithmetic\<close>

subsection \<open>Evaluating the double arithmetic\<close>

lemma floor_rat_numeral: "\<lfloor>numeral a / numeral b :: rat\<rfloor> = numeral a div numeral b"
  by (metis floor_divide_of_int_eq of_int_numeral)

lemma floor_rat_neg_numeral:
  "\<lfloor>- (numeral a / numeral b) :: rat\<rfloor> = - numeral a div numeral b"
  by (metis floor_divide_of_int_eq of_int_numeral of_int_minus minus_divide_left)

lemmas double_eval = ilog2_def bitlen.simps roundHalfEven_def pow2_def ceiling_def
  floor_rat_numeral floor_rat_neg_numeral

text \<open>
  To evaluate a rounding, name the binary exponent and the rounded significand; what is
  left are comparisons of numerals.
\<close>

lemma toDouble_eval:
  assumes "0 < x" and "ilog2 x = e" and "- 1022 \<le> e"
    and "roundHalfEven (x / pow2 (e - 52)) = n"
    and "of_int n * pow2 (e - 52) = y" and "y < pow2 1024"
  shows "toDouble x = Fin y"
  using assms by (simp add: toDouble_def roundMagnitude_def max_def)
subsection \<open>The rounding is to a nearest double\<close>

lemma pow2_powi: "pow2 e = 2 powi e"
  by (simp add: pow2_def power_int_def field_simps)

lemma pow2_pos: "0 < pow2 e"
  by (simp add: pow2_powi)

lemma pow2_add: "pow2 (a + b) = pow2 a * pow2 b"
  by (simp add: pow2_powi power_int_add)

lemma pow2_minus: "pow2 (- e) = 1 / pow2 e"
  by (simp add: pow2_powi power_int_minus inverse_eq_divide)

lemma pow2_mono: "a \<le> b \<Longrightarrow> pow2 a \<le> pow2 b"
  by (simp add: pow2_powi power_int_increasing)

lemma pow2_nat: "0 \<le> e \<Longrightarrow> pow2 e = of_int (2 ^ nat e)"
  by (simp add: pow2_def)

lemma bitlen_bounds:
  "0 < n \<Longrightarrow> 1 \<le> bitlen n \<and> 2 ^ nat (bitlen n - 1) \<le> n \<and> n < 2 ^ nat (bitlen n)"
proof (induction n rule: bitlen.induct)
  case (1 n)
  show ?case
  proof (cases "n div 2 = 0")
    case True
    then have "n = 1" using "1.prems" by linarith
    then show ?thesis by (simp add: bitlen.simps)
  next
    case False
    then have pos: "0 < n div 2" using "1.prems" by linarith
    have step: "bitlen n = 1 + bitlen (n div 2)"
      using "1.prems" by (subst bitlen.simps) simp
    from "1.IH" pos "1.prems" have ih: "1 \<le> bitlen (n div 2)"
      "2 ^ nat (bitlen (n div 2) - 1) \<le> n div 2" "n div 2 < 2 ^ nat (bitlen (n div 2))"
      by simp_all
    let ?b = "bitlen (n div 2)"
    have e1: "nat (1 + ?b - 1) = Suc (nat (?b - 1))" "nat (1 + ?b) = Suc (nat ?b)"
      using ih(1) by simp_all
    have "2 * 2 ^ nat (?b - 1) \<le> 2 * (n div 2)" using ih(2) by simp
    also have "\<dots> \<le> n" by simp
    finally have lo: "2 ^ nat (1 + ?b - 1) \<le> n" by (simp only: e1 power_Suc)
    have "n < 2 * (n div 2) + 2" by linarith
    also have "\<dots> \<le> 2 * 2 ^ nat ?b" using ih(3) by simp
    finally have hi: "n < 2 ^ nat (1 + ?b)" by (simp only: e1 power_Suc)
    from lo hi ih(1) show ?thesis by (simp add: step)
  qed
qed

lemma ilog2_bounds:
  assumes "0 < x"
  shows "pow2 (ilog2 x) \<le> x \<and> x < pow2 (ilog2 x + 1)"
proof (cases "1 \<le> x")
  case True
  let ?n = "\<lfloor>x\<rfloor>"
  have n: "0 < ?n" using True by simp
  from bitlen_bounds[OF n] have b: "1 \<le> bitlen ?n" "2 ^ nat (bitlen ?n - 1) \<le> ?n"
    "?n < 2 ^ nat (bitlen ?n)" by simp_all
  have il: "ilog2 x = bitlen ?n - 1" using True by (simp add: ilog2_def)
  have "pow2 (bitlen ?n - 1) = of_int (2 ^ nat (bitlen ?n - 1))"
    using b(1) by (simp add: pow2_nat)
  also have "\<dots> \<le> of_int ?n" using b(2) by (simp only: of_int_le_iff)
  also have "\<dots> \<le> x" by simp
  finally have lo: "pow2 (ilog2 x) \<le> x" by (simp only: il)
  have "?n + 1 \<le> 2 ^ nat (bitlen ?n)" using b(3) by simp
  then have "(of_int (?n + 1) :: rat) \<le> of_int (2 ^ nat (bitlen ?n))"
    by (simp only: of_int_le_iff)
  moreover have "x < of_int (?n + 1)" using floor_correct[of x] by simp
  moreover have "pow2 (bitlen ?n) = of_int (2 ^ nat (bitlen ?n))"
    using b(1) by (simp add: pow2_nat)
  ultimately have hi: "x < pow2 (ilog2 x + 1)" by (simp add: il)
  from lo hi show ?thesis by simp
next
  case False
  let ?c = "\<lceil>1 / x\<rceil>"
  have y: "1 < 1 / x" using False assms by simp
  then have c: "0 < ?c - 1" by simp
  from bitlen_bounds[OF c] have b: "1 \<le> bitlen (?c - 1)"
    "2 ^ nat (bitlen (?c - 1) - 1) \<le> ?c - 1" "?c - 1 < 2 ^ nat (bitlen (?c - 1))" by simp_all
  let ?k = "bitlen (?c - 1)"
  have il: "ilog2 x = - ?k" using False by (simp add: ilog2_def)
  have "?c \<le> 2 ^ nat ?k" using b(3) by simp
  then have le2: "(of_int ?c :: rat) \<le> of_int (2 ^ nat ?k)" by (simp only: of_int_le_iff)
  have le1: "1 / x \<le> of_int ?c" by (rule le_of_int_ceiling)
  have eq1: "pow2 ?k = of_int (2 ^ nat ?k)" using b(1) by (simp add: pow2_nat)
  from le1 le2 have "1 / x \<le> pow2 ?k" unfolding eq1 by (rule order_trans)
  then have "1 \<le> pow2 ?k * x" using assms by (simp add: field_simps)
  then have "1 / pow2 ?k \<le> x"
    using pow2_pos[of ?k] by (simp add: divide_le_eq mult.commute)
  then have lo: "pow2 (- ?k) \<le> x"
    by (simp only: pow2_minus)
  have le3: "(of_int (2 ^ nat (?k - 1)) :: rat) \<le> of_int (?c - 1)"
    using b(2) by (simp only: of_int_le_iff)
  have lt4: "(of_int (?c - 1) :: rat) < 1 / x"
    using ceiling_correct[of "1 / x"] by simp
  have eq2: "pow2 (?k - 1) = of_int (2 ^ nat (?k - 1))" using b(1) by (simp add: pow2_nat)
  from le3 lt4 have "pow2 (?k - 1) < 1 / x" unfolding eq2 by (rule le_less_trans)
  then have "pow2 (?k - 1) * x < 1" using assms by (simp add: field_simps)
  then have "x < 1 / pow2 (?k - 1)"
    using pow2_pos[of "?k - 1"] by (simp add: less_divide_eq mult.commute)
  then have "x < pow2 (- (?k - 1))"
    by (simp only: pow2_minus)
  then have hi: "x < pow2 (- ?k + 1)"
    by simp
  from lo hi show ?thesis by (simp add: il)
qed

lemma roundHalfEven_nearest: "\<bar>of_int (roundHalfEven m) - m\<bar> \<le> 1 / 2"
proof -
  have "of_int \<lfloor>m\<rfloor> \<le> m" "m < of_int \<lfloor>m\<rfloor> + 1"
    by linarith+
  then show ?thesis
    by (auto simp: roundHalfEven_def) 
qed


lemma pow2_half: "pow2 (e - 53) = pow2 (e - 52) / 2"
proof -
  have "pow2 (e - 52) = pow2 (e - 53 + 1)" by simp
  also have "\<dots> = pow2 (e - 53) * pow2 1" by (rule pow2_add)
  finally show ?thesis by (simp add: pow2_def)
qed

lemma pow2_53: "pow2 (e - 53) = pow2 e / 2 ^ 53"
proof -
  have "pow2 e = pow2 (e - 53 + 53)" by simp
  also have "\<dots> = pow2 (e - 53) * pow2 53" by (rule pow2_add)
  finally show ?thesis by (simp add: pow2_def)
qed

lemma pow2_strict: "pow2 a < pow2 b \<Longrightarrow> a < b"
  using pow2_mono[of b a] by (cases "a < b") simp_all

text \<open>
  In the normal range a double differs from the value it rounds by at most the fraction
  \<open>2^-53\<close> of that value, and a value up to \<open>2^1023\<close> does not overflow.
\<close>

lemma toDouble_error:
  assumes lo: "pow2 (- 1022) \<le> x" and hi: "x \<le> pow2 1023"
  shows "\<exists>y. toDouble x = Fin y \<and> \<bar>y - x\<bar> \<le> x / 2 ^ 53"
proof -
  have x: "0 < x" using lo pow2_pos[of "- 1022"] by linarith
  let ?e = "ilog2 x"
  let ?u = "pow2 (?e - 52)"
  let ?n = "roundHalfEven (x / ?u)"
  let ?y = "of_int ?n * ?u"
  from ilog2_bounds[OF x] have b: "pow2 ?e \<le> x" "x < pow2 (?e + 1)" by simp_all
  have "pow2 (- 1022) < pow2 (?e + 1)" using lo b(2) by linarith
  then have e_lo: "- 1022 \<le> ?e" using pow2_strict by fastforce
  have "pow2 ?e \<le> pow2 1023" using b(1) hi by linarith
  have u: "0 < ?u" by (rule pow2_pos)
  have "\<bar>?y - x\<bar> = \<bar>of_int ?n - x / ?u\<bar> * ?u"
  proof -
    have "?y - x = (of_int ?n - x / ?u) * ?u" using u by (simp add: field_simps)
    then show ?thesis using u by (simp add: abs_mult)
  qed
  also have "\<dots> \<le> (1 / 2) * ?u"
    using roundHalfEven_nearest[of "x / ?u"] u by (intro mult_right_mono) simp_all
  also have "\<dots> = pow2 (?e - 53)" by (simp add: pow2_half)
  also have "\<dots> = pow2 ?e / 2 ^ 53" by (rule pow2_53)
  also have "\<dots> \<le> x / 2 ^ 53" using b(1) by (simp add: divide_right_mono)
  finally have err: "\<bar>?y - x\<bar> \<le> x / 2 ^ 53" .
  have "?y \<le> x + x / 2 ^ 53" using err by linarith
  also have "\<dots> \<le> pow2 1023 + pow2 1023 / 2 ^ 53"
    using hi by (intro add_mono divide_right_mono) simp_all
  also have "\<dots> < pow2 1024"
  proof -
    have "pow2 1024 = pow2 (1023 + 1)" by simp
    also have "\<dots> = pow2 1023 * pow2 1" by (rule pow2_add)
    finally have "pow2 1024 = pow2 1023 + pow2 1023" by (simp add: pow2_def)
    moreover have "pow2 1023 / 2 ^ 53 < pow2 1023"
      using pow2_pos[of 1023] by (simp add: field_simps)
    ultimately show ?thesis by linarith
  qed
  finally have fin: "\<not> pow2 1024 \<le> ?y" by simp
  have "toDouble x = Fin ?y"
    using x e_lo fin by (simp add: toDouble_def roundMagnitude_def max_def)
  with err show ?thesis by blast
qed

lemma mathRound_nearest:
  "mathRound (Fin y) = Fin (of_int \<lfloor>y + 1 / 2\<rfloor>) \<and> \<bar>of_int \<lfloor>y + 1 / 2\<rfloor> - y\<bar> \<le> 1 / 2"
proof -
  have "of_int \<lfloor>y + 1 / 2\<rfloor> \<le> y + 1 / 2" "y + 1 / 2 < of_int \<lfloor>y + 1 / 2\<rfloor> + 1"
    by linarith+
  then have "\<bar>of_int \<lfloor>y + 1 / 2\<rfloor> - y\<bar> \<le> 1 / 2"
    by linarith
  moreover have "mathRound (Fin y) = Fin (of_int \<lfloor>y + 1 / 2\<rfloor>)"
    by simp
  ultimately show ?thesis by blast
qed

text \<open>
  One duty line: the converted value \<open>g\<close> times the double \<open>r0\<close> of a decimal rate
  \<open>\<rho>\<close>, rounded by \<open>Math.round\<close>, is within \<open>1/2 + g / 2^53\<close> of the exact \<open>\<rho> g\<close>.
\<close>

lemma duty_line_bound:
  assumes g: "1 / 2 \<le> g" "g \<le> 2 ^ 53"
    and r0: "1 / 512 \<le> r0" "r0 + \<rho> \<le> 1" "\<bar>r0 - \<rho>\<bar> \<le> \<rho> / 2 ^ 53" "0 \<le> \<rho>"
  shows "\<exists>d. mathRound (times_number (Fin g) (Fin r0)) = Fin (of_int d)
             \<and> \<bar>of_int d - \<rho> * g\<bar> \<le> 1 / 2 + g / 2 ^ 53"
proof -
  have lo: "pow2 (- 1022) \<le> g * r0"
  proof -
    have "pow2 (- 1022) \<le> pow2 (- 10)" by (rule pow2_mono) simp
    also have "\<dots> = 1 / 2 * (1 / 512)" by (simp add: pow2_def)
    also have "\<dots> \<le> g * r0" using g(1) r0(1) by (intro mult_mono) simp_all
    finally show ?thesis .
  qed
  have r1: "r0 \<le> 1" using r0(2,4) by linarith
  have hi: "g * r0 \<le> pow2 1023"
  proof -
    have "g * r0 \<le> 2 ^ 53 * 1" using g r0(1) r1 by (intro mult_mono) simp_all
    also have "\<dots> = pow2 53" by (simp add: pow2_def)
    also have "\<dots> \<le> pow2 1023" by (rule pow2_mono) simp
    finally show ?thesis .
  qed
  from toDouble_error[OF lo hi] obtain y where
    y: "toDouble (g * r0) = Fin y" "\<bar>y - g * r0\<bar> \<le> g * r0 / 2 ^ 53" by blast
  let ?d = "\<lfloor>y + 1 / 2\<rfloor>"
  from mathRound_nearest[of y] have m: "mathRound (Fin y) = Fin (of_int ?d)"
    "\<bar>of_int ?d - y\<bar> \<le> 1 / 2" by simp_all
  have gpos: "0 \<le> g" using g(1) by linarith
  have "\<bar>g * r0 - \<rho> * g\<bar> = g * \<bar>r0 - \<rho>\<bar>"
  proof -
    have "g * r0 - \<rho> * g = g * (r0 - \<rho>)" by (simp add: algebra_simps)
    then show ?thesis using gpos by (simp add: abs_mult)
  qed
  also have "\<dots> \<le> g * (\<rho> / 2 ^ 53)" using r0(3) gpos by (intro mult_left_mono)
  finally have e2: "\<bar>g * r0 - \<rho> * g\<bar> \<le> g * \<rho> / 2 ^ 53" by simp
  have "g * r0 / 2 ^ 53 + g * \<rho> / 2 ^ 53 = g * (r0 + \<rho>) / 2 ^ 53"
    by (simp add: algebra_simps add_divide_distrib)
  also have "\<dots> \<le> g * 1 / 2 ^ 53"
    using r0(2) gpos by (intro divide_right_mono mult_left_mono) simp_all
  finally have e3: "g * r0 / 2 ^ 53 + g * \<rho> / 2 ^ 53 \<le> g / 2 ^ 53" by simp
  have "\<bar>of_int ?d - \<rho> * g\<bar> \<le> \<bar>of_int ?d - y\<bar> + \<bar>y - g * r0\<bar> + \<bar>g * r0 - \<rho> * g\<bar>"
    by linarith
  then have "\<bar>of_int ?d - \<rho> * g\<bar> \<le> 1 / 2 + g / 2 ^ 53"
    using m(2) y(2) e2 e3 by linarith
  then show ?thesis using y(1) m(1) by auto
qed
subsection \<open>Whole numbers up to 2^53 are doubles\<close>

lemma negate_negate: "negate (negate x) = x"
  by (cases x) simp_all

lemma toDouble_minus: "toDouble (- x) = negate (toDouble x)"
proof -
  consider "x < 0" | "x = 0" | "0 < x" by linarith
  then show ?thesis
  proof cases
    case 1
    then show ?thesis by (simp add: toDouble_def negate_negate)
  next
    case 2
    then show ?thesis by (simp add: toDouble_def roundMagnitude_def)
  next
    case 3
    then show ?thesis by (simp add: toDouble_def)
  qed
qed

lemma roundHalfEven_of_int: "roundHalfEven (of_int k) = k"
  by (simp add: roundHalfEven_def)

lemma pow2_strict_mono: "a < b \<Longrightarrow> pow2 a < pow2 b"
  by (simp add: pow2_powi power_int_strict_increasing)

text \<open>A positive value whose quotient by its unit in the last place is whole is a double.\<close>

lemma roundMagnitude_exact:
  assumes "0 < x" and "x / pow2 (max (ilog2 x) (- 1022) - 52) = of_int k" and "x < pow2 1024"
  shows "roundMagnitude x = Fin x"
proof -
  let ?q = "pow2 (max (ilog2 x) (- 1022) - 52)"
  have q: "0 < ?q" by (rule pow2_pos)
  have r: "roundHalfEven (x / ?q) = k"
    by (simp only: assms(2) roundHalfEven_of_int)
  have "of_int k * ?q = x"
    using assms(2) q by (simp add: field_simps)
  then show ?thesis
    using assms(1,3) by (simp add: roundMagnitude_def r)
qed

lemma toDouble_whole_pos:
  assumes "1 \<le> n" and "n \<le> 2 ^ 53"
  shows "toDouble (of_int n) = Fin (of_int n)"
proof -
  let ?x = "of_int n :: rat"
  have x1: "1 \<le> ?x" using assms(1) by simp
  then have x0: "0 < ?x" by linarith
  have xhi: "?x \<le> pow2 53"
  proof -
    have "?x \<le> of_int (2 ^ 53)" using assms(2) by (simp only: of_int_le_iff)
    then show ?thesis by (simp add: pow2_def)
  qed
  from ilog2_bounds[OF x0] have b: "pow2 (ilog2 ?x) \<le> ?x" "?x < pow2 (ilog2 ?x + 1)"
    by simp_all
  have "pow2 0 < pow2 (ilog2 ?x + 1)" using x1 b(2) by (simp add: pow2_def)
  then have e0: "0 \<le> ilog2 ?x" using pow2_strict[of 0 "ilog2 ?x + 1"] by linarith
  have e53: "ilog2 ?x \<le> 53"
  proof (rule ccontr)
    assume "\<not> ilog2 ?x \<le> 53"
    then have "pow2 53 < pow2 (ilog2 ?x)" by (intro pow2_strict_mono) linarith
    then show False using b(1) xhi by linarith
  qed
  have m: "max (ilog2 ?x) (- 1022) = ilog2 ?x" using e0 by simp
  have big: "?x < pow2 1024"
  proof -
    have "pow2 53 < pow2 1024" by (rule pow2_strict_mono) simp
    then show ?thesis using xhi by linarith
  qed
  have "\<exists>k. ?x / pow2 (ilog2 ?x - 52) = of_int k"
  proof (cases "ilog2 ?x \<le> 52")
    case True
    have "?x / pow2 (ilog2 ?x - 52) = ?x * pow2 (52 - ilog2 ?x)"
      using pow2_minus[of "ilog2 ?x - 52"] by simp
    also have "\<dots> = ?x * of_int (2 ^ nat (52 - ilog2 ?x))"
      using True by (simp only: pow2_nat[of "52 - ilog2 ?x"] diff_ge_0_iff_ge)
    also have "\<dots> = of_int (n * 2 ^ nat (52 - ilog2 ?x))"
      by (simp only: of_int_mult)
    finally show ?thesis by blast
  next
    case False
    then have e: "ilog2 ?x = 53" using e53 by linarith
    then have "pow2 53 \<le> ?x" using b(1) by simp
    then have "?x = pow2 53" using xhi by linarith
    then have "?x / pow2 (ilog2 ?x - 52) = pow2 53 / pow2 1" using e by simp
    also have "\<dots> = of_int (2 ^ 52)" by (simp add: pow2_def)
    finally show ?thesis by blast
  qed
  then obtain k where "?x / pow2 (max (ilog2 ?x) (- 1022) - 52) = of_int k"
    unfolding m by blast
  from roundMagnitude_exact[OF x0 this big] show ?thesis
    using x0 by (simp add: toDouble_def)
qed

lemma toDouble_whole:
  assumes "\<bar>n\<bar> \<le> 2 ^ 53"
  shows "toDouble (of_int n) = Fin (of_int n)"
proof -
  consider "n = 0" | "1 \<le> n" | "1 \<le> - n" by linarith
  then show ?thesis
  proof cases
    case 1
    then show ?thesis by (simp add: toDouble_def roundMagnitude_def)
  next
    case 2
    then show ?thesis using assms by (intro toDouble_whole_pos) simp_all
  next
    case 3
    then have "toDouble (of_int (- n)) = Fin (of_int (- n))"
      using assms by (intro toDouble_whole_pos) simp_all
    then have "negate (toDouble (- of_int n)) = negate (Fin (- of_int n))"
      by simp
    then show ?thesis
      by (simp only: toDouble_minus negate_negate negate.simps minus_minus)
  qed
qed

lemma plus_number_whole:
  assumes "\<bar>a + b\<bar> \<le> 2 ^ 53"
  shows "plus_number (Fin (of_int a)) (Fin (of_int b)) = Fin (of_int (a + b))"
  using toDouble_whole[OF assms] by simp

lemma minus_number_whole:
  assumes "\<bar>a - b\<bar> \<le> 2 ^ 53"
  shows "minus_number (Fin (of_int a)) (Fin (of_int b)) = Fin (of_int (a - b))"
  using toDouble_whole[OF assms] by (simp add: minus_number_def)

text \<open>Whole numerals up to 2^53, for evaluating sums of small amounts.\<close>

lemma toDouble_numeral:
  "numeral a \<le> (9007199254740992 :: int) \<Longrightarrow> toDouble (numeral a) = Fin (numeral a)"
  using toDouble_whole[of "numeral a"] by simp

lemma toDouble_neg_numeral:
  "numeral a \<le> (9007199254740992 :: int) \<Longrightarrow> toDouble (- numeral a) = Fin (- numeral a)"
  using toDouble_whole[of "- numeral a"] by simp

lemma toDouble_zero: "toDouble 0 = Fin 0"
  by (simp add: toDouble_def roundMagnitude_def)

lemma toDouble_one: "toDouble 1 = Fin 1"
  using toDouble_whole[of 1] by simp

lemmas whole_eval = toDouble_numeral toDouble_neg_numeral toDouble_zero toDouble_one
  minus_number_def

section \<open>Properties of the ledger engine\<close>

subsection \<open>The pay handler's loop computes the balance formula in doubles\<close>

lemma balanceLoop_sums:
  "balanceLoop es (p, d) =
     (foldl plus_number p (map amount (filter (\<lambda>e. etype e = PROVISION) es)),
      foldl plus_number d (map amount (filter (\<lambda>e. etype e = DISBURSEMENT \<and> paid e) es)))"
proof (induction es arbitrary: p d)
  case Nil
  then show ?case by simp
next
  case (Cons e es)
  then show ?case by (cases "etype e") simp_all
qed

lemma payBalance_double: "payBalance es = doubleBalance es"
  by (simp add: payBalance_def doubleBalance_def doubleSum_def balanceLoop_sums)

subsection \<open>In the exact range the double balance is the exact balance\<close>

lemma whole_value: "whole x \<Longrightarrow> x = Fin (of_int \<lfloor>exactValue x\<rfloor>) \<and> 0 \<le> \<lfloor>exactValue x\<rfloor>"
  by (cases x) simp_all

lemma whole_nonneg: "whole x \<Longrightarrow> 0 \<le> exactValue x"
  by (cases x) simp_all

lemma whole_sum_nonneg: "list_all whole xs \<Longrightarrow> 0 \<le> sum_list (map exactValue xs)"
  by (induction xs) (simp_all add: whole_nonneg)

lemma foldl_plus_whole:
  assumes "list_all whole xs" and "0 \<le> n"
    and "of_int n + sum_list (map exactValue xs) \<le> 2 ^ 53"
  shows "\<exists>m. 0 \<le> m \<and> of_int m = of_int n + sum_list (map exactValue xs)
           \<and> foldl plus_number (Fin (of_int n)) xs = Fin (of_int m)"
  using assms
proof (induction xs arbitrary: n)
  case Nil
  then show ?case by auto
next
  case (Cons x xs)
  let ?k = "\<lfloor>exactValue x\<rfloor>"
  from Cons.prems(1) have wx: "whole x" and wxs: "list_all whole xs" by simp_all
  from whole_value[OF wx] have x: "x = Fin (of_int ?k)" and k0: "0 \<le> ?k" by simp_all
  have vx: "exactValue x = of_int ?k" using x by (metis exactValue.simps(1))
  have rest: "0 \<le> sum_list (map exactValue xs)" using wxs by (rule whole_sum_nonneg)
  have tot: "(of_int (n + ?k) :: rat) + sum_list (map exactValue xs) \<le> 2 ^ 53"
    using Cons.prems(3) vx by simp
  then have "(of_int (n + ?k) :: rat) \<le> of_int (2 ^ 53)" using rest by simp
  then have "n + ?k \<le> 2 ^ 53" by (simp only: of_int_le_iff)
  then have "\<bar>n + ?k\<bar> \<le> 2 ^ 53" using Cons.prems(2) k0 by simp
  then have p: "plus_number (Fin (of_int n)) (Fin (of_int ?k)) = Fin (of_int (n + ?k))"
    by (rule plus_number_whole)
  have n0: "0 \<le> n + ?k" using Cons.prems(2) k0 by simp
  from Cons.IH[OF wxs n0 tot] obtain m where
    m: "0 \<le> m" "of_int m = (of_int (n + ?k) :: rat) + sum_list (map exactValue xs)"
       "foldl plus_number (Fin (of_int (n + ?k))) xs = Fin (of_int m)"
    by blast
  have "foldl plus_number (Fin (of_int n)) (x # xs) = foldl plus_number (Fin (of_int (n + ?k))) xs"
    using p x by (metis foldl_Cons)
  moreover have "of_int m = of_int n + sum_list (map exactValue (x # xs))"
    using m(2) vx by simp
  ultimately show ?case using m(1,3) by metis
qed

lemma doubleSum_whole:
  assumes "list_all whole xs" and "sum_list (map exactValue xs) \<le> 2 ^ 53"
  shows "\<exists>m. 0 \<le> m \<and> of_int m = sum_list (map exactValue xs) \<and> doubleSum xs = Fin (of_int m)"
proof -
  have "of_int 0 + sum_list (map exactValue xs) \<le> 2 ^ 53" using assms(2) by simp
  from foldl_plus_whole[OF assms(1) order_refl this] show ?thesis
    by (simp add: doubleSum_def)
qed

lemma sum_filter_le:
  fixes f :: "'a \<Rightarrow> rat"
  assumes "\<forall>x\<in>set xs. 0 \<le> f x"
  shows "sum_list (map f (filter P xs)) \<le> sum_list (map f xs)"
  using assms by (induction xs) (simp_all add: add_increasing)

lemma doubleBalance_whole:
  assumes "wholeRows es"
  shows "doubleBalance es = Fin (specBalance es)"
proof -
  let ?v = "\<lambda>e. exactValue (amount e)"
  let ?P = "filter (\<lambda>e. etype e = PROVISION) es"
  let ?D = "filter (\<lambda>e. etype e = DISBURSEMENT \<and> paid e) es"
  from assms have w: "list_all (\<lambda>e. whole (amount e)) es"
    and tot: "sum_list (map ?v es) \<le> 2 ^ 53"
    by (simp_all add: wholeRows_def)
  have nn: "\<forall>e\<in>set es. 0 \<le> ?v e" using w by (simp add: list_all_iff whole_nonneg)
  have wf: "list_all whole (map amount (filter Q es))" for Q
    using w by (simp add: list_all_iff)
  have le: "sum_list (map exactValue (map amount (filter Q es))) \<le> 2 ^ 53" for Q
  proof -
    have "sum_list (map ?v (filter Q es)) \<le> sum_list (map ?v es)"
      using nn by (rule sum_filter_le)
    then show ?thesis using tot by (simp add: comp_def)
  qed
  from doubleSum_whole[OF wf le, of "\<lambda>e. etype e = PROVISION"] obtain p where
    p: "0 \<le> p" "of_int p = sum_list (map exactValue (map amount ?P))"
       "doubleSum (map amount ?P) = Fin (of_int p)" by blast
  from doubleSum_whole[OF wf le, of "\<lambda>e. etype e = DISBURSEMENT \<and> paid e"] obtain d where
    d: "0 \<le> d" "of_int d = sum_list (map exactValue (map amount ?D))"
       "doubleSum (map amount ?D) = Fin (of_int d)" by blast
  have "(of_int p :: rat) \<le> of_int (2 ^ 53)" using p(2) le[of "\<lambda>e. etype e = PROVISION"] by simp
  then have p53: "p \<le> 2 ^ 53" by (simp only: of_int_le_iff)
  have "(of_int d :: rat) \<le> of_int (2 ^ 53)"
    using d(2) le[of "\<lambda>e. etype e = DISBURSEMENT \<and> paid e"] by simp
  then have d53: "d \<le> 2 ^ 53" by (simp only: of_int_le_iff)
  have "\<bar>p - d\<bar> \<le> 2 ^ 53" using p(1) d(1) p53 d53 by linarith
  then have "minus_number (Fin (of_int p)) (Fin (of_int d)) = Fin (of_int (p - d))"
    by (rule minus_number_whole)
  moreover have "specBalance es = of_int p - of_int d"
    using p(2) d(2) by (simp add: specBalance_def comp_def)
  ultimately show ?thesis
    by (simp add: doubleBalance_def p(3) d(3))
qed

lemma specBalance_contrib: "specBalance es = sum_list (map contrib es)"
proof (induction es)
  case Nil
  then show ?case by (simp add: specBalance_def)
next
  case (Cons e es)
  then show ?case by (cases "etype e") (simp_all add: specBalance_def contrib_def)
qed

lemma shipmentBalance_contrib:
  "shipmentBalance db s = sum_list (map contrib (filter (\<lambda>e. shipmentId e = s) (expenses db)))"
  by (simp add: shipmentBalance_def specBalance_contrib)

lemma exactLedger_rows:
  assumes "exactLedger db" and "e \<in> set (expenses db)"
  shows "wholeRows (filter (\<lambda>x. shipmentId x = shipmentId e) (expenses db))"
proof -
  have "shipmentId e \<in> set (map shipmentId (expenses db))"
    using assms(2) by simp
  then show ?thesis
    using assms(1) unfolding exactLedger_def list_all_iff by blast
qed

subsection \<open>Lookups and row updates\<close>

lemma findExpense_SomeD:
  "findExpense db c i = Some e \<Longrightarrow> e \<in> set (expenses db) \<and> eid e = i \<and> ownedBy db c e"
  by (auto simp: findExpense_def find_Some_iff)

lemma findExpense_after_row_update:
  assumes "findExpense db c i = Some e"
    and "\<And>r. eid (f r) = eid r" and "\<And>r. shipmentId (f r) = shipmentId r"
  shows "findExpense (db\<lparr>expenses := updateRow (eid e) f (expenses db)\<rparr>) c i = Some (f e)"
proof -
  let ?g = "\<lambda>r. if eid r = eid e then f r else r"
  have "\<And>x. (eid (?g x) = i \<and> ownedBy db c (?g x)) = (eid x = i \<and> ownedBy db c x)"
    using assms(2,3) by (simp add: ownedBy_def)
  then have "find (\<lambda>x. eid x = i \<and> ownedBy db c x) (map ?g (expenses db))
      = map_option ?g (find (\<lambda>x. eid x = i \<and> ownedBy db c x) (expenses db))"
    by (rule find_map_preserved)
  then show ?thesis
    using assms(1) by (simp add: findExpense_def updateRow_def ownedBy_def)
qed

lemma updateRow_no_key: "\<forall>y\<in>set xs. eid y \<noteq> i \<Longrightarrow> updateRow i f xs = xs"
  by (induction xs) (simp_all add: updateRow_def)

lemma deleteRow_no_key: "\<forall>y\<in>set xs. eid y \<noteq> i \<Longrightarrow> deleteRow i xs = xs"
  by (induction xs) (simp_all add: deleteRow_def)

lemma unique_row_split:
  assumes "distinct (map eid es)" and "e \<in> set es"
  shows "\<exists>ys zs. es = ys @ e # zs
           \<and> (\<forall>y\<in>set ys. eid y \<noteq> eid e) \<and> (\<forall>y\<in>set zs. eid y \<noteq> eid e)"
proof -
  from assms(2) obtain ys zs where es: "es = ys @ e # zs"
    by (meson split_list)
  have "distinct (map eid ys @ eid e # map eid zs)"
    using assms(1) unfolding es by simp
  then have "eid e \<notin> set (map eid ys)" "eid e \<notin> set (map eid zs)"
    by simp_all
  then have "\<forall>y\<in>set ys. eid y \<noteq> eid e" "\<forall>y\<in>set zs. eid y \<noteq> eid e"
    by (metis image_eqI list.set_map)+
  with es show ?thesis by blast
qed

lemma updateRow_split:
  assumes "\<forall>y\<in>set ys. eid y \<noteq> eid e" and "\<forall>y\<in>set zs. eid y \<noteq> eid e"
  shows "updateRow (eid e) f (ys @ e # zs) = ys @ f e # zs"
proof -
  have "updateRow (eid e) f (ys @ e # zs)
      = updateRow (eid e) f ys @ f e # updateRow (eid e) f zs"
    by (simp add: updateRow_def)
  then show ?thesis
    using assms by (simp only: updateRow_no_key)
qed

lemma deleteRow_split:
  assumes "\<forall>y\<in>set ys. eid y \<noteq> eid e" and "\<forall>y\<in>set zs. eid y \<noteq> eid e"
  shows "deleteRow (eid e) (ys @ e # zs) = ys @ zs"
proof -
  have "deleteRow (eid e) (ys @ e # zs) = deleteRow (eid e) ys @ deleteRow (eid e) zs"
    by (simp add: deleteRow_def)
  then show ?thesis
    using assms by (simp only: deleteRow_no_key)
qed

lemma sum_contrib_split:
  "sum_list (map contrib (filter (\<lambda>x. shipmentId x = s) (ys @ r # zs)))
     = sum_list (map contrib (filter (\<lambda>x. shipmentId x = s) (ys @ zs)))
       + (if shipmentId r = s then contrib r else 0)"
  by simp

lemma sum_contrib_update:
  assumes "distinct (map eid es)" and "e \<in> set es"
  shows "sum_list (map contrib (filter (\<lambda>x. shipmentId x = s) (updateRow (eid e) f es)))
       = sum_list (map contrib (filter (\<lambda>x. shipmentId x = s) es))
         + (if shipmentId (f e) = s then contrib (f e) else 0)
         - (if shipmentId e = s then contrib e else 0)"
proof -
  from unique_row_split[OF assms(1,2)] obtain ys zs where
    es: "es = ys @ e # zs" and k: "\<forall>y\<in>set ys. eid y \<noteq> eid e" "\<forall>y\<in>set zs. eid y \<noteq> eid e"
    by blast
  show ?thesis
    unfolding es updateRow_split[OF k] sum_contrib_split by simp
qed

lemma sum_contrib_delete:
  assumes "distinct (map eid es)" and "e \<in> set es"
  shows "sum_list (map contrib (filter (\<lambda>x. shipmentId x = s) (deleteRow (eid e) es)))
       = sum_list (map contrib (filter (\<lambda>x. shipmentId x = s) es))
         - (if shipmentId e = s then contrib e else 0)"
proof -
  from unique_row_split[OF assms(1,2)] obtain ys zs where
    es: "es = ys @ e # zs" and k: "\<forall>y\<in>set ys. eid y \<noteq> eid e" "\<forall>y\<in>set zs. eid y \<noteq> eid e"
    by blast
  show ?thesis
    unfolding es deleteRow_split[OF k] sum_contrib_split by simp
qed

lemma expenses_upd: "expenses (db\<lparr>expenses := es\<rparr>) = es"
  by simp

lemma eid_updateRow: "(\<And>r. eid (f r) = eid r) \<Longrightarrow> map eid (updateRow i f es) = map eid es"
  by (induction es) (simp_all add: updateRow_def)

lemma distinct_deleteRow: "distinct (map eid es) \<Longrightarrow> distinct (map eid (deleteRow i es))"
  by (simp add: deleteRow_def distinct_map_filter)

subsection \<open>What each handler does to the store\<close>

lemma create_effect:
  "snd (createExpense u n d db) = db
   \<or> (snd (createExpense u n d db) = db\<lparr>expenses := expenses db @ [newExpense n d]\<rparr>
      \<and> n \<notin> set (map eid (expenses db)) \<and> greater_number (in_amount d) 0)"
  by (simp add: createExpense_def createExpenseSchema_def split: option.split)

lemma pay_effect:
  "snd (payExpense u i now db) = db
   \<or> (\<exists>e. findExpense db (ucompanyId u) i = Some e \<and> \<not> paid e
        \<and> (etype e = DISBURSEMENT \<longrightarrow>
             \<not> less_number (doubleBalance (filter (\<lambda>x. shipmentId x = shipmentId e) (expenses db)))
                  (amount e))
        \<and> snd (payExpense u i now db)
            = db\<lparr>expenses :=
                updateRow (eid e) (\<lambda>r. r\<lparr>paid := True, paidAt := Some now\<rparr>) (expenses db)\<rparr>)"
  by (simp add: payExpense_def payBalance_double shipmentExpenses_def split: option.split)

lemma delete_effect:
  "snd (deleteExpense u i db) = db
   \<or> (\<exists>e. requireAccountant u \<and> findExpense db (ucompanyId u) i = Some e \<and> \<not> paid e
        \<and> snd (deleteExpense u i db) = db\<lparr>expenses := deleteRow (eid e) (expenses db)\<rparr>)"
  by (simp add: deleteExpense_def split: option.split)

lemma update_effect:
  "snd (updateExpense u i body now db) = db
   \<or> (\<exists>e. requireAccountant u \<and> findExpense db (ucompanyId u) i = Some e
        \<and> snd (updateExpense u i body now db)
            = db\<lparr>expenses :=
                updateRow (eid e) (applyPatch (updateData body e now)) (expenses db)\<rparr>)"
  by (simp add: updateExpense_def split: option.split)

subsection \<open>Each guarded operation keeps the keys unique and the balance non-negative\<close>

lemma greater_zero_value: "greater_number x 0 \<Longrightarrow> 0 \<le> exactValue x"
  by (cases x) simp_all

lemma step_create_ok:
  assumes "uniqueKeys db" "0 \<le> shipmentBalance db s"
  shows "uniqueKeys (step db (Create u n d)) \<and> 0 \<le> shipmentBalance (step db (Create u n d)) s"
proof -
  let ?db = "db\<lparr>expenses := expenses db @ [newExpense n d]\<rparr>"
  have "uniqueKeys ?db \<and> 0 \<le> shipmentBalance ?db s"
    if fresh: "n \<notin> set (map eid (expenses db))" and pos: "greater_number (in_amount d) 0"
  proof -
    have "0 \<le> contrib (newExpense n d)"
      using greater_zero_value[OF pos] by (simp add: contrib_def newExpense_def)
    then have "0 \<le> shipmentBalance ?db s"
      using assms(2) by (simp add: shipmentBalance_contrib)
    moreover have "uniqueKeys ?db"
      using assms(1) fresh by (simp add: uniqueKeys_def newExpense_def)
    ultimately show ?thesis by simp
  qed
  then show ?thesis
    using create_effect[of u n d db] assms by (simp only: step.simps) metis
qed

lemma step_pay_ok:
  assumes "uniqueKeys db" "0 \<le> shipmentBalance db s" "exactLedger db"
  shows "uniqueKeys (step db (Pay u i now)) \<and> 0 \<le> shipmentBalance (step db (Pay u i now)) s"
proof -
  let ?f = "\<lambda>r. r\<lparr>paid := True, paidAt := Some now\<rparr>"
  have "uniqueKeys (db\<lparr>expenses := updateRow (eid e) ?f (expenses db)\<rparr>)
      \<and> 0 \<le> shipmentBalance (db\<lparr>expenses := updateRow (eid e) ?f (expenses db)\<rparr>) s"
    if e: "findExpense db (ucompanyId u) i = Some e" "\<not> paid e"
      "etype e = DISBURSEMENT \<longrightarrow>
         \<not> less_number (doubleBalance (filter (\<lambda>x. shipmentId x = shipmentId e) (expenses db)))
              (amount e)" for e
  proof -
    let ?db = "db\<lparr>expenses := updateRow (eid e) ?f (expenses db)\<rparr>"
    let ?rows = "filter (\<lambda>x. shipmentId x = shipmentId e) (expenses db)"
    have mem: "e \<in> set (expenses db)" using e(1) by (simp add: findExpense_SomeD)
    have d: "distinct (map eid (expenses db))" using assms(1) by (simp add: uniqueKeys_def)
    have wr: "wholeRows ?rows" using assms(3) mem by (rule exactLedger_rows)
    have "e \<in> set ?rows" using mem by simp
    then have "whole (amount e)" using wr by (simp add: wholeRows_def list_all_iff)
    then obtain a where a: "amount e = Fin a" by (cases "amount e") simp_all
    have bal: "doubleBalance ?rows = Fin (shipmentBalance db (shipmentId e))"
      using doubleBalance_whole[OF wr] by (simp add: shipmentBalance_def)
    have enough: "etype e = DISBURSEMENT \<longrightarrow> exactValue (amount e) \<le> shipmentBalance db (shipmentId e)"
      using e(3) bal a by (simp add: not_less)
    have eq: "shipmentBalance ?db s = shipmentBalance db s
         + (if shipmentId e = s then contrib (?f e) - contrib e else 0)"
      using sum_contrib_update[OF d mem, of s ?f] by (simp add: shipmentBalance_contrib)
    have "contrib (?f e) - contrib e = (if etype e = DISBURSEMENT then - exactValue (amount e) else 0)"
      using e(2) by (cases "etype e") (simp_all add: contrib_def)
    then have "0 \<le> shipmentBalance ?db s"
      using eq assms(2) enough by (simp split: if_splits)
    moreover have "uniqueKeys ?db" using d by (simp add: uniqueKeys_def eid_updateRow)
    ultimately show ?thesis by simp
  qed
  then show ?thesis
    using pay_effect[of u i now db] assms(1,2) by (simp only: step.simps) metis
qed

lemma step_delete_ok:
  assumes "uniqueKeys db" "0 \<le> shipmentBalance db s" "guarded db (Delete u i)"
  shows "uniqueKeys (step db (Delete u i)) \<and> 0 \<le> shipmentBalance (step db (Delete u i)) s"
proof -
  have "uniqueKeys (db\<lparr>expenses := deleteRow (eid e) (expenses db)\<rparr>)
      \<and> 0 \<le> shipmentBalance (db\<lparr>expenses := deleteRow (eid e) (expenses db)\<rparr>) s"
    if e: "requireAccountant u" "findExpense db (ucompanyId u) i = Some e" "\<not> paid e" for e
  proof -
    let ?db = "db\<lparr>expenses := deleteRow (eid e) (expenses db)\<rparr>"
    have mem: "e \<in> set (expenses db)" using e(2) by (simp add: findExpense_SomeD)
    have d: "distinct (map eid (expenses db))" using assms(1) by (simp add: uniqueKeys_def)
    have c0: "contrib e \<le> 0" using assms(3) e by simp
    have "shipmentBalance ?db s
        = shipmentBalance db s - (if shipmentId e = s then contrib e else 0)"
      using sum_contrib_delete[OF d mem, of s] by (simp add: shipmentBalance_contrib)
    then have "0 \<le> shipmentBalance ?db s" using assms(2) c0 by (simp split: if_splits)
    moreover have "uniqueKeys ?db" using d by (simp add: uniqueKeys_def distinct_deleteRow)
    ultimately show ?thesis by simp
  qed
  then show ?thesis
    using delete_effect[of u i db] assms(1,2) by (simp only: step.simps) metis
qed

lemma step_update_ok:
  assumes "uniqueKeys db" "0 \<le> shipmentBalance db s" "guarded db (Update u i body now)"
  shows "uniqueKeys (step db (Update u i body now))
       \<and> 0 \<le> shipmentBalance (step db (Update u i body now)) s"
proof -
  have "uniqueKeys (db\<lparr>expenses :=
                        updateRow (eid e) (applyPatch (updateData body e now)) (expenses db)\<rparr>)
      \<and> 0 \<le> shipmentBalance (db\<lparr>expenses :=
                        updateRow (eid e) (applyPatch (updateData body e now)) (expenses db)\<rparr>) s"
    if e: "requireAccountant u" "findExpense db (ucompanyId u) i = Some e" for e
  proof -
    let ?f = "applyPatch (updateData body e now)"
    let ?db = "db\<lparr>expenses := updateRow (eid e) ?f (expenses db)\<rparr>"
    have mem: "e \<in> set (expenses db)" using e(2) by (simp add: findExpense_SomeD)
    have d: "distinct (map eid (expenses db))" using assms(1) by (simp add: uniqueKeys_def)
    have k: "keepsContrib e (?f e)" using assms(3) e by simp
    have key: "eid (applyPatch q r) = eid r" for q r
      by (simp add: applyPatch_def)
    have "(if shipmentId e = s then contrib e else 0)
        \<le> (if shipmentId (?f e) = s then contrib (?f e) else 0)"
      using k by (simp add: keepsContrib_def split: if_splits)
    moreover have "shipmentBalance ?db s = shipmentBalance db s
         + (if shipmentId (?f e) = s then contrib (?f e) else 0)
         - (if shipmentId e = s then contrib e else 0)"
      using sum_contrib_update[OF d mem, of s ?f] by (simp only: shipmentBalance_contrib expenses_upd)
    ultimately have "0 \<le> shipmentBalance ?db s" using assms(2) by linarith
    moreover have "uniqueKeys ?db" using d key by (simp add: uniqueKeys_def eid_updateRow)
    ultimately show ?thesis by simp
  qed
  then show ?thesis
    using update_effect[of u i body now db] assms(1,2) by (simp only: step.simps) metis
qed

lemma step_ok:
  assumes "uniqueKeys db" "0 \<le> shipmentBalance db s" "exactLedger db" "guarded db x"
  shows "uniqueKeys (step db x) \<and> 0 \<le> shipmentBalance (step db x) s"
proof (cases x)
  case (Create u n d)
  then show ?thesis using step_create_ok[OF assms(1,2)] by simp
next
  case (Update u i body now)
  then show ?thesis using step_update_ok[OF assms(1,2)] assms(4) by simp
next
  case (Pay u i now)
  then show ?thesis using step_pay_ok[OF assms(1,2,3)] by simp
next
  case (Delete u i)
  then show ?thesis using step_delete_ok[OF assms(1,2)] assms(4) by simp
qed

lemma run_ok:
  "uniqueKeys db \<Longrightarrow> 0 \<le> shipmentBalance db s \<Longrightarrow> exactLedger db \<Longrightarrow> guardedRun db xs
     \<Longrightarrow> \<forall>db'\<in>set (run db xs). 0 \<le> shipmentBalance db' s"
proof (induction xs arbitrary: db)
  case Nil
  then show ?case by simp
next
  case (Cons x xs)
  from Cons.prems have g: "guarded db x" "exactLedger (step db x)" "guardedRun (step db x) xs"
    by simp_all
  from step_ok[OF Cons.prems(1,2,3) g(1)]
  have s: "uniqueKeys (step db x)" "0 \<le> shipmentBalance (step db x) s"
    by simp_all
  from Cons.IH[OF s g(2,3)] s(2) show ?case by simp
qed
subsection \<open>Sums that round\<close>

lemma double_2p53_1: "toDouble 9007199254740993 = Fin 9007199254740992"
  by (rule toDouble_eval[where e = "53" and n = 4503599627370496])
    (simp_all add: double_eval)

lemma double_2p53_2: "toDouble 9007199254740994 = Fin 9007199254740994"
  by (rule toDouble_eval[where e = "53" and n = 4503599627370497])
    (simp_all add: double_eval)

lemma tenth_sum1: "plus_number (Fin 0) (Fin (3602879701896397 / 36028797018963968)) = Fin (3602879701896397 / 36028797018963968)"
proof -
  have "toDouble (3602879701896397 / 36028797018963968) = Fin (3602879701896397 / 36028797018963968)"
    by (rule toDouble_eval[where e = "- 4" and n = 7205759403792794])
      (simp_all add: double_eval)
  then show ?thesis
    by (simp only: plus_number.simps add_0)
qed

lemma tenth_sum2: "plus_number (Fin (3602879701896397 / 36028797018963968)) (Fin (3602879701896397 / 18014398509481984)) = Fin (1351079888211149 / 4503599627370496)"
proof -
  have x: "(3602879701896397 / 36028797018963968) + (3602879701896397 / 18014398509481984) = ((10808639105689191 / 36028797018963968) :: rat)"
    by simp
  have "toDouble (10808639105689191 / 36028797018963968) = Fin (1351079888211149 / 4503599627370496)"
    by (rule toDouble_eval[where e = "- 2" and n = 5404319552844596])
      (simp_all add: double_eval)
  then show ?thesis
    by (simp only: plus_number.simps x)
qed

lemma tenth_balance: "minus_number (Fin (1351079888211149 / 4503599627370496)) (Fin 0) = Fin (1351079888211149 / 4503599627370496)"
proof -
  have "toDouble (1351079888211149 / 4503599627370496) = Fin (1351079888211149 / 4503599627370496)"
    by (rule toDouble_eval[where e = "- 2" and n = 5404319552844596])
      (simp_all add: double_eval)
  then show ?thesis
    by (simp only: minus_number_def negate.simps plus_number.simps minus_zero add_0_right)
qed

subsection \<open>Runs of the handlers on the small ledger\<close>

lemmas demo_defs =
  requireAccountant_def requireRole_def createExpense_def createExpenseSchema_def
  findShipment_def findExpense_def ownedBy_def payExpense_def deleteExpense_def
  updateExpense_def updateData_def applyPatch_def orKeep_def noPatch_def newExpense_def
  expenseInput_def row_def ledgerOf_def accountant1_def updateRow_def deleteRow_def
  payBalance_def shipmentExpenses_def whole_eval

lemma run_pay_then_delete_provision:
  "run (ledgerOf [])
     [Create accountant1 ''e1'' (expenseInput PROVISION 100),
      Create accountant1 ''e2'' (expenseInput DISBURSEMENT 80),
      Pay accountant1 ''e2'' 5, Delete accountant1 ''e1'']
   = [ledgerOf [row ''e1'' PROVISION 100 False None],
      ledgerOf [row ''e1'' PROVISION 100 False None, row ''e2'' DISBURSEMENT 80 False None],
      ledgerOf [row ''e1'' PROVISION 100 False None, row ''e2'' DISBURSEMENT 80 True (Some 5)],
      ledgerOf [row ''e2'' DISBURSEMENT 80 True (Some 5)]]"
  by (simp add: demo_defs)

lemma run_patch_paid:
  "run (ledgerOf [])
     [Create accountant1 ''e1'' (expenseInput DISBURSEMENT 80),
      Update accountant1 ''e1'' (noPatch\<lparr>p_paid := Some True\<rparr>) 5]
   = [ledgerOf [row ''e1'' DISBURSEMENT 80 False None],
      ledgerOf [row ''e1'' DISBURSEMENT 80 True (Some 5)]]"
  by (simp add: demo_defs)

lemma balance_of_rows:
  "shipmentBalance (ledgerOf es) ''s1'' = sum_list (map contrib (filter (\<lambda>e. shipmentId e = ''s1'') es))"
  by (simp add: shipmentBalance_contrib ledgerOf_def)

text \<open>Paying the last of three disbursements of 1 beside one of 2^53: the paid total stays 2^53.\<close>

lemma pay_beyond_2p53:
  "payExpense accountant1 ''e5'' 9
     (ledgerOf [row ''e1'' PROVISION 9007199254740994 False None,
                row ''e2'' DISBURSEMENT 9007199254740992 True (Some 1),
                row ''e3'' DISBURSEMENT 1 True (Some 2),
                row ''e4'' DISBURSEMENT 1 True (Some 3),
                row ''e5'' DISBURSEMENT 1 False None])
   = (Inr (row ''e5'' DISBURSEMENT 1 True (Some 9)),
      ledgerOf [row ''e1'' PROVISION 9007199254740994 False None,
                row ''e2'' DISBURSEMENT 9007199254740992 True (Some 1),
                row ''e3'' DISBURSEMENT 1 True (Some 2),
                row ''e4'' DISBURSEMENT 1 True (Some 3),
                row ''e5'' DISBURSEMENT 1 True (Some 9)])"
  by (simp add: demo_defs double_2p53_1 double_2p53_2)

text \<open>Paying a disbursement of \<open>0.1 + 0.2\<close> as doubles add them, against provisions of 0.1 and 0.2.\<close>

lemma pay_tenths:
  "payExpense accountant1 ''e3'' 9
     (ledgerOf [row ''e1'' PROVISION (3602879701896397 / 36028797018963968) False None,
                row ''e2'' PROVISION (3602879701896397 / 18014398509481984) False None,
                row ''e3'' DISBURSEMENT (1351079888211149 / 4503599627370496) False None])
   = (Inr (row ''e3'' DISBURSEMENT (1351079888211149 / 4503599627370496) True (Some 9)),
      ledgerOf [row ''e1'' PROVISION (3602879701896397 / 36028797018963968) False None,
                row ''e2'' PROVISION (3602879701896397 / 18014398509481984) False None,
                row ''e3'' DISBURSEMENT (1351079888211149 / 4503599627370496) True (Some 9)])"
  by (simp add: requireAccountant_def requireRole_def findExpense_def ownedBy_def
      payExpense_def row_def ledgerOf_def accountant1_def updateRow_def payBalance_def
      shipmentExpenses_def tenth_sum1 tenth_sum2 tenth_balance
      del: plus_number.simps)

subsection \<open>The balance under sequences of operations\<close>

text \<open>
  Claim C1, as stated, fails on the code: the balance of a shipment (PROVISION amounts
  minus paid DISBURSEMENT amounts) becomes negative after a sequence of accepted ledger
  operations. Deleting the unpaid provision that covered a paid disbursement leaves
  \<open>-80\<close>, and so does a patch that marks a disbursement paid without any provision.
  Payments alone do it too, because the pay handler adds the amounts as doubles: beside
  a paid disbursement of 2^53 two paid disbursements of 1 are lost in the paid total, so
  a third one is paid from a balance of 0 and leaves \<open>-1\<close>; and a disbursement of the
  double sum of 0.1 and 0.2 is paid from provisions of 0.1 and 0.2, whose exact sum is
  smaller.
\<close>

theorem ledger_balance_counterexample:
  "shipmentBalance
     (last (run (ledgerOf [])
        [Create accountant1 ''e1'' (expenseInput PROVISION 100),
         Create accountant1 ''e2'' (expenseInput DISBURSEMENT 80),
         Pay accountant1 ''e2'' 5, Delete accountant1 ''e1''])) ''s1'' = - 80
   \<and> shipmentBalance
     (last (run (ledgerOf [])
        [Create accountant1 ''e1'' (expenseInput DISBURSEMENT 80),
         Update accountant1 ''e1'' (noPatch\<lparr>p_paid := Some True\<rparr>) 5])) ''s1'' = - 80
   \<and> shipmentBalance
       (ledgerOf [row ''e1'' PROVISION 9007199254740994 False None,
                  row ''e2'' DISBURSEMENT 9007199254740992 True (Some 1),
                  row ''e3'' DISBURSEMENT 1 True (Some 2),
                  row ''e4'' DISBURSEMENT 1 True (Some 3),
                  row ''e5'' DISBURSEMENT 1 False None]) ''s1'' = 0
   \<and> shipmentBalance
       (step (ledgerOf [row ''e1'' PROVISION 9007199254740994 False None,
                        row ''e2'' DISBURSEMENT 9007199254740992 True (Some 1),
                        row ''e3'' DISBURSEMENT 1 True (Some 2),
                        row ''e4'' DISBURSEMENT 1 True (Some 3),
                        row ''e5'' DISBURSEMENT 1 False None])
          (Pay accountant1 ''e5'' 9)) ''s1'' = - 1
   \<and> 0 \<le> shipmentBalance
       (ledgerOf [row ''e1'' PROVISION (3602879701896397 / 36028797018963968) False None,
                  row ''e2'' PROVISION (3602879701896397 / 18014398509481984) False None,
                  row ''e3'' DISBURSEMENT (1351079888211149 / 4503599627370496) False None]) ''s1''
   \<and> shipmentBalance
       (step (ledgerOf [row ''e1'' PROVISION (3602879701896397 / 36028797018963968) False None,
                        row ''e2'' PROVISION (3602879701896397 / 18014398509481984) False None,
                        row ''e3'' DISBURSEMENT (1351079888211149 / 4503599627370496) False None])
          (Pay accountant1 ''e3'' 9)) ''s1'' = - (1 / 36028797018963968)"
  unfolding run_pay_then_delete_provision run_patch_paid step.simps pay_beyond_2p53 pay_tenths
  by (simp add: balance_of_rows contrib_def row_def)

text \<open>
  Claim C1, amended: on a ledger with unique expense keys, as long as all amounts are
  whole numbers, not negative, and the amounts of each shipment total at most 2^53 (in
  the store at the start and after every operation), the balance of a shipment that is
  not negative at the start is not negative after any operation of a sequence of
  createExpense, payExpense, updateExpense and deleteExpense calls in which every patch
  that is applied leaves the patched row adding at least as much to its shipment's
  balance as before (or moves a row that added nothing positive to a shipment where it
  adds nothing negative), and every deletion that is carried out removes a row that adds
  nothing positive, that is, not an unpaid PROVISION of a positive amount.
\<close>

theorem ledger_balance_guarded:
  assumes "uniqueKeys db" and "exactLedger db" and "guardedRun db ops"
    and "0 \<le> specBalance (filter (\<lambda>e. shipmentId e = s) (expenses db))"
  shows "\<forall>db'\<in>set (run db ops). 0 \<le> specBalance (filter (\<lambda>e. shipmentId e = s) (expenses db'))"
proof -
  have "0 \<le> shipmentBalance db s"
    using assms(4) by (simp only: shipmentBalance_def)
  from run_ok[OF assms(1) this assms(2,3)] show ?thesis
    by (simp only: shipmentBalance_def)
qed

theorem ledger_balance_guarded_witness:
  "uniqueKeys (ledgerOf [])
   \<and> exactLedger (ledgerOf [])
   \<and> guardedRun (ledgerOf [])
        [Create accountant1 ''e1'' (expenseInput PROVISION 100),
         Create accountant1 ''e2'' (expenseInput DISBURSEMENT 80),
         Pay accountant1 ''e2'' 5,
         Update accountant1 ''e2'' (noPatch\<lparr>p_paid := Some False\<rparr>) 6,
         Create accountant1 ''e3'' (expenseInput DISBURSEMENT 10),
         Delete accountant1 ''e3'',
         Pay accountant1 ''e2'' 7,
         Delete accountant1 ''e2'']
   \<and> map (\<lambda>db'. specBalance (filter (\<lambda>e. shipmentId e = ''s1'') (expenses db')))
        (run (ledgerOf [])
          [Create accountant1 ''e1'' (expenseInput PROVISION 100),
           Create accountant1 ''e2'' (expenseInput DISBURSEMENT 80),
           Pay accountant1 ''e2'' 5,
           Update accountant1 ''e2'' (noPatch\<lparr>p_paid := Some False\<rparr>) 6,
           Create accountant1 ''e3'' (expenseInput DISBURSEMENT 10),
           Delete accountant1 ''e3'',
           Pay accountant1 ''e2'' 7,
           Delete accountant1 ''e2''])
       = [100, 100, 20, 100, 100, 100, 20, 20]
   \<and> list_all (\<lambda>db'. 0 \<le> specBalance (filter (\<lambda>e. shipmentId e = ''s1'') (expenses db')))
        (run (ledgerOf [])
          [Create accountant1 ''e1'' (expenseInput PROVISION 100),
           Create accountant1 ''e2'' (expenseInput DISBURSEMENT 80),
           Pay accountant1 ''e2'' 5,
           Update accountant1 ''e2'' (noPatch\<lparr>p_paid := Some False\<rparr>) 6,
           Create accountant1 ''e3'' (expenseInput DISBURSEMENT 10),
           Delete accountant1 ''e3'',
           Pay accountant1 ''e2'' 7,
           Delete accountant1 ''e2''])"
proof -
  let ?ops = "[Create accountant1 ''e1'' (expenseInput PROVISION 100),
               Create accountant1 ''e2'' (expenseInput DISBURSEMENT 80),
               Pay accountant1 ''e2'' 5,
               Update accountant1 ''e2'' (noPatch\<lparr>p_paid := Some False\<rparr>) 6,
               Create accountant1 ''e3'' (expenseInput DISBURSEMENT 10),
               Delete accountant1 ''e3'',
               Pay accountant1 ''e2'' 7,
               Delete accountant1 ''e2'']"
  have r: "run (ledgerOf []) ?ops
      = [ledgerOf [row ''e1'' PROVISION 100 False None],
         ledgerOf [row ''e1'' PROVISION 100 False None, row ''e2'' DISBURSEMENT 80 False None],
         ledgerOf [row ''e1'' PROVISION 100 False None, row ''e2'' DISBURSEMENT 80 True (Some 5)],
         ledgerOf [row ''e1'' PROVISION 100 False None, row ''e2'' DISBURSEMENT 80 False (Some 5)],
         ledgerOf [row ''e1'' PROVISION 100 False None, row ''e2'' DISBURSEMENT 80 False (Some 5),
                   row ''e3'' DISBURSEMENT 10 False None],
         ledgerOf [row ''e1'' PROVISION 100 False None, row ''e2'' DISBURSEMENT 80 False (Some 5)],
         ledgerOf [row ''e1'' PROVISION 100 False None, row ''e2'' DISBURSEMENT 80 True (Some 7)],
         ledgerOf [row ''e1'' PROVISION 100 False None, row ''e2'' DISBURSEMENT 80 True (Some 7)]]"
    by (simp add: demo_defs)
  have u: "uniqueKeys (ledgerOf [])"
    by (simp add: uniqueKeys_def ledgerOf_def)
  have x: "exactLedger (ledgerOf [])"
    by (simp add: exactLedger_def ledgerOf_def)
  have b: "0 \<le> specBalance (filter (\<lambda>e. shipmentId e = ''s1'') (expenses (ledgerOf [])))"
    by (simp add: specBalance_def ledgerOf_def)
  have g: "guardedRun (ledgerOf []) ?ops"
    by (simp add: demo_defs exactLedger_def wholeRows_def keepsContrib_def contrib_def)
  have m: "map (\<lambda>db'. specBalance (filter (\<lambda>e. shipmentId e = ''s1'') (expenses db')))
        (run (ledgerOf []) ?ops) = [100, 100, 20, 100, 100, 100, 20, 20]"
    unfolding r by (simp add: specBalance_def ledgerOf_def row_def)
  from ledger_balance_guarded[OF u x g b] u x g m show ?thesis
    by (simp only: list_all_iff simp_thms)
qed

subsection \<open>payExpense\<close>

text \<open>
  Claim C2, as stated, fails on the code: the balance that the pay handler compares with
  the amount is not the sum of all PROVISION amounts minus the sum of all paid
  DISBURSEMENT amounts, but what double arithmetic makes of it. With provisions of
  2^53, 1 and 1 the handler's total is 2^53, so a disbursement of 2^53 + 2, which the
  balance covers exactly, is refused with InsufficientBalance.
\<close>

theorem payExpense_rounding_counterexample:
  "payExpense accountant1 ''e4'' 9
     (ledgerOf [row ''e1'' PROVISION 9007199254740992 False None,
                row ''e2'' PROVISION 1 False None,
                row ''e3'' PROVISION 1 False None,
                row ''e4'' DISBURSEMENT 9007199254740994 False None])
   = (Inl (InsufficientBalance (Fin 9007199254740992)),
      ledgerOf [row ''e1'' PROVISION 9007199254740992 False None,
                row ''e2'' PROVISION 1 False None,
                row ''e3'' PROVISION 1 False None,
                row ''e4'' DISBURSEMENT 9007199254740994 False None])
   \<and> specBalance
       [row ''e1'' PROVISION 9007199254740992 False None,
        row ''e2'' PROVISION 1 False None,
        row ''e3'' PROVISION 1 False None,
        row ''e4'' DISBURSEMENT 9007199254740994 False None] = 9007199254740994
   \<and> exactValue (amount (row ''e4'' DISBURSEMENT 9007199254740994 False None)) = 9007199254740994"
  by (simp add: demo_defs double_2p53_1 specBalance_def)

text \<open>
  Claim C2, amended: for a caller who is accountant or above and an unpaid expense of the
  caller's company, payExpense compares the amount with the balance of the expense's
  shipment computed in double arithmetic: over all expense rows with that shipment id,
  in the order of the store, the PROVISION amounts added up from 0 minus the paid
  DISBURSEMENT amounts added up from 0, each addition and the subtraction rounded to
  the nearest double. On a DISBURSEMENT whose amount exceeds that balance the call fails
  with InsufficientBalance carrying that balance (status 400) and leaves the store,
  hence the expense, as it was; in every other case (balance sufficient, or type
  PROVISION) it succeeds, the stored expense then has paid = true and paidAt = now and
  no other row is changed. Whenever the amounts of the shipment's rows are whole
  numbers, not negative, totalling at most 2^53, that balance is the exact one, all
  PROVISION amounts minus all paid DISBURSEMENT amounts.
\<close>

theorem payExpense_balance_check:
  assumes "requireAccountant u"
    and "findExpense db (ucompanyId u) i = Some e"
    and "\<not> paid e"
  shows "(etype e = DISBURSEMENT
            \<and> less_number (doubleBalance (filter (\<lambda>x. shipmentId x = shipmentId e) (expenses db))) (amount e) \<longrightarrow>
            payExpense u i now db
              = (Inl (InsufficientBalance (doubleBalance (filter (\<lambda>x. shipmentId x = shipmentId e) (expenses db)))), db)
            \<and> fin_status (InsufficientBalance (doubleBalance (filter (\<lambda>x. shipmentId x = shipmentId e) (expenses db)))) = 400)
       \<and> (\<not> (etype e = DISBURSEMENT
               \<and> less_number (doubleBalance (filter (\<lambda>x. shipmentId x = shipmentId e) (expenses db))) (amount e)) \<longrightarrow>
            payExpense u i now db
              = (Inr (e\<lparr>paid := True, paidAt := Some now\<rparr>),
                 db\<lparr>expenses :=
                   map (\<lambda>r. if eid r = eid e then r\<lparr>paid := True, paidAt := Some now\<rparr> else r)
                     (expenses db)\<rparr>)
            \<and> findExpense (snd (payExpense u i now db)) (ucompanyId u) i
                = Some (e\<lparr>paid := True, paidAt := Some now\<rparr>))
       \<and> (wholeRows (filter (\<lambda>x. shipmentId x = shipmentId e) (expenses db)) \<longrightarrow>
            doubleBalance (filter (\<lambda>x. shipmentId x = shipmentId e) (expenses db)) = Fin (specBalance (filter (\<lambda>x. shipmentId x = shipmentId e) (expenses db)))
            \<and> less_number (doubleBalance (filter (\<lambda>x. shipmentId x = shipmentId e) (expenses db))) (amount e)
                = (specBalance (filter (\<lambda>x. shipmentId x = shipmentId e) (expenses db)) < exactValue (amount e)))"
proof -
  let ?rows = "filter (\<lambda>x. shipmentId x = shipmentId e) (expenses db)"
  have found: "findExpense
      (db\<lparr>expenses := updateRow (eid e) (\<lambda>r. r\<lparr>paid := True, paidAt := Some now\<rparr>) (expenses db)\<rparr>)
      (ucompanyId u) i = Some (e\<lparr>paid := True, paidAt := Some now\<rparr>)"
    using findExpense_after_row_update[OF assms(2), of "\<lambda>r. r\<lparr>paid := True, paidAt := Some now\<rparr>"]
    by simp
  have refused: "etype e = DISBURSEMENT \<and> less_number (doubleBalance ?rows) (amount e) \<longrightarrow>
            payExpense u i now db = (Inl (InsufficientBalance (doubleBalance ?rows)), db)
            \<and> fin_status (InsufficientBalance (doubleBalance ?rows)) = 400"
    using assms by (simp add: payExpense_def shipmentExpenses_def payBalance_double)
  have paidNow: "\<not> (etype e = DISBURSEMENT \<and> less_number (doubleBalance ?rows) (amount e)) \<longrightarrow>
            payExpense u i now db
              = (Inr (e\<lparr>paid := True, paidAt := Some now\<rparr>),
                 db\<lparr>expenses :=
                   map (\<lambda>r. if eid r = eid e then r\<lparr>paid := True, paidAt := Some now\<rparr> else r)
                     (expenses db)\<rparr>)
            \<and> findExpense (snd (payExpense u i now db)) (ucompanyId u) i
                = Some (e\<lparr>paid := True, paidAt := Some now\<rparr>)"
    using assms found
    by (simp add: payExpense_def shipmentExpenses_def payBalance_double updateRow_def)
  have exact: "wholeRows ?rows \<longrightarrow>
            doubleBalance ?rows = Fin (specBalance ?rows)
            \<and> less_number (doubleBalance ?rows) (amount e)
                = (specBalance ?rows < exactValue (amount e))"
  proof
    assume wr: "wholeRows ?rows"
    have "e \<in> set (expenses db)" using assms(2) by (simp add: findExpense_SomeD)
    then have "e \<in> set ?rows" by simp
    then have "whole (amount e)" using wr by (simp add: wholeRows_def list_all_iff)
    then obtain a where a: "amount e = Fin a" by (cases "amount e") simp_all
    from doubleBalance_whole[OF wr] a
    show "doubleBalance ?rows = Fin (specBalance ?rows)
            \<and> less_number (doubleBalance ?rows) (amount e)
                = (specBalance ?rows < exactValue (amount e))"
      by simp
  qed
  from refused paidNow exact show ?thesis by (intro conjI)
qed

theorem payExpense_balance_check_witness:
  "requireAccountant accountant1
   \<and> payExpense accountant1 ''e3'' 9
        (ledgerOf [row ''e1'' PROVISION 100 False None, row ''e2'' DISBURSEMENT 80 True (Some 5),
                   row ''e3'' DISBURSEMENT 30 False None])
      = (Inl (InsufficientBalance (Fin 20)),
         ledgerOf [row ''e1'' PROVISION 100 False None, row ''e2'' DISBURSEMENT 80 True (Some 5),
                   row ''e3'' DISBURSEMENT 30 False None])
   \<and> payExpense accountant1 ''e3'' 9
        (ledgerOf [row ''e1'' PROVISION 100 False None, row ''e2'' DISBURSEMENT 80 True (Some 5),
                   row ''e3'' DISBURSEMENT 20 False None])
      = (Inr (row ''e3'' DISBURSEMENT 20 True (Some 9)),
         ledgerOf [row ''e1'' PROVISION 100 False None, row ''e2'' DISBURSEMENT 80 True (Some 5),
                   row ''e3'' DISBURSEMENT 20 True (Some 9)])
   \<and> payExpense accountant1 ''e1'' 9
        (ledgerOf [row ''e1'' PROVISION 100 False None, row ''e2'' DISBURSEMENT 80 True (Some 5),
                   row ''e3'' DISBURSEMENT 30 False None])
      = (Inr (row ''e1'' PROVISION 100 True (Some 9)),
         ledgerOf [row ''e1'' PROVISION 100 True (Some 9), row ''e2'' DISBURSEMENT 80 True (Some 5),
                   row ''e3'' DISBURSEMENT 30 False None])
   \<and> wholeRows [row ''e1'' PROVISION 100 False None, row ''e2'' DISBURSEMENT 80 True (Some 5),
                 row ''e3'' DISBURSEMENT 30 False None]
   \<and> doubleBalance [row ''e1'' PROVISION 100 False None, row ''e2'' DISBURSEMENT 80 True (Some 5),
                     row ''e3'' DISBURSEMENT 30 False None]
       = Fin (specBalance [row ''e1'' PROVISION 100 False None,
                           row ''e2'' DISBURSEMENT 80 True (Some 5),
                           row ''e3'' DISBURSEMENT 30 False None])
   \<and> specBalance [row ''e1'' PROVISION 100 False None, row ''e2'' DISBURSEMENT 80 True (Some 5),
                   row ''e3'' DISBURSEMENT 30 False None] = 20"
proof -
  let ?es = "\<lambda>a. [row ''e1'' PROVISION 100 False None, row ''e2'' DISBURSEMENT 80 True (Some 5),
                   row ''e3'' DISBURSEMENT a False None]"
  let ?pay = "\<lambda>t r. r\<lparr>paid := True, paidAt := Some t\<rparr>"
  have acc: "requireAccountant accountant1"
    by (simp add: requireAccountant_def requireRole_def accountant1_def)
  have f: "findExpense (ledgerOf (?es a)) (ucompanyId accountant1) ''e3''
             = Some (row ''e3'' DISBURSEMENT a False None)" for a
    by (simp add: findExpense_def ownedBy_def ledgerOf_def row_def accountant1_def)
  have f1: "findExpense (ledgerOf (?es a)) (ucompanyId accountant1) ''e1''
             = Some (row ''e1'' PROVISION 100 False None)" for a
    by (simp add: findExpense_def ownedBy_def ledgerOf_def row_def accountant1_def)
  have u: "\<not> paid (row i t a False None)" for i t a
    by (simp add: row_def)
  have rows: "filter (\<lambda>x. shipmentId x = shipmentId (row i t a False None))
                (expenses (ledgerOf (?es b))) = ?es b" for i t a b
    by (simp add: ledgerOf_def row_def)
  have bal: "doubleBalance (?es a) = Fin 20" for a
    by (simp add: doubleBalance_def doubleSum_def row_def whole_eval)
  have t: "etype (row i k a False None) = k" "amount (row i k a False None) = Fin a"
      "eid (row i k a False None) = i" for i k a
    by (simp_all add: row_def)
  have upd3: "(ledgerOf (?es 20))\<lparr>expenses :=
        map (\<lambda>r. if eid r = ''e3'' then r\<lparr>paid := True, paidAt := Some 9\<rparr> else r)
          (expenses (ledgerOf (?es 20)))\<rparr>
      = ledgerOf [row ''e1'' PROVISION 100 False None, row ''e2'' DISBURSEMENT 80 True (Some 5),
                   row ''e3'' DISBURSEMENT 20 True (Some 9)]"
    by (simp add: ledgerOf_def row_def)
  have upd1: "(ledgerOf (?es 30))\<lparr>expenses :=
        map (\<lambda>r. if eid r = ''e1'' then r\<lparr>paid := True, paidAt := Some 9\<rparr> else r)
          (expenses (ledgerOf (?es 30)))\<rparr>
      = ledgerOf [row ''e1'' PROVISION 100 True (Some 9), row ''e2'' DISBURSEMENT 80 True (Some 5),
                   row ''e3'' DISBURSEMENT 30 False None]"
    by (simp add: ledgerOf_def row_def)
  have r: "(row i k a False None)\<lparr>paid := True, paidAt := Some 9\<rparr> = row i k a True (Some 9)"
    for i k a
    by (simp add: row_def)
  from payExpense_balance_check[OF acc f[of 30] u, of 9]
  have c1: "payExpense accountant1 ''e3'' 9 (ledgerOf (?es 30))
      = (Inl (InsufficientBalance (Fin 20)), ledgerOf (?es 30))"
    unfolding rows bal t by simp
  from payExpense_balance_check[OF acc f[of 20] u, of 9]
  have c2: "payExpense accountant1 ''e3'' 9 (ledgerOf (?es 20))
      = (Inr (row ''e3'' DISBURSEMENT 20 True (Some 9)),
         ledgerOf [row ''e1'' PROVISION 100 False None, row ''e2'' DISBURSEMENT 80 True (Some 5),
                   row ''e3'' DISBURSEMENT 20 True (Some 9)])"
    unfolding rows bal t upd3 r by simp
  from payExpense_balance_check[OF acc f1[of 30] u, of 9]
  have c3: "payExpense accountant1 ''e1'' 9 (ledgerOf (?es 30))
      = (Inr (row ''e1'' PROVISION 100 True (Some 9)),
         ledgerOf [row ''e1'' PROVISION 100 True (Some 9), row ''e2'' DISBURSEMENT 80 True (Some 5),
                   row ''e3'' DISBURSEMENT 30 False None])"
    unfolding rows bal t upd1 r by simp
  have w: "wholeRows (?es 30)"
    by (simp add: wholeRows_def row_def)
  from payExpense_balance_check[OF acc f[of 30] u, of 9]
  have c4: "doubleBalance (?es 30) = Fin (specBalance (?es 30))"
    unfolding rows using w by blast
  have c5: "specBalance (?es 30) = 20"
    by (simp add: specBalance_def row_def)
  from acc c1 c2 c3 w c4 c5 show ?thesis by (intro conjI)
qed

subsection \<open>Paid expenses\<close>

text \<open>
  Claim C3: for an expense whose paid flag is true (reached by a caller who is accountant
  or above, in the caller's company), payExpense fails with the already-paid error and
  deleteExpense fails with the cannot-delete-paid error (both status 400), and each
  leaves the whole store unchanged.
\<close>

theorem paid_expense_rejected:
  assumes "requireAccountant u"
    and "findExpense db (ucompanyId u) i = Some e"
    and "paid e"
  shows "payExpense u i now db = (Inl AlreadyPaid, db)
       \<and> deleteExpense u i db = (Inl CannotDeletePaid, db)
       \<and> fin_status AlreadyPaid = 400 \<and> fin_status CannotDeletePaid = 400"
  using assms by (simp add: payExpense_def deleteExpense_def)

theorem paid_expense_rejected_witness:
  "requireAccountant accountant1
   \<and> findExpense (ledgerOf [row ''e1'' PROVISION 100 False None,
                             row ''e2'' DISBURSEMENT 80 True (Some 5)])
        (ucompanyId accountant1) ''e2'' = Some (row ''e2'' DISBURSEMENT 80 True (Some 5))
   \<and> paid (row ''e2'' DISBURSEMENT 80 True (Some 5))
   \<and> payExpense accountant1 ''e2'' 9
        (ledgerOf [row ''e1'' PROVISION 100 False None, row ''e2'' DISBURSEMENT 80 True (Some 5)])
      = (Inl AlreadyPaid,
         ledgerOf [row ''e1'' PROVISION 100 False None, row ''e2'' DISBURSEMENT 80 True (Some 5)])
   \<and> deleteExpense accountant1 ''e2''
        (ledgerOf [row ''e1'' PROVISION 100 False None, row ''e2'' DISBURSEMENT 80 True (Some 5)])
      = (Inl CannotDeletePaid,
         ledgerOf [row ''e1'' PROVISION 100 False None, row ''e2'' DISBURSEMENT 80 True (Some 5)])"
proof -
  let ?db = "ledgerOf [row ''e1'' PROVISION 100 False None,
                       row ''e2'' DISBURSEMENT 80 True (Some 5)]"
  have acc: "requireAccountant accountant1"
    by (simp add: requireAccountant_def requireRole_def accountant1_def)
  have f: "findExpense ?db (ucompanyId accountant1) ''e2''
             = Some (row ''e2'' DISBURSEMENT 80 True (Some 5))"
    by (simp add: findExpense_def ownedBy_def ledgerOf_def row_def accountant1_def)
  have p: "paid (row ''e2'' DISBURSEMENT 80 True (Some 5))"
    by (simp add: row_def)
  from paid_expense_rejected[OF acc f p, of 9] acc f p show ?thesis
    by simp
qed

subsection \<open>updateExpense\<close>

text \<open>
  Claim C8, as stated, fails on the code: a patch that carries only a paid-at value (here
  7, sent at server time 1000, on an unpaid expense) is stored as given, so the stored
  paidAt does come from the client.
\<close>

theorem updateExpense_client_paidAt_counterexample:
  "updateExpense accountant1 ''e1'' (noPatch\<lparr>p_paidAt := Some (Some 7)\<rparr>) 1000
     (ledgerOf [row ''e1'' DISBURSEMENT 80 False None])
   = (Inr (row ''e1'' DISBURSEMENT 80 False (Some 7)),
      ledgerOf [row ''e1'' DISBURSEMENT 80 False (Some 7)])"
  by (simp add: demo_defs)

text \<open>
  Claim C8, amended: for an updateExpense call by a caller who is accountant or above on
  an expense of the caller's company, the call succeeds and the row is rewritten; when
  the patch sets paid to true and the stored expense was unpaid, paidAt is the server's
  current time, whatever paid-at the client sent; in every other case a paid-at value in
  the patch is stored as given (and paidAt is kept when the patch has none); every other
  field of the patch is applied as given.
\<close>

theorem updateExpense_paidAt_stamp:
  assumes "requireAccountant u"
    and "findExpense db (ucompanyId u) i = Some e"
  shows "\<exists>e'. updateExpense u i body now db
                = (Inr e', db\<lparr>expenses := updateRow (eid e) (applyPatch (updateData body e now))
                                             (expenses db)\<rparr>)
          \<and> e' = applyPatch (updateData body e now) e
          \<and> (p_paid body = Some True \<and> \<not> paid e \<longrightarrow> paidAt e' = Some now)
          \<and> (\<not> (p_paid body = Some True \<and> \<not> paid e) \<longrightarrow>
                paidAt e' = orKeep (p_paidAt body) (paidAt e))
          \<and> eid e' = eid e
          \<and> shipmentId e' = orKeep (p_shipmentId body) (shipmentId e)
          \<and> etype e' = orKeep (p_type body) (etype e)
          \<and> category e' = orKeep (p_category body) (category e)
          \<and> description e' = orKeep (p_description body) (description e)
          \<and> amount e' = orKeep (p_amount body) (amount e)
          \<and> quantity e' = orKeep (p_quantity body) (quantity e)
          \<and> unitPrice e' = orKeep (p_unitPrice body) (unitPrice e)
          \<and> reference e' = orKeep (p_reference body) (reference e)
          \<and> supplier e' = orKeep (p_supplier body) (supplier e)
          \<and> paid e' = orKeep (p_paid body) (paid e)"
proof -
  let ?e' = "applyPatch (updateData body e now) e"
  have res: "updateExpense u i body now db
      = (Inr ?e', db\<lparr>expenses := updateRow (eid e) (applyPatch (updateData body e now))
                                   (expenses db)\<rparr>)"
    using assms by (simp add: updateExpense_def)
  have stamp: "p_paid body = Some True \<and> \<not> paid e \<longrightarrow> paidAt ?e' = Some now"
    by (simp add: applyPatch_def updateData_def orKeep_def)
  have other: "\<not> (p_paid body = Some True \<and> \<not> paid e) \<longrightarrow>
                paidAt ?e' = orKeep (p_paidAt body) (paidAt e)"
    by (simp add: applyPatch_def updateData_def)
  have fields: "eid ?e' = eid e"
    "shipmentId ?e' = orKeep (p_shipmentId body) (shipmentId e)"
    "etype ?e' = orKeep (p_type body) (etype e)"
    "category ?e' = orKeep (p_category body) (category e)"
    "description ?e' = orKeep (p_description body) (description e)"
    "amount ?e' = orKeep (p_amount body) (amount e)"
    "quantity ?e' = orKeep (p_quantity body) (quantity e)"
    "unitPrice ?e' = orKeep (p_unitPrice body) (unitPrice e)"
    "reference ?e' = orKeep (p_reference body) (reference e)"
    "supplier ?e' = orKeep (p_supplier body) (supplier e)"
    "paid ?e' = orKeep (p_paid body) (paid e)"
    by (simp_all add: applyPatch_def updateData_def)
  show ?thesis
    using res stamp other fields by blast
qed

theorem updateExpense_paidAt_stamp_witness:
  "requireAccountant accountant1
   \<and> updateExpense accountant1 ''e1'' (noPatch\<lparr>p_paid := Some True, p_paidAt := Some (Some 7)\<rparr>) 1000
       (ledgerOf [row ''e1'' DISBURSEMENT 80 False None])
     = (Inr (row ''e1'' DISBURSEMENT 80 True (Some 1000)),
        ledgerOf [row ''e1'' DISBURSEMENT 80 True (Some 1000)])
   \<and> updateExpense accountant1 ''e1'' (noPatch\<lparr>p_paid := Some True, p_paidAt := Some (Some 7)\<rparr>) 1000
       (ledgerOf [row ''e1'' DISBURSEMENT 80 True (Some 5)])
     = (Inr (row ''e1'' DISBURSEMENT 80 True (Some 7)),
        ledgerOf [row ''e1'' DISBURSEMENT 80 True (Some 7)])"
proof -
  let ?p = "noPatch\<lparr>p_paid := Some True, p_paidAt := Some (Some 7)\<rparr>"
  have acc: "requireAccountant accountant1"
    by (simp add: requireAccountant_def requireRole_def accountant1_def)
  have f: "findExpense (ledgerOf [row ''e1'' DISBURSEMENT 80 pd ts]) (ucompanyId accountant1) ''e1''
             = Some (row ''e1'' DISBURSEMENT 80 pd ts)" for pd ts
    by (simp add: findExpense_def ownedBy_def ledgerOf_def row_def accountant1_def)
  have a1: "applyPatch (updateData ?p (row ''e1'' DISBURSEMENT 80 False None) 1000) r
      = r\<lparr>paid := True, paidAt := Some 1000\<rparr>" for r
    by (simp add: applyPatch_def updateData_def orKeep_def noPatch_def row_def)
  have a2: "applyPatch (updateData ?p (row ''e1'' DISBURSEMENT 80 True (Some 5)) 1000) r
      = r\<lparr>paid := True, paidAt := Some 7\<rparr>" for r
    by (simp add: applyPatch_def updateData_def orKeep_def noPatch_def row_def)
  have s: "(ledgerOf [row ''e1'' DISBURSEMENT 80 pd ts])\<lparr>expenses :=
             updateRow (eid (row ''e1'' DISBURSEMENT 80 pd ts)) (\<lambda>r. r\<lparr>paid := True, paidAt := Some t\<rparr>)
               (expenses (ledgerOf [row ''e1'' DISBURSEMENT 80 pd ts]))\<rparr>
           = ledgerOf [row ''e1'' DISBURSEMENT 80 True (Some t)]" for pd ts t
    by (simp add: ledgerOf_def row_def updateRow_def)
  have r: "(row ''e1'' DISBURSEMENT 80 pd ts)\<lparr>paid := True, paidAt := Some t\<rparr>
           = row ''e1'' DISBURSEMENT 80 True (Some t)" for pd ts t
    by (simp add: row_def)
  from updateExpense_paidAt_stamp[OF acc f[of False None], of ?p 1000]
       updateExpense_paidAt_stamp[OF acc f[of True "Some 5"], of ?p 1000]
  show ?thesis
    unfolding a1 a2 s r using acc by simp
qed

section \<open>Properties of the credential and session manager\<close>

subsection \<open>Lookups after a row update\<close>

lemma findUserByEmail_updateUser:
  assumes "findUserByEmail db a = Some u" and "\<And>r. email (f r) = email r"
  shows "findUserByEmail (updateUser (user_id u) f db) a = Some (f u)"
proof -
  let ?g = "\<lambda>r. if user_id r = user_id u then f r else r"
  have "\<And>x. (email (?g x) = a) = (email x = a)"
    using assms(2) by simp
  then have "find (\<lambda>x. email x = a) (map ?g (users db))
      = map_option ?g (find (\<lambda>x. email x = a) (users db))"
    by (rule find_map_preserved)
  then show ?thesis
    using assms(1) by (simp add: findUserByEmail_def updateUser_def)
qed

lemma findUserByEmail_outbox [simp]:
  "findUserByEmail (sendVerificationEmail to c n db) a = findUserByEmail db a"
  by (simp add: findUserByEmail_def sendVerificationEmail_def)

lemma findUserByEmail_saveRefreshToken [simp]:
  "findUserByEmail (saveRefreshToken t i now db) a = findUserByEmail db a"
  by (simp add: findUserByEmail_def saveRefreshToken_def)

lemma user_id_saveRefreshToken [simp]:
  "users (saveRefreshToken t i now db) = users db"
  by (simp add: saveRefreshToken_def)

lemma minutesLeft_ceiling: "minutesLeft t now = \<lceil>of_int (t - now) / (60000::rat)\<rceil>"
proof -
  have "of_int (now - t) = - (of_int (t - now) :: rat)"
    by simp
  then have "- (of_int (t - now) / (60000::rat)) = of_int (now - t) / of_int 60000"
    by (simp only: minus_divide_left of_int_numeral)
  then have "\<lfloor>- (of_int (t - now) / (60000::rat))\<rfloor> = (now - t) div 60000"
    by (simp only: floor_divide_of_int_eq)
  then show ?thesis
    by (simp only: minutesLeft_def ceiling_def)
qed

lemma minutesLeft_pos: "now < t \<Longrightarrow> 1 \<le> minutesLeft t now"
  by (simp add: minutesLeft_def)

lemma demo_lower: "toLowerCase ''A@b.gn'' = ''a@b.gn''"
  by code_simp

lemmas auth_demo_defs =
  login_def loginSchema_def findUserByEmail_def demo_lower isLocked_def
  minutesLeft_def failure_def okReply_def updateUser_def recordFailure_def recordSuccess_def
  issueCode_def sendVerificationEmail_def saveRefreshToken_def generateTokens_def jwtSign_def
  userView_def env1_def lib1_def userRow_def authdbOf_def loginBody_def

lemma demo_login_found:
  "loginSchema lib1 (loginBody pw) = (pw \<noteq> [])"
  "findUserByEmail (authdbOf (userRow v n l)) (toLowerCase (body_email (loginBody pw)))
     = Some (userRow v n l)"
  by (simp_all add: loginSchema_def findUserByEmail_def demo_lower lib1_def
      userRow_def authdbOf_def loginBody_def)

subsection \<open>Lockout after repeated failures\<close>

text \<open>
  Claim C5, as stated for every account, fails on the code: the e-mail verification and
  the activation of the account are checked before the password, so on an account whose
  e-mail is not verified, or that is deactivated, a wrong-password login does not touch
  the failure counter, and no number of failures locks it.
\<close>

theorem login_counter_counterexample:
  "\<not> bcryptCompare lib1 (body_password (loginBody ''wrong'')) (password (userRow False 0 None))
   \<and> map failedAttempts (users (snd (login env1 lib1 1000 ''123456'' (loginBody ''wrong'')
         (authdbOf (userRow False 0 None))))) = [0]
   \<and> status (fst (login env1 lib1 1000 ''123456'' (loginBody ''wrong'')
         (authdbOf (userRow False 0 None)))) = 403
   \<and> login env1 lib1 1000 ''123456'' (loginBody ''wrong'')
         (authdbOf ((userRow True 4 None)\<lparr>isActive := False\<rparr>))
       = (failure 401 AccountDisabled, authdbOf ((userRow True 4 None)\<lparr>isActive := False\<rparr>))"
  by (simp add: auth_demo_defs)

text \<open>
  Claim C5, amended: for every account reached by a well-formed login request: during
  the lockout window every attempt, whatever the password and whether or not the account
  is verified or active, is rejected with status 423 carrying the remaining minutes (the
  time left divided by 60000 and rounded up, at least 1) and changes nothing. For every
  account that is verified and active, outside the lockout window: a wrong password is
  answered 401 (with the too-many-attempts message when the counter reaches 5 or more,
  the incorrect-credentials message below) and adds one to the failure counter, setting
  a lockout of 15 minutes when the counter reaches 5 or more and no lockout below; a
  correct password succeeds with status 200, resets the counter to 0 and clears the
  lockout.
\<close>

theorem login_lockout:
  assumes "loginSchema L body"
    and "findUserByEmail db (toLowerCase (body_email body)) = Some u"
  shows "(isLocked u now \<longrightarrow>
            login e L now c body db
              = (\<lparr> status = 423, success = False,
                    message = Some (AccountLocked
                                \<lceil>of_int (the (lockedUntil u) - now) / (60000::rat)\<rceil>),
                    code = None, requiresVerification = False, userData = None,
                    accessCookie = None, refreshCookie = None \<rparr>, db)
            \<and> 1 \<le> \<lceil>of_int (the (lockedUntil u) - now) / (60000::rat)\<rceil>)
       \<and> (emailVerified u \<and> isActive u \<and> \<not> isLocked u now
            \<and> \<not> bcryptCompare L (body_password body) (password u) \<longrightarrow>
            fst (login e L now c body db)
              = \<lparr> status = 401, success = False,
                   message = Some (if failedAttempts u + 1 \<ge> 5 then TooManyAttempts
                                   else BadCredentials),
                   code = None, requiresVerification = False, userData = None,
                   accessCookie = None, refreshCookie = None \<rparr>
            \<and> findUserByEmail (snd (login e L now c body db)) (toLowerCase (body_email body))
                = Some (u\<lparr>failedAttempts := failedAttempts u + 1,
                          lockedUntil := (if failedAttempts u + 1 \<ge> 5
                                          then Some (now + 15 * 60 * 1000) else None)\<rparr>))
       \<and> (emailVerified u \<and> isActive u \<and> \<not> isLocked u now
            \<and> bcryptCompare L (body_password body) (password u) \<longrightarrow>
            status (fst (login e L now c body db)) = 200
            \<and> success (fst (login e L now c body db))
            \<and> findUserByEmail (snd (login e L now c body db)) (toLowerCase (body_email body))
                = Some (u\<lparr>failedAttempts := 0, lockedUntil := None, lastLogin := Some now\<rparr>))"
proof -
  let ?a = "toLowerCase (body_email body)"
  have locked: "login e L now c body db
      = (\<lparr> status = 423, success = False,
            message = Some (AccountLocked \<lceil>of_int (the (lockedUntil u) - now) / (60000::rat)\<rceil>),
            code = None, requiresVerification = False, userData = None,
            accessCookie = None, refreshCookie = None \<rparr>, db)
      \<and> 1 \<le> \<lceil>of_int (the (lockedUntil u) - now) / (60000::rat)\<rceil>" if "isLocked u now"
  proof -
    from that obtain t where t: "lockedUntil u = Some t" "now < t"
      by (auto simp: isLocked_def split: option.splits)
    have "login e L now c body db = (failure 423 (AccountLocked (minutesLeft t now)), db)"
      using assms(1,2) that t by (simp add: login_def)
    moreover have "1 \<le> minutesLeft t now" using t(2) by (rule minutesLeft_pos)
    ultimately show ?thesis using t(1) by (simp add: minutesLeft_ceiling failure_def)
  qed
  have wrong: "fst (login e L now c body db)
        = \<lparr> status = 401, success = False,
             message = Some (if failedAttempts u + 1 \<ge> 5 then TooManyAttempts
                             else BadCredentials),
             code = None, requiresVerification = False, userData = None,
             accessCookie = None, refreshCookie = None \<rparr>
      \<and> findUserByEmail (snd (login e L now c body db)) ?a
          = Some (u\<lparr>failedAttempts := failedAttempts u + 1,
                    lockedUntil := (if failedAttempts u + 1 \<ge> 5
                                    then Some (now + 15 * 60 * 1000) else None)\<rparr>)"
    if "emailVerified u" "isActive u" "\<not> isLocked u now"
      "\<not> bcryptCompare L (body_password body) (password u)"
  proof -
    have "login e L now c body db
        = (failure 401 (if failedAttempts u + 1 \<ge> 5 then TooManyAttempts else BadCredentials),
           updateUser (user_id u) (recordFailure now) db)"
      using assms that by (simp add: login_def)
    moreover have "findUserByEmail (updateUser (user_id u) (recordFailure now) db) ?a
        = Some (recordFailure now u)"
      using assms(2) by (rule findUserByEmail_updateUser) (simp add: recordFailure_def)
    ultimately show ?thesis by (simp add: failure_def recordFailure_def)
  qed
  have right: "status (fst (login e L now c body db)) = 200
      \<and> success (fst (login e L now c body db))
      \<and> findUserByEmail (snd (login e L now c body db)) ?a
          = Some (u\<lparr>failedAttempts := 0, lockedUntil := None, lastLogin := Some now\<rparr>)"
    if "emailVerified u" "isActive u" "\<not> isLocked u now"
      "bcryptCompare L (body_password body) (password u)"
  proof -
    obtain a r where g: "generateTokens e now (user_id u) (user_role u) (user_companyId u) = (a, r)"
      by (cases "generateTokens e now (user_id u) (user_role u) (user_companyId u)")
    have "login e L now c body db
        = (okReply\<lparr>userData := Some (userView u), accessCookie := Some a, refreshCookie := Some r\<rparr>,
           updateUser (user_id u) (recordSuccess now) (saveRefreshToken r (user_id u) now db))"
      using assms that g by (simp add: login_def)
    moreover have "findUserByEmail
        (updateUser (user_id u) (recordSuccess now) (saveRefreshToken r (user_id u) now db)) ?a
        = Some (recordSuccess now u)"
      by (rule findUserByEmail_updateUser) (simp_all add: assms(2) recordSuccess_def)
    ultimately show ?thesis by (simp add: okReply_def recordSuccess_def)
  qed
  from locked wrong right show ?thesis by blast
qed

theorem login_lockout_witness:
  "login env1 lib1 5000 ''123456'' (loginBody ''wrong'') (authdbOf (userRow True 4 None))
     = (failure 401 TooManyAttempts, authdbOf (userRow True 5 (Some 905000)))
   \<and> login env1 lib1 6000 ''123456'' (loginBody ''secret'') (authdbOf (userRow True 5 (Some 905000)))
     = (failure 423 (AccountLocked 15), authdbOf (userRow True 5 (Some 905000)))
   \<and> login env1 lib1 6000 ''123456'' (loginBody ''secret'') (authdbOf (userRow False 5 (Some 905000)))
     = (failure 423 (AccountLocked 15), authdbOf (userRow False 5 (Some 905000)))
   \<and> map (\<lambda>r. (failedAttempts r, lockedUntil r))
       (users (snd (login env1 lib1 905000 ''123456'' (loginBody ''secret'')
          (authdbOf (userRow True 5 (Some 905000)))))) = [(0, None)]
   \<and> status (fst (login env1 lib1 905000 ''123456'' (loginBody ''secret'')
          (authdbOf (userRow True 5 (Some 905000))))) = 200"
proof -
  have v: "emailVerified (userRow True n l)" "isActive (userRow True n l)" for n l
    by (simp_all add: userRow_def)
  have s: "loginSchema lib1 (loginBody ''wrong'')" "loginSchema lib1 (loginBody ''secret'')"
    by (simp_all add: demo_login_found)
  note t1 = login_lockout[OF s(1) demo_login_found(2), of True 4 None 5000 env1 "''123456''"]
  note t2 = login_lockout[OF s(2) demo_login_found(2), of True 5 "Some 905000" 6000 env1 "''123456''"]
  note t3 = login_lockout[OF s(2) demo_login_found(2), of True 5 "Some 905000" 905000 env1 "''123456''"]
  note t4 = login_lockout[OF s(2) demo_login_found(2), of False 5 "Some 905000" 6000 env1 "''123456''"]
  have "\<lceil>of_int (905000 - 6000) / (60000::rat)\<rceil> = 15"
    by (simp add: ceiling_eq_iff)
  with t1 t2 t3 t4 v show ?thesis
    by (simp add: auth_demo_defs)
qed

subsection \<open>Unverified accounts at login\<close>

text \<open>
  Claim C6, as stated, fails on the code: an unverified account with a wrong password
  gets the needs-verification reply (status 403, code EMAIL_NOT_VERIFIED, a new code
  stored and mailed), not the generic incorrect-credentials reply.
\<close>

theorem login_unverified_counterexample:
  "\<not> bcryptCompare lib1 (body_password (loginBody ''wrong'')) (password (userRow False 0 None))
   \<and> fst (login env1 lib1 1000 ''123456'' (loginBody ''wrong'') (authdbOf (userRow False 0 None)))
       = (failure 403 EmailNotVerified)
           \<lparr>requiresVerification := True, code := Some ''EMAIL_NOT_VERIFIED''\<rparr>
   \<and> fst (login env1 lib1 1000 ''123456'' (loginBody ''wrong'') (authdbOf (userRow False 0 None)))
       \<noteq> failure 401 BadCredentials
   \<and> map verificationCode (users (snd (login env1 lib1 1000 ''123456'' (loginBody ''wrong'')
         (authdbOf (userRow False 0 None))))) = [Some ''123456'']"
  by (simp add: auth_demo_defs)

text \<open>
  Claim C6, amended: for every well-formed login call, an unknown e-mail is answered with
  the generic incorrect-credentials reply (status 401), and an existing, unverified
  account that is not locked is answered with the needs-verification reply (status 403,
  code EMAIL_NOT_VERIFIED) whatever password was supplied: the password is not checked;
  a freshly issued verification code, expiring 15 minutes later, is stored and mailed.
\<close>

theorem login_unverified:
  assumes "loginSchema L body"
  shows "(findUserByEmail db (toLowerCase (body_email body)) = None \<longrightarrow>
            login e L now c body db = (failure 401 BadCredentials, db))
       \<and> (findUserByEmail db (toLowerCase (body_email body)) = Some u
            \<and> \<not> emailVerified u \<and> \<not> isLocked u now \<longrightarrow>
            login e L now c body db
              = ((failure 403 EmailNotVerified)
                   \<lparr>requiresVerification := True, code := Some ''EMAIL_NOT_VERIFIED''\<rparr>,
                 sendVerificationEmail (body_email body) c (company_name (user_company u))
                   (updateUser (user_id u) (issueCode c now) db))
            \<and> findUserByEmail (snd (login e L now c body db)) (toLowerCase (body_email body))
                = Some (u\<lparr>verificationCode := Some c,
                          codeExpiresAt := Some (now + 15 * 60 * 1000)\<rparr>))"
proof -
  let ?a = "toLowerCase (body_email body)"
  have unknown: "login e L now c body db = (failure 401 BadCredentials, db)"
    if "findUserByEmail db ?a = None"
    using assms that by (simp add: login_def)
  have unverified: "login e L now c body db
        = ((failure 403 EmailNotVerified)
             \<lparr>requiresVerification := True, code := Some ''EMAIL_NOT_VERIFIED''\<rparr>,
           sendVerificationEmail (body_email body) c (company_name (user_company u))
             (updateUser (user_id u) (issueCode c now) db))
      \<and> findUserByEmail (snd (login e L now c body db)) ?a
          = Some (u\<lparr>verificationCode := Some c, codeExpiresAt := Some (now + 15 * 60 * 1000)\<rparr>)"
    if f: "findUserByEmail db ?a = Some u" and "\<not> emailVerified u" "\<not> isLocked u now"
  proof -
    have "findUserByEmail (updateUser (user_id u) (issueCode c now) db) ?a = Some (issueCode c now u)"
      using f by (rule findUserByEmail_updateUser) (simp add: issueCode_def)
    then show ?thesis
      using assms that by (simp add: login_def issueCode_def)
  qed
  from unknown unverified show ?thesis by blast
qed

theorem login_unverified_witness:
  "login env1 lib1 1000 ''123456'' (loginBody ''secret'') (authdbOf (userRow False 0 None))
     = ((failure 403 EmailNotVerified)\<lparr>requiresVerification := True, code := Some ''EMAIL_NOT_VERIFIED''\<rparr>,
        \<lparr> users = [(userRow False 0 None)\<lparr>verificationCode := Some ''123456'',
                                         codeExpiresAt := Some 901000\<rparr>],
          refreshTokens = [], outbox = [VerificationEmail ''A@b.gn'' ''123456'' ''Agence''] \<rparr>)
   \<and> login env1 lib1 1000 ''123456'' (loginBody ''secret'')
        \<lparr> users = [], refreshTokens = [], outbox = [] \<rparr>
     = (failure 401 BadCredentials, \<lparr> users = [], refreshTokens = [], outbox = [] \<rparr>)"
proof -
  have s: "loginSchema lib1 (loginBody ''secret'')"
    by (simp add: demo_login_found)
  have n: "findUserByEmail \<lparr> users = [], refreshTokens = [], outbox = [] \<rparr>
             (toLowerCase (body_email (loginBody ''secret''))) = None"
    by (simp add: findUserByEmail_def)
  have u: "\<not> emailVerified (userRow False 0 None)" "\<not> isLocked (userRow False 0 None) 1000"
    by (simp_all add: userRow_def isLocked_def)
  from login_unverified[OF s, of "authdbOf (userRow False 0 None)" env1 1000 "''123456''"
         "userRow False 0 None"]
       login_unverified[OF s, of "\<lparr> users = [], refreshTokens = [], outbox = [] \<rparr>" env1 1000
         "''123456''" "userRow False 0 None"]
       n u demo_login_found(2)[of False 0 None "''secret''"]
  show ?thesis
    by (simp add: sendVerificationEmail_def updateUser_def issueCode_def authdbOf_def
        userRow_def loginBody_def)
qed

subsection \<open>resendCode\<close>

text \<open>
  Claim C10: every resendCode call gets the same reply: status 200, success true, the
  one fixed message ("Si ce compte existe, un code a ete envoye"), no cookie; so two calls, one with the e-mail of an existing account and one with
  the e-mail of no account, cannot be told apart by their replies; a new verification
  code with an expiry 15 minutes later is stored (and mailed) exactly when the address
  is well-formed and belongs to an existing, unverified account, and in every other case
  the store is unchanged.
\<close>

theorem resendCode_same_reply:
  "fst (resendCode L now c a db)
     = \<lparr> status = 200, success = True, message = Some CodeResent, code = None,
          requiresVerification = False, userData = None, accessCookie = None,
          refreshCookie = None \<rparr>
   \<and> fst (resendCode L now c a db) = fst (resendCode L' now' c' a' db')
   \<and> (isEmail L a \<and> findUserByEmail db (toLowerCase a) = Some u \<and> \<not> emailVerified u \<longrightarrow>
        snd (resendCode L now c a db)
          = sendVerificationEmail a c (company_name (user_company u))
              (updateUser (user_id u) (issueCode c now) db)
        \<and> findUserByEmail (snd (resendCode L now c a db)) (toLowerCase a)
            = Some (u\<lparr>verificationCode := Some c, codeExpiresAt := Some (now + 15 * 60 * 1000)\<rparr>))
   \<and> (\<not> (isEmail L a \<and> (\<exists>v. findUserByEmail db (toLowerCase a) = Some v \<and> \<not> emailVerified v)) \<longrightarrow>
        snd (resendCode L now c a db) = db)"
proof -
  have same: "fst (resendCode L now c a db) = resentReply" for L now c a db
    by (simp add: resendCode_def split: option.split)
  have issued: "snd (resendCode L now c a db)
          = sendVerificationEmail a c (company_name (user_company u))
              (updateUser (user_id u) (issueCode c now) db)
        \<and> findUserByEmail (snd (resendCode L now c a db)) (toLowerCase a)
            = Some (u\<lparr>verificationCode := Some c, codeExpiresAt := Some (now + 15 * 60 * 1000)\<rparr>)"
    if "isEmail L a" and f: "findUserByEmail db (toLowerCase a) = Some u" and "\<not> emailVerified u"
  proof -
    have "findUserByEmail (updateUser (user_id u) (issueCode c now) db) (toLowerCase a)
        = Some (issueCode c now u)"
      using f by (rule findUserByEmail_updateUser) (simp add: issueCode_def)
    then show ?thesis
      using that by (simp add: resendCode_def issueCode_def)
  qed
  have kept: "snd (resendCode L now c a db) = db"
    if "\<not> (isEmail L a \<and> (\<exists>v. findUserByEmail db (toLowerCase a) = Some v \<and> \<not> emailVerified v))"
    using that by (auto simp: resendCode_def split: option.split)
  have s1: "fst (resendCode L now c a db)
     = \<lparr> status = 200, success = True, message = Some CodeResent, code = None,
          requiresVerification = False, userData = None, accessCookie = None,
          refreshCookie = None \<rparr>"
    by (simp add: same resentReply_def okReply_def)
  have s2: "fst (resendCode L now c a db) = fst (resendCode L' now' c' a' db')"
    by (simp only: same)
  from s1 s2 issued kept show ?thesis
    by blast
qed

theorem resendCode_same_reply_witness:
  "status (fst (resendCode lib1 1000 ''123456'' ''A@b.gn'' (authdbOf (userRow False 0 None)))) = 200
   \<and> success (fst (resendCode lib1 1000 ''123456'' ''A@b.gn'' (authdbOf (userRow False 0 None))))
   \<and> message (fst (resendCode lib1 1000 ''123456'' ''A@b.gn'' (authdbOf (userRow False 0 None))))
       = Some CodeResent
   \<and> fst (resendCode lib1 1000 ''123456'' ''A@b.gn'' (authdbOf (userRow False 0 None)))
     = fst (resendCode lib1 1000 ''123456'' ''nobody@b.gn'' (authdbOf (userRow False 0 None)))
   \<and> snd (resendCode lib1 1000 ''123456'' ''A@b.gn'' (authdbOf (userRow False 0 None)))
     = \<lparr> users = [(userRow False 0 None)\<lparr>verificationCode := Some ''123456'',
                                         codeExpiresAt := Some 901000\<rparr>],
          refreshTokens = [], outbox = [VerificationEmail ''A@b.gn'' ''123456'' ''Agence''] \<rparr>
   \<and> snd (resendCode lib1 1000 ''123456'' ''A@b.gn'' (authdbOf (userRow True 0 None)))
     = authdbOf (userRow True 0 None)"
proof -
  let ?new = "\<lparr> users = [(userRow False 0 None)\<lparr>verificationCode := Some ''123456'',
                                                 codeExpiresAt := Some 901000\<rparr>],
               refreshTokens = [], outbox = [VerificationEmail ''A@b.gn'' ''123456'' ''Agence''] \<rparr>"
  have m: "isEmail lib1 ''A@b.gn''"
    by (simp add: lib1_def)
  have f: "findUserByEmail (authdbOf (userRow v 0 None)) (toLowerCase ''A@b.gn'')
             = Some (userRow v 0 None)" for v
    by (simp add: findUserByEmail_def demo_lower authdbOf_def userRow_def)
  have u: "\<not> emailVerified (userRow False 0 None)" "emailVerified (userRow True 0 None)"
    by (simp_all add: userRow_def)
  have st: "sendVerificationEmail ''A@b.gn'' ''123456''
              (company_name (user_company (userRow False 0 None)))
              (updateUser (user_id (userRow False 0 None)) (issueCode ''123456'' 1000)
                 (authdbOf (userRow False 0 None))) = ?new"
    by (simp add: sendVerificationEmail_def updateUser_def issueCode_def authdbOf_def userRow_def)
  note t1 = resendCode_same_reply[of lib1 1000 "''123456''" "''A@b.gn''"
         "authdbOf (userRow False 0 None)"
         lib1 1000 "''123456''" "''nobody@b.gn''" "authdbOf (userRow False 0 None)"
         "userRow False 0 None"]
  note t2 = resendCode_same_reply[of lib1 1000 "''123456''" "''A@b.gn''"
         "authdbOf (userRow True 0 None)"
         lib1 1000 "''123456''" "''A@b.gn''" "authdbOf (userRow True 0 None)"
         "userRow True 0 None"]
  have a: "fst (resendCode lib1 1000 ''123456'' ''A@b.gn'' (authdbOf (userRow False 0 None)))
     = fst (resendCode lib1 1000 ''123456'' ''nobody@b.gn'' (authdbOf (userRow False 0 None)))"
    using t1 by blast
  have b: "snd (resendCode lib1 1000 ''123456'' ''A@b.gn'' (authdbOf (userRow False 0 None))) = ?new"
    using t1 m f[of False] u(1) st by simp
  have c: "snd (resendCode lib1 1000 ''123456'' ''A@b.gn'' (authdbOf (userRow True 0 None)))
     = authdbOf (userRow True 0 None)"
    using t2 f[of True] u(2) by simp
  have r: "status (fst (resendCode lib1 1000 ''123456'' ''A@b.gn'' (authdbOf (userRow False 0 None)))) = 200
     \<and> success (fst (resendCode lib1 1000 ''123456'' ''A@b.gn'' (authdbOf (userRow False 0 None))))
     \<and> message (fst (resendCode lib1 1000 ''123456'' ''A@b.gn'' (authdbOf (userRow False 0 None))))
         = Some CodeResent"
    using t1 by simp
  from r a b c show ?thesis by blast
qed

subsection \<open>Refresh and logout\<close>

lemma findUserByEmail_mem: "findUserByEmail db a = Some u \<Longrightarrow> u \<in> set (users db)"
  by (auto simp: findUserByEmail_def find_Some_iff)

lemma findUserById_unique:
  "distinct (map user_id (users db)) \<Longrightarrow> u \<in> set (users db) \<Longrightarrow> findUserById db (user_id u) = Some u"
  unfolding findUserById_def by (rule find_unique_key)

lemma findUserById_updateUser:
  assumes "findUserById db i = Some u" and "\<And>r. user_id (f r) = user_id r"
  shows "findUserById (updateUser j f db) i = Some (if user_id u = j then f u else u)"
proof -
  let ?g = "\<lambda>r. if user_id r = j then f r else r"
  have "\<And>x. (user_id (?g x) = i) = (user_id x = i)"
    using assms(2) by simp
  then have "find (\<lambda>x. user_id x = i) (map ?g (users db))
      = map_option ?g (find (\<lambda>x. user_id x = i) (users db))"
    by (rule find_map_preserved)
  then show ?thesis
    using assms(1) by (simp add: findUserById_def updateUser_def)
qed

lemma find_append_hit: "P x \<Longrightarrow> \<exists>y. find P (xs @ [x]) = Some y \<and> P y"
  by (induction xs) auto

text \<open>A refresh token that login has just stored is found again while it has not expired.\<close>

lemma findStoredToken_saved:
  assumes "now < t0 + 7 * 24 * 60 * 60 * 1000"
  shows "\<exists>stored. findStoredToken (updateUser j f (saveRefreshToken t i t0 db)) t i now = Some stored
           \<and> rt_userId stored = i"
proof -
  let ?new = "\<lparr> token = t, rt_userId = i, expiresAt = t0 + 7 * 24 * 60 * 60 * 1000,
                 revokedAt = None \<rparr>"
  let ?P = "\<lambda>r. token r = t \<and> rt_userId r = i \<and> revokedAt r = None \<and> now < expiresAt r"
  have "?P ?new" using assms by simp
  then have "\<exists>y. find ?P (refreshTokens db @ [?new]) = Some y \<and> ?P y"
    by (rule find_append_hit)
  then show ?thesis
    by (auto simp: findStoredToken_def updateUser_def saveRefreshToken_def)
qed

lemma seconds_bound:
  fixes t1 t0 :: int
  assumes "t1 div 1000 < t0 div 1000 + 7 * 24 * 60 * 60"
  shows "t1 < t0 + 7 * 24 * 60 * 60 * 1000"
  using assms by linarith

text \<open>Refreshing with the credential that a successful login has just issued.\<close>

lemma refresh_after_login:
  assumes "findUserByEmail db a = Some u"
    and "distinct (map user_id (users db))"
    and "t1 div 1000 < t0 div 1000 + 7 * 24 * 60 * 60"
  shows "refresh e t1
           (Some (jwtSign (RefreshClaims (user_id u)) (REFRESH_TOKEN_SECRET e) (7 * 24 * 60 * 60) t0))
           (updateUser (user_id u) (recordSuccess t0)
              (saveRefreshToken
                 (jwtSign (RefreshClaims (user_id u)) (REFRESH_TOKEN_SECRET e) (7 * 24 * 60 * 60) t0)
                 (user_id u) t0 db))
       = (okReply\<lparr>accessCookie :=
            Some (jwtSign (AccessClaims (user_id u) (user_role u) (user_companyId u))
                    (JWT_SECRET e) (15 * 60) t1)\<rparr>,
          updateUser (user_id u) (recordSuccess t0)
              (saveRefreshToken
                 (jwtSign (RefreshClaims (user_id u)) (REFRESH_TOKEN_SECRET e) (7 * 24 * 60 * 60) t0)
                 (user_id u) t0 db))"
proof -
  let ?rt = "jwtSign (RefreshClaims (user_id u)) (REFRESH_TOKEN_SECRET e) (7 * 24 * 60 * 60) t0"
  let ?db1 = "updateUser (user_id u) (recordSuccess t0) (saveRefreshToken ?rt (user_id u) t0 db)"
  have v: "jwtVerify ?rt (REFRESH_TOKEN_SECRET e) t1 = Decoded (RefreshClaims (user_id u))"
    using assms(3) by (simp add: jwtVerify_def jwtSign_def)
  from findStoredToken_saved[OF seconds_bound[OF assms(3)]]
  obtain stored where stored: "findStoredToken ?db1 ?rt (user_id u) t1 = Some stored" "rt_userId stored = user_id u"
    by blast
  have "findUserById (saveRefreshToken ?rt (user_id u) t0 db) (user_id u) = Some u"
    using findUserById_unique[OF assms(2) findUserByEmail_mem[OF assms(1)]]
    by (simp add: findUserById_def)
  then have "findUserById ?db1 (user_id u) = Some (if user_id u = user_id u then recordSuccess t0 u else u)"
    by (rule findUserById_updateUser) (simp add: recordSuccess_def)
  then have fu: "findUserById ?db1 (user_id u) = Some (recordSuccess t0 u)"
    by simp
  have tk: "truthy (Some ?rt)"
    by (simp add: truthy_def jwtSign_def)
  show ?thesis
    using tk v stored fu by (simp add: refresh_def recordSuccess_def)
qed

text \<open>The guard on the access credential that refresh has issued.\<close>

lemma auth_after_refresh:
  assumes "findUserByEmail db a = Some u"
    and "distinct (map user_id (users db))"
    and "emailVerified u" and "isActive u"
    and "t2 div 1000 < t1 div 1000 + 15 * 60"
  shows "auth e t2
           (Some (jwtSign (AccessClaims (user_id u) (user_role u) (user_companyId u))
                    (JWT_SECRET e) (15 * 60) t1)) bearer
           (updateUser (user_id u) (recordSuccess t0) (saveRefreshToken rt (user_id u) t0 db))
       = Accepted \<lparr> uid = user_id u, uemail = email u, uname = user_name u,
                    urole = user_role u, ucompanyId = user_companyId u \<rparr>"
proof -
  let ?at = "jwtSign (AccessClaims (user_id u) (user_role u) (user_companyId u)) (JWT_SECRET e) (15 * 60) t1"
  let ?db1 = "updateUser (user_id u) (recordSuccess t0) (saveRefreshToken rt (user_id u) t0 db)"
  have tk: "requestToken (Some ?at) bearer = Some ?at" "truthy (Some ?at)"
    by (simp_all add: requestToken_def truthy_def jwtSign_def)
  have v: "jwtVerify ?at (JWT_SECRET e) t2 = Decoded (AccessClaims (user_id u) (user_role u) (user_companyId u))"
    using assms(5) by (simp add: jwtVerify_def jwtSign_def)
  have "findUserById (saveRefreshToken rt (user_id u) t0 db) (user_id u) = Some u"
    using findUserById_unique[OF assms(2) findUserByEmail_mem[OF assms(1)]]
    by (simp add: findUserById_def)
  then have "findUserById ?db1 (user_id u) = Some (if user_id u = user_id u then recordSuccess t0 u else u)"
    by (rule findUserById_updateUser) (simp add: recordSuccess_def)
  then have fu: "findUserById ?db1 (user_id u) = Some (recordSuccess t0 u)"
    by simp
  show ?thesis
    using tk v fu assms(3,4) by (simp add: auth_def recordSuccess_def)
qed

text \<open>After logout no stored credential of the user is left unrevoked.\<close>

lemma revokeAll_revoked:
  "\<forall>r\<in>set (revokeAll i now rs). rt_userId r = i \<longrightarrow> revokedAt r \<noteq> None"
proof -
  let ?g = "\<lambda>r. if rt_userId r = i \<and> revokedAt r = None then r\<lparr>revokedAt := Some now\<rparr> else r"
  have "\<forall>x. rt_userId (?g x) = i \<longrightarrow> revokedAt (?g x) \<noteq> None"
    by simp
  then have "\<forall>r\<in>?g ` set rs. rt_userId r = i \<longrightarrow> revokedAt r \<noteq> None"
    by (simp only: ball_simps) blast
  then show ?thesis
    by (simp only: revokeAll_def set_map)
qed

lemma findStoredToken_after_logout:
  "findStoredToken (snd (logout caller now db)) t (uid caller) t' = None"
proof -
  have "\<forall>r\<in>set (revokeAll (uid caller) now (refreshTokens db)).
          \<not> (token r = t \<and> rt_userId r = uid caller \<and> revokedAt r = None \<and> t' < expiresAt r)"
    using revokeAll_revoked[of "uid caller" now "refreshTokens db"] by blast
  then have "find (\<lambda>r. token r = t \<and> rt_userId r = uid caller \<and> revokedAt r = None
                        \<and> t' < expiresAt r)
               (revokeAll (uid caller) now (refreshTokens db)) = None"
    by (simp only: find_None_iff) blast
  then show ?thesis
    by (simp add: findStoredToken_def logout_def)
qed

lemma refresh_after_logout:
  assumes "claimsUserId (payload j) = uid caller"
  shows "refresh e t (Some (Signed j)) (snd (logout caller now db))
       = (failure 401 (if signedWith j \<noteq> REFRESH_TOKEN_SECRET e \<or> expiresAtSec j \<le> t div 1000
                       then TokenInvalid else TokenInvalidOrExpired),
          snd (logout caller now db))"
proof (cases "jwtVerify (Signed j) (REFRESH_TOKEN_SECRET e) t")
  case (Decoded d)
  then have d: "d = payload j" "\<not> (signedWith j \<noteq> REFRESH_TOKEN_SECRET e \<or> expiresAtSec j \<le> t div 1000)"
    by (simp_all add: jwtVerify_def split: if_splits)
  then have "findStoredToken (snd (logout caller now db)) (Signed j) (claimsUserId d) t = None"
    using assms findStoredToken_after_logout by simp
  then show ?thesis using Decoded d(2) by (simp add: refresh_def truthy_def)
next
  case TokenExpiredError
  then have "signedWith j \<noteq> REFRESH_TOKEN_SECRET e \<or> expiresAtSec j \<le> t div 1000"
    by (simp add: jwtVerify_def split: if_splits)
  then show ?thesis using TokenExpiredError by (simp add: refresh_def truthy_def)
next
  case JsonWebTokenError
  then have "signedWith j \<noteq> REFRESH_TOKEN_SECRET e \<or> expiresAtSec j \<le> t div 1000"
    by (simp add: jwtVerify_def split: if_splits)
  then show ?thesis using JsonWebTokenError by (simp add: refresh_def truthy_def)
qed

lemma refresh_rejects_unverifiable:
  assumes "signedWith j \<noteq> REFRESH_TOKEN_SECRET e \<or> expiresAtSec j \<le> t div 1000"
  shows "refresh e t (Some (Signed j)) db = (failure 401 TokenInvalid, db)"
  using assms by (auto simp: refresh_def truthy_def jwtVerify_def)

lemma refresh_rejects_malformed:
  "refresh e t (Some (Malformed s)) db
     = (failure 401 (if s = [] then RefreshTokenMissing else TokenInvalid), db)"
  "refresh e t None db = (failure 401 RefreshTokenMissing, db)"
  by (simp_all add: refresh_def truthy_def jwtVerify_def)

lemma login_success:
  assumes "loginSchema L body"
    and "findUserByEmail db (toLowerCase (body_email body)) = Some u"
    and "emailVerified u" and "isActive u" and "\<not> isLocked u t0"
    and "bcryptCompare L (body_password body) (password u)"
  shows "login e L t0 c body db
     = (okReply\<lparr>userData := Some (userView u),
          accessCookie := Some (jwtSign (AccessClaims (user_id u) (user_role u) (user_companyId u))
                                  (JWT_SECRET e) (15 * 60) t0),
          refreshCookie := Some (jwtSign (RefreshClaims (user_id u)) (REFRESH_TOKEN_SECRET e)
                                   (7 * 24 * 60 * 60) t0)\<rparr>,
        updateUser (user_id u) (recordSuccess t0)
          (saveRefreshToken
             (jwtSign (RefreshClaims (user_id u)) (REFRESH_TOKEN_SECRET e) (7 * 24 * 60 * 60) t0)
             (user_id u) t0 db))"
  using assms by (simp add: login_def generateTokens_def)

lemma login_rows_wellFormed:
  assumes "list_all wellFormedRow (refreshTokens db)"
  shows "list_all wellFormedRow (refreshTokens (snd (login e L now c body db)))"
proof -
  have "wellFormedRow \<lparr> token = jwtSign (RefreshClaims i) k s now, rt_userId = i,
                         expiresAt = x, revokedAt = None \<rparr>" for i k s x
    by (simp add: wellFormedRow_def issuedTo_def jwtSign_def)
  then show ?thesis
    using assms
    by (simp add: login_def updateUser_def sendVerificationEmail_def saveRefreshToken_def
        generateTokens_def split: option.split)
qed

lemma refresh_stored_after_logout:
  assumes "rt_userId stored = uid caller" and "wellFormedRow stored"
  shows "status (fst (refresh e t (Some (token stored)) (snd (logout caller now db)))) = 401
       \<and> \<not> success (fst (refresh e t (Some (token stored)) (snd (logout caller now db))))
       \<and> accessCookie (fst (refresh e t (Some (token stored)) (snd (logout caller now db)))) = None
       \<and> snd (refresh e t (Some (token stored)) (snd (logout caller now db)))
           = snd (logout caller now db)"
proof (cases "token stored")
  case (Malformed s)
  then show ?thesis
    by (simp add: refresh_rejects_malformed failure_def)
next
  case (Signed j)
  then have "claimsUserId (payload j) = uid caller"
    using assms by (simp add: wellFormedRow_def issuedTo_def)
  then show ?thesis
    using Signed by (simp add: refresh_after_logout failure_def)
qed

text \<open>
  Claim C7, as stated, fails on the code in its last part: the refusals of refresh are
  not one generic 401. A credential that verifies but has no unrevoked stored row (here
  after logout) is answered "Token invalide ou expire", a badly signed or expired one
  "Token invalide", and a missing cookie "Token de rafraichissement manquant".
\<close>

theorem refresh_message_counterexample:
  "fst (refresh env1 4000
          (Some (jwtSign (RefreshClaims ''u1'') ''k-refresh'' (7 * 24 * 60 * 60) 1000))
          (snd (logout \<lparr> uid = ''u1'', uemail = ''a@b.gn'', uname = ''Awa'', urole = DIRECTOR,
                         ucompanyId = ''c1'' \<rparr> 3000
             (snd (login env1 lib1 1000 ''123456'' (loginBody ''secret'')
                     (authdbOf (userRow True 0 None)))))))
     = failure 401 TokenInvalidOrExpired
   \<and> fst (refresh env1 4000
          (Some (jwtSign (RefreshClaims ''u1'') ''forged'' (7 * 24 * 60 * 60) 1000))
          (authdbOf (userRow True 0 None)))
     = failure 401 TokenInvalid
   \<and> fst (refresh env1 4000 None (authdbOf (userRow True 0 None)))
     = failure 401 RefreshTokenMissing
   \<and> failure 401 TokenInvalidOrExpired \<noteq> failure 401 TokenInvalid
   \<and> failure 401 TokenInvalid \<noteq> failure 401 RefreshTokenMissing"
  by (simp add: auth_demo_defs refresh_def truthy_def jwtVerify_def findStoredToken_def
      logout_def revokeAll_def)

text \<open>
  Claim C7, amended: after a successful login at time \<open>t0\<close> (a verified, active, unlocked
  account with unique user keys), a refresh call with the refresh credential that login
  issued and stored, made before that credential expires, succeeds with status 200: it
  sets a new access cookie and nothing else (no refresh cookie, the store unchanged, so
  the refresh credential is not rotated), and the guard accepts that access credential
  until it expires 15 minutes later. Logout answers 200 and sets revoked-at to the
  current time on every unrevoked refresh credential of the caller, leaving every other
  row, the order of the rows and the rest of the store as they were. After it, a refresh
  call with any token issued to the caller (the login's credential, any well-formed
  stored credential of the caller) is answered 401 without a cookie and without a
  change of the store, with the message "Token invalide ou expire" when the token
  verifies and "Token invalide" when it is badly signed or expired. In any store an
  expired or badly signed credential is answered 401 "Token invalide", and so is a
  malformed one; a missing or empty cookie is answered 401 "Token de rafraichissement
  manquant". The three messages differ, so the causes are not collapsed into one.
\<close>

theorem refresh_round_trip:
  assumes "loginSchema L body"
    and "findUserByEmail db (toLowerCase (body_email body)) = Some u"
    and "distinct (map user_id (users db))"
    and "emailVerified u" and "isActive u" and "\<not> isLocked u t0"
    and "bcryptCompare L (body_password body) (password u)"
    and "t1 div 1000 < t0 div 1000 + 7 * 24 * 60 * 60"
    and "t2 div 1000 < t1 div 1000 + 15 * 60"
  shows "status (fst (login e L t0 c body db)) = 200
       \<and> refreshCookie (fst (login e L t0 c body db))
           = Some (jwtSign (RefreshClaims (user_id u)) (REFRESH_TOKEN_SECRET e) (7 * 24 * 60 * 60) t0)
       \<and> refresh e t1
            (Some (jwtSign (RefreshClaims (user_id u)) (REFRESH_TOKEN_SECRET e) (7 * 24 * 60 * 60) t0))
            (snd (login e L t0 c body db))
           = (\<lparr> status = 200, success = True, message = None, code = None,
                 requiresVerification = False, userData = None,
                 accessCookie =
                   Some (jwtSign (AccessClaims (user_id u) (user_role u) (user_companyId u))
                           (JWT_SECRET e) (15 * 60) t1),
                 refreshCookie = None \<rparr>,
              snd (login e L t0 c body db))
       \<and> auth e t2
            (Some (jwtSign (AccessClaims (user_id u) (user_role u) (user_companyId u))
                     (JWT_SECRET e) (15 * 60) t1))
            bearer (snd (login e L t0 c body db))
           = Accepted \<lparr> uid = user_id u, uemail = email u, uname = user_name u,
                        urole = user_role u, ucompanyId = user_companyId u \<rparr>
       \<and> logout caller t3 db'
           = (\<lparr> status = 200, success = True, message = None, code = None,
                 requiresVerification = False, userData = None, accessCookie = None,
                 refreshCookie = None \<rparr>,
              db'\<lparr>refreshTokens :=
                map (\<lambda>r. if rt_userId r = uid caller \<and> revokedAt r = None
                          then r\<lparr>revokedAt := Some t3\<rparr> else r)
                  (refreshTokens db')\<rparr>)
       \<and> (uid caller = user_id u \<longrightarrow>
            refresh e t4
              (Some (jwtSign (RefreshClaims (user_id u)) (REFRESH_TOKEN_SECRET e) (7 * 24 * 60 * 60) t0))
              (snd (logout caller t3 (snd (login e L t0 c body db))))
            = (\<lparr> status = 401, success = False,
                  message = Some (if t0 div 1000 + 7 * 24 * 60 * 60 \<le> t4 div 1000
                                  then TokenInvalid else TokenInvalidOrExpired),
                  code = None, requiresVerification = False, userData = None,
                  accessCookie = None, refreshCookie = None \<rparr>,
               snd (logout caller t3 (snd (login e L t0 c body db)))))
       \<and> (\<forall>j. claimsUserId (payload j) = uid caller \<longrightarrow>
            refresh e t4 (Some (Signed j)) (snd (logout caller t3 db'))
            = (\<lparr> status = 401, success = False,
                  message = Some (if signedWith j \<noteq> REFRESH_TOKEN_SECRET e
                                     \<or> expiresAtSec j \<le> t4 div 1000
                                  then TokenInvalid else TokenInvalidOrExpired),
                  code = None, requiresVerification = False, userData = None,
                  accessCookie = None, refreshCookie = None \<rparr>,
               snd (logout caller t3 db')))
       \<and> (\<forall>stored\<in>set (refreshTokens db').
            rt_userId stored = uid caller \<and> wellFormedRow stored \<longrightarrow>
            status (fst (refresh e t4 (Some (token stored)) (snd (logout caller t3 db')))) = 401
            \<and> \<not> success (fst (refresh e t4 (Some (token stored)) (snd (logout caller t3 db'))))
            \<and> accessCookie (fst (refresh e t4 (Some (token stored)) (snd (logout caller t3 db'))))
                = None
            \<and> snd (refresh e t4 (Some (token stored)) (snd (logout caller t3 db')))
                = snd (logout caller t3 db'))
       \<and> (\<forall>j. signedWith j \<noteq> REFRESH_TOKEN_SECRET e \<or> expiresAtSec j \<le> t4 div 1000 \<longrightarrow>
            refresh e t4 (Some (Signed j)) db'
            = (\<lparr> status = 401, success = False, message = Some TokenInvalid, code = None,
                  requiresVerification = False, userData = None, accessCookie = None,
                  refreshCookie = None \<rparr>, db'))
       \<and> (\<forall>s. refresh e t4 (Some (Malformed s)) db'
            = (\<lparr> status = 401, success = False,
                  message = Some (if s = [] then RefreshTokenMissing else TokenInvalid),
                  code = None, requiresVerification = False, userData = None,
                  accessCookie = None, refreshCookie = None \<rparr>, db'))
       \<and> refresh e t4 None db'
            = (\<lparr> status = 401, success = False, message = Some RefreshTokenMissing, code = None,
                  requiresVerification = False, userData = None, accessCookie = None,
                  refreshCookie = None \<rparr>, db')"
proof -
  let ?rt = "jwtSign (RefreshClaims (user_id u)) (REFRESH_TOKEN_SECRET e) (7 * 24 * 60 * 60) t0"
  let ?at = "jwtSign (AccessClaims (user_id u) (user_role u) (user_companyId u))
               (JWT_SECRET e) (15 * 60) t1"
  let ?db1 = "updateUser (user_id u) (recordSuccess t0) (saveRefreshToken ?rt (user_id u) t0 db)"
  note lg = login_success[OF assms(1,2,4,5,6,7), of e c]
  have p0: "status (fst (login e L t0 c body db)) = 200"
    by (simp add: lg okReply_def)
  have p1: "refreshCookie (fst (login e L t0 c body db)) = Some ?rt"
    by (simp add: lg)
  have p2: "snd (login e L t0 c body db) = ?db1"
    by (simp add: lg)
  have "refresh e t1 (Some ?rt) ?db1 = (okReply\<lparr>accessCookie := Some ?at\<rparr>, ?db1)"
    using assms(2,3,8) by (rule refresh_after_login)
  then have p3: "refresh e t1 (Some ?rt) ?db1
      = (\<lparr> status = 200, success = True, message = None, code = None,
            requiresVerification = False, userData = None, accessCookie = Some ?at,
            refreshCookie = None \<rparr>, ?db1)"
    by (simp add: okReply_def)
  have p4: "auth e t2 (Some ?at) bearer ?db1
             = Accepted \<lparr> uid = user_id u, uemail = email u, uname = user_name u,
                          urole = user_role u, ucompanyId = user_companyId u \<rparr>"
    using assms(2,3,4,5,9) by (rule auth_after_refresh)
  have p5: "logout caller t3 db'
           = (\<lparr> status = 200, success = True, message = None, code = None,
                 requiresVerification = False, userData = None, accessCookie = None,
                 refreshCookie = None \<rparr>,
              db'\<lparr>refreshTokens :=
                map (\<lambda>r. if rt_userId r = uid caller \<and> revokedAt r = None
                          then r\<lparr>revokedAt := Some t3\<rparr> else r)
                  (refreshTokens db')\<rparr>)"
    by (simp add: logout_def revokeAll_def okReply_def)
  have p6: "uid caller = user_id u \<longrightarrow>
            refresh e t4 (Some ?rt) (snd (logout caller t3 ?db1))
            = (\<lparr> status = 401, success = False,
                  message = Some (if t0 div 1000 + 7 * 24 * 60 * 60 \<le> t4 div 1000
                                  then TokenInvalid else TokenInvalidOrExpired),
                  code = None, requiresVerification = False, userData = None,
                  accessCookie = None, refreshCookie = None \<rparr>,
               snd (logout caller t3 ?db1))"
  proof
    assume "uid caller = user_id u"
    then have "claimsUserId (payload \<lparr> payload = RefreshClaims (user_id u),
        signedWith = REFRESH_TOKEN_SECRET e, issuedAt = t0 div 1000,
        expiresAtSec = t0 div 1000 + 7 * 24 * 60 * 60 \<rparr>) = uid caller"
      by simp
    from refresh_after_logout[OF this, of e t4 t3 ?db1]
    show "refresh e t4 (Some ?rt) (snd (logout caller t3 ?db1))
            = (\<lparr> status = 401, success = False,
                  message = Some (if t0 div 1000 + 7 * 24 * 60 * 60 \<le> t4 div 1000
                                  then TokenInvalid else TokenInvalidOrExpired),
                  code = None, requiresVerification = False, userData = None,
                  accessCookie = None, refreshCookie = None \<rparr>,
               snd (logout caller t3 ?db1))"
      by (simp add: jwtSign_def failure_def)
  qed
  have p7: "\<forall>j. claimsUserId (payload j) = uid caller \<longrightarrow>
            refresh e t4 (Some (Signed j)) (snd (logout caller t3 db'))
            = (\<lparr> status = 401, success = False,
                  message = Some (if signedWith j \<noteq> REFRESH_TOKEN_SECRET e
                                     \<or> expiresAtSec j \<le> t4 div 1000
                                  then TokenInvalid else TokenInvalidOrExpired),
                  code = None, requiresVerification = False, userData = None,
                  accessCookie = None, refreshCookie = None \<rparr>,
               snd (logout caller t3 db'))"
    by (simp add: refresh_after_logout failure_def)
  have p8: "\<forall>stored\<in>set (refreshTokens db').
            rt_userId stored = uid caller \<and> wellFormedRow stored \<longrightarrow>
            status (fst (refresh e t4 (Some (token stored)) (snd (logout caller t3 db')))) = 401
            \<and> \<not> success (fst (refresh e t4 (Some (token stored)) (snd (logout caller t3 db'))))
            \<and> accessCookie (fst (refresh e t4 (Some (token stored)) (snd (logout caller t3 db'))))
                = None
            \<and> snd (refresh e t4 (Some (token stored)) (snd (logout caller t3 db')))
                = snd (logout caller t3 db')"
    using refresh_stored_after_logout by blast
  have p9: "\<forall>j. signedWith j \<noteq> REFRESH_TOKEN_SECRET e \<or> expiresAtSec j \<le> t4 div 1000 \<longrightarrow>
            refresh e t4 (Some (Signed j)) db'
            = (\<lparr> status = 401, success = False, message = Some TokenInvalid, code = None,
                  requiresVerification = False, userData = None, accessCookie = None,
                  refreshCookie = None \<rparr>, db')"
    by (simp add: refresh_rejects_unverifiable failure_def)
  have p10: "\<forall>s. refresh e t4 (Some (Malformed s)) db'
            = (\<lparr> status = 401, success = False,
                  message = Some (if s = [] then RefreshTokenMissing else TokenInvalid),
                  code = None, requiresVerification = False, userData = None,
                  accessCookie = None, refreshCookie = None \<rparr>, db')"
    by (simp add: refresh_rejects_malformed failure_def)
  have p11: "refresh e t4 None db'
            = (\<lparr> status = 401, success = False, message = Some RefreshTokenMissing, code = None,
                  requiresVerification = False, userData = None, accessCookie = None,
                  refreshCookie = None \<rparr>, db')"
    by (simp add: refresh_rejects_malformed failure_def)
  show ?thesis
    unfolding p2 by (intro conjI p0 p1 p3 p4 p5 p6 p7 p8 p9 p10 p11)
qed

theorem refresh_round_trip_witness:
  "loginSchema lib1 (loginBody ''secret'')
   \<and> distinct (map user_id (users (authdbOf (userRow True 0 None))))
   \<and> bcryptCompare lib1 (body_password (loginBody ''secret'')) (password (userRow True 0 None))
   \<and> refreshCookie (fst (login env1 lib1 1000 ''123456'' (loginBody ''secret'')
                            (authdbOf (userRow True 0 None))))
       = Some (jwtSign (RefreshClaims ''u1'') ''k-refresh'' (7 * 24 * 60 * 60) 1000)
   \<and> refresh env1 1000 (Some (jwtSign (RefreshClaims ''u1'') ''k-refresh'' (7 * 24 * 60 * 60) 1000))
        (snd (login env1 lib1 1000 ''123456'' (loginBody ''secret'') (authdbOf (userRow True 0 None))))
       = (okReply\<lparr>accessCookie :=
            Some (jwtSign (AccessClaims ''u1'' DIRECTOR ''c1'') ''k-access'' (15 * 60) 1000)\<rparr>,
          snd (login env1 lib1 1000 ''123456'' (loginBody ''secret'') (authdbOf (userRow True 0 None))))
   \<and> auth env1 2000 (Some (jwtSign (AccessClaims ''u1'' DIRECTOR ''c1'') ''k-access'' (15 * 60) 1000))
        None
        (snd (login env1 lib1 1000 ''123456'' (loginBody ''secret'') (authdbOf (userRow True 0 None))))
       = Accepted \<lparr> uid = ''u1'', uemail = ''a@b.gn'', uname = ''Awa'', urole = DIRECTOR,
                    ucompanyId = ''c1'' \<rparr>
   \<and> refreshTokens (snd (logout \<lparr> uid = ''u1'', uemail = ''a@b.gn'', uname = ''Awa'',
                                   urole = DIRECTOR, ucompanyId = ''c1'' \<rparr> 3000
        \<lparr> users = [], refreshTokens =
            [\<lparr> token = Malformed ''a'', rt_userId = ''u1'', expiresAt = 9000, revokedAt = None \<rparr>,
             \<lparr> token = Malformed ''b'', rt_userId = ''u2'', expiresAt = 9000, revokedAt = None \<rparr>,
             \<lparr> token = Malformed ''c'', rt_userId = ''u1'', expiresAt = 9000, revokedAt = Some 7 \<rparr>],
           outbox = [] \<rparr>))
       = [\<lparr> token = Malformed ''a'', rt_userId = ''u1'', expiresAt = 9000, revokedAt = Some 3000 \<rparr>,
          \<lparr> token = Malformed ''b'', rt_userId = ''u2'', expiresAt = 9000, revokedAt = None \<rparr>,
          \<lparr> token = Malformed ''c'', rt_userId = ''u1'', expiresAt = 9000, revokedAt = Some 7 \<rparr>]
   \<and> fst (refresh env1 4000
        (Some (jwtSign (RefreshClaims ''u1'') ''k-refresh'' (7 * 24 * 60 * 60) 1000))
        (snd (logout \<lparr> uid = ''u1'', uemail = ''a@b.gn'', uname = ''Awa'', urole = DIRECTOR,
                       ucompanyId = ''c1'' \<rparr> 3000
          (snd (login env1 lib1 1000 ''123456'' (loginBody ''secret'')
                  (authdbOf (userRow True 0 None)))))))
       = failure 401 TokenInvalidOrExpired
   \<and> refresh env1 4000 (Some (jwtSign (RefreshClaims ''u1'') ''forged'' (7 * 24 * 60 * 60) 1000))
        (authdbOf (userRow True 0 None))
       = (failure 401 TokenInvalid, authdbOf (userRow True 0 None))
   \<and> refresh env1 604801000
        (Some (jwtSign (RefreshClaims ''u1'') ''k-refresh'' (7 * 24 * 60 * 60) 1000))
        (authdbOf (userRow True 0 None))
       = (failure 401 TokenInvalid, authdbOf (userRow True 0 None))"
proof -
  let ?u = "userRow True 0 None"
  let ?me = "\<lparr> uid = ''u1'', uemail = ''a@b.gn'', uname = ''Awa'', urole = DIRECTOR,
                ucompanyId = ''c1'' \<rparr>"
  let ?rows = "\<lparr> users = [], refreshTokens =
            [\<lparr> token = Malformed ''a'', rt_userId = ''u1'', expiresAt = 9000, revokedAt = None \<rparr>,
             \<lparr> token = Malformed ''b'', rt_userId = ''u2'', expiresAt = 9000, revokedAt = None \<rparr>,
             \<lparr> token = Malformed ''c'', rt_userId = ''u1'', expiresAt = 9000, revokedAt = Some 7 \<rparr>],
           outbox = [] \<rparr>"
  have h1: "loginSchema lib1 (loginBody ''secret'')"
    by (simp add: demo_login_found)
  have h3: "distinct (map user_id (users (authdbOf ?u)))"
    by (simp add: authdbOf_def)
  have h4: "emailVerified ?u" "isActive ?u" "\<not> isLocked ?u 1000"
    by (simp_all add: userRow_def isLocked_def)
  have h7: "bcryptCompare lib1 (body_password (loginBody ''secret'')) (password ?u)"
    by (simp add: lib1_def loginBody_def userRow_def)
  have h8: "(1000::int) div 1000 < 1000 div 1000 + 7 * 24 * 60 * 60"
    by simp
  have h9: "(2000::int) div 1000 < 1000 div 1000 + 15 * 60"
    by simp
  have f: "user_id ?u = ''u1''" "user_role ?u = DIRECTOR" "user_companyId ?u = ''c1''"
    "email ?u = ''a@b.gn''" "user_name ?u = ''Awa''"
    "JWT_SECRET env1 = ''k-access''" "REFRESH_TOKEN_SECRET env1 = ''k-refresh''"
    "uid ?me = ''u1''"
    by (simp_all add: userRow_def env1_def)
  note t = refresh_round_trip[OF h1 demo_login_found(2) h3 h4 h7 h8 h9,
         of env1 "''123456''" None ?me 3000 ?rows 4000, unfolded f]
  note t' = refresh_round_trip[OF h1 demo_login_found(2) h3 h4 h7 h8 h9,
         of env1 "''123456''" None ?me 3000 "authdbOf ?u" 4000, unfolded f]
  note t'' = refresh_round_trip[OF h1 demo_login_found(2) h3 h4 h7 h8 h9,
         of env1 "''123456''" None ?me 3000 "authdbOf ?u" 604801000, unfolded f]
  have a1: "refreshCookie (fst (login env1 lib1 1000 ''123456'' (loginBody ''secret'') (authdbOf ?u)))
       = Some (jwtSign (RefreshClaims ''u1'') ''k-refresh'' (7 * 24 * 60 * 60) 1000)"
    using t by (elim conjE)
  have a2: "refresh env1 1000 (Some (jwtSign (RefreshClaims ''u1'') ''k-refresh'' (7 * 24 * 60 * 60) 1000))
        (snd (login env1 lib1 1000 ''123456'' (loginBody ''secret'') (authdbOf ?u)))
       = (okReply\<lparr>accessCookie :=
            Some (jwtSign (AccessClaims ''u1'' DIRECTOR ''c1'') ''k-access'' (15 * 60) 1000)\<rparr>,
          snd (login env1 lib1 1000 ''123456'' (loginBody ''secret'') (authdbOf ?u)))"
    using t by (simp add: okReply_def)
  have a3: "auth env1 2000 (Some (jwtSign (AccessClaims ''u1'' DIRECTOR ''c1'') ''k-access'' (15 * 60) 1000))
        None (snd (login env1 lib1 1000 ''123456'' (loginBody ''secret'') (authdbOf ?u)))
       = Accepted ?me"
    using t by (elim conjE)
  have "logout ?me 3000 ?rows
      = (\<lparr> status = 200, success = True, message = None, code = None,
            requiresVerification = False, userData = None, accessCookie = None,
            refreshCookie = None \<rparr>,
         ?rows\<lparr>refreshTokens :=
           map (\<lambda>r. if rt_userId r = ''u1'' \<and> revokedAt r = None
                     then r\<lparr>revokedAt := Some 3000\<rparr> else r)
             (refreshTokens ?rows)\<rparr>)"
    using t by (elim conjE)
  then have a4: "refreshTokens (snd (logout ?me 3000 ?rows))
       = [\<lparr> token = Malformed ''a'', rt_userId = ''u1'', expiresAt = 9000, revokedAt = Some 3000 \<rparr>,
          \<lparr> token = Malformed ''b'', rt_userId = ''u2'', expiresAt = 9000, revokedAt = None \<rparr>,
          \<lparr> token = Malformed ''c'', rt_userId = ''u1'', expiresAt = 9000, revokedAt = Some 7 \<rparr>]"
    by simp
  have "''u1'' = ''u1'' \<longrightarrow>
      refresh env1 4000 (Some (jwtSign (RefreshClaims ''u1'') ''k-refresh'' (7 * 24 * 60 * 60) 1000))
        (snd (logout ?me 3000
           (snd (login env1 lib1 1000 ''123456'' (loginBody ''secret'') (authdbOf ?u)))))
      = (\<lparr> status = 401, success = False,
            message = Some (if (1000::int) div 1000 + 7 * 24 * 60 * 60 \<le> 4000 div 1000
                            then TokenInvalid else TokenInvalidOrExpired),
            code = None, requiresVerification = False, userData = None,
            accessCookie = None, refreshCookie = None \<rparr>,
         snd (logout ?me 3000
           (snd (login env1 lib1 1000 ''123456'' (loginBody ''secret'') (authdbOf ?u)))))"
    using t by (elim conjE)
  then have a5: "fst (refresh env1 4000
        (Some (jwtSign (RefreshClaims ''u1'') ''k-refresh'' (7 * 24 * 60 * 60) 1000))
        (snd (logout ?me 3000
           (snd (login env1 lib1 1000 ''123456'' (loginBody ''secret'') (authdbOf ?u))))))
       = failure 401 TokenInvalidOrExpired"
    by (simp add: failure_def)
  have forged: "\<forall>j. signedWith j \<noteq> ''k-refresh'' \<or> expiresAtSec j \<le> 4000 div 1000 \<longrightarrow>
      refresh env1 4000 (Some (Signed j)) (authdbOf ?u)
      = (\<lparr> status = 401, success = False, message = Some TokenInvalid, code = None,
            requiresVerification = False, userData = None, accessCookie = None,
            refreshCookie = None \<rparr>, authdbOf ?u)"
    using t' by (elim conjE)
  have a6: "refresh env1 4000 (Some (jwtSign (RefreshClaims ''u1'') ''forged'' (7 * 24 * 60 * 60) 1000))
        (authdbOf ?u) = (failure 401 TokenInvalid, authdbOf ?u)"
    using forged by (simp add: jwtSign_def failure_def)
  have expired: "\<forall>j. signedWith j \<noteq> ''k-refresh'' \<or> expiresAtSec j \<le> 604801000 div 1000 \<longrightarrow>
      refresh env1 604801000 (Some (Signed j)) (authdbOf ?u)
      = (\<lparr> status = 401, success = False, message = Some TokenInvalid, code = None,
            requiresVerification = False, userData = None, accessCookie = None,
            refreshCookie = None \<rparr>, authdbOf ?u)"
    using t'' by (elim conjE)
  have a7: "refresh env1 604801000
        (Some (jwtSign (RefreshClaims ''u1'') ''k-refresh'' (7 * 24 * 60 * 60) 1000))
        (authdbOf ?u) = (failure 401 TokenInvalid, authdbOf ?u)"
    using expired by (simp add: jwtSign_def failure_def)
  from h1 h3 h7 a1 a2 a3 a4 a5 a6 a7 show ?thesis
    by (intro conjI)
qed

section \<open>Properties of the shipment lifecycle store\<close>

subsection \<open>What the row update writes\<close>

lemma column_setColumn: "column (setColumn k v r) k' = (if k' = k then Some v else column r k')"
  by (induction r) (auto simp: column_def)

lemma writeRow_keeps:
  "writeRow L d r = Some r' \<Longrightarrow> k \<notin> fst ` set d \<Longrightarrow> column r' k = column r k"
proof (induction d arbitrary: r)
  case Nil
  then show ?case by simp
next
  case (Cons kv d)
  obtain k0 v0 where kv: "kv = (k0, v0)" by (cases kv)
  from Cons.prems(2) kv have ne: "k \<noteq> k0" and rest: "k \<notin> fst ` set d" by auto
  show ?case
  proof (cases "k0 = ''timeline''")
    case True
    then have "writeRow L d r = Some r'" using Cons.prems(1) kv by simp
    then show ?thesis using rest by (rule Cons.IH)
  next
    case False
    then obtain w where w: "storedValue L k0 v0 = Some w" "writeRow L d (setColumn k0 w r) = Some r'"
      using Cons.prems(1) kv by (auto split: option.splits)
    from Cons.IH[OF w(2) rest] show ?thesis using ne by (simp add: column_setColumn)
  qed
qed

lemma writeRow_column:
  assumes "distinct (map fst d)" and "writeRow L d r = Some r'"
    and "column d k = Some v" and "k \<noteq> ''timeline''"
  shows "column r' k = storedValue L k v"
  using assms
proof (induction d arbitrary: r)
  case Nil
  then show ?case by (simp add: column_def)
next
  case (Cons kv d)
  obtain k0 v0 where kv: "kv = (k0, v0)" by (cases kv)
  from Cons.prems(1) kv have dd: "distinct (map fst d)" and fresh: "k0 \<notin> fst ` set d" by auto
  show ?case
  proof (cases "k0 = k")
    case True
    then have v: "v0 = v" using Cons.prems(3) kv by (simp add: column_def)
    from True Cons.prems(4) have "k0 \<noteq> ''timeline''" by simp
    then obtain w where w: "storedValue L k0 v0 = Some w" "writeRow L d (setColumn k0 w r) = Some r'"
      using Cons.prems(2) kv by (auto split: option.splits)
    from writeRow_keeps[OF w(2) fresh] have "column r' k0 = Some w"
      by (simp add: column_setColumn)
    then show ?thesis using True v w(1) by simp
  next
    case False
    then have c: "column d k = Some v" using Cons.prems(3) kv by (simp add: column_def)
    show ?thesis
    proof (cases "k0 = ''timeline''")
      case True
      then have "writeRow L d r = Some r'" using Cons.prems(2) kv by simp
      from Cons.IH[OF dd this c Cons.prems(4)] show ?thesis .
    next
      case False
      then obtain w where w: "storedValue L k0 v0 = Some w"
          "writeRow L d (setColumn k0 w r) = Some r'"
        using Cons.prems(2) kv by (auto split: option.splits)
      from Cons.IH[OF dd w(2) c Cons.prems(4)] show ?thesis .
    qed
  qed
qed

lemma dateEntry_key: "kv \<in> set (dateEntry L body k) \<Longrightarrow> fst kv = k"
  by (auto simp: dateEntry_def split: option.splits if_splits)

lemma distinct_dateEntry: "distinct (map fst (dateEntry L body k))"
  by (simp add: dateEntry_def split: option.splits)

lemma distinct_shipmentData:
  assumes "distinct (map fst body)"
  shows "distinct (map fst (shipmentData L body))"
proof -
  let ?f = "filter (\<lambda>kv. fst kv \<noteq> ''eta'' \<and> fst kv \<noteq> ''ata'' \<and> fst kv \<noteq> ''deliveryDate'') body"
  let ?e = "dateEntry L body ''eta''"
  let ?a = "dateEntry L body ''ata''"
  let ?d = "dateEntry L body ''deliveryDate''"
  have f: "distinct (map fst ?f)" using assms by (rule distinct_map_filter)
  have 1: "fst ` set ?f \<inter> fst ` set ?e = {}"
    by (auto dest!: dateEntry_key)
  have 2: "fst ` set ?f \<inter> fst ` set ?a = {}"
    by (auto dest!: dateEntry_key)
  have 3: "fst ` set ?f \<inter> fst ` set ?d = {}"
    by (auto dest!: dateEntry_key)
  have 4: "fst ` set ?e \<inter> fst ` set ?a = {}"
    by (auto dest!: dateEntry_key)
  have 5: "fst ` set ?e \<inter> fst ` set ?d = {}"
    by (auto dest!: dateEntry_key)
  have 6: "fst ` set ?a \<inter> fst ` set ?d = {}"
    by (auto dest!: dateEntry_key)
  show ?thesis
    unfolding shipmentData_def using f distinct_dateEntry[of L body] 1 2 3 4 5 6
    by (simp add: Int_Un_distrib)
qed

lemma column_shipmentData:
  assumes "k \<noteq> ''eta''" "k \<noteq> ''ata''" "k \<noteq> ''deliveryDate''"
  shows "column (shipmentData L body) k = column body k"
proof -
  let ?P = "\<lambda>kv. fst kv \<noteq> ''eta'' \<and> fst kv \<noteq> ''ata'' \<and> fst kv \<noteq> ''deliveryDate''"
  have d: "map_of (dateEntry L body k') k = None" if "k' \<noteq> k" for k'
    using that by (simp add: dateEntry_def split: option.splits)
  have f: "map_of (filter ?P body) k = map_of body k"
    using assms by (induction body) auto
  show ?thesis
    using assms f d[of "''eta''"] d[of "''ata''"] d[of "''deliveryDate''"]
    by (simp add: column_def shipmentData_def map_add_def split: option.splits)
qed

lemma findShipmentRow_by_id:
  assumes "findShipmentRow db c i = Some s"
    and "distinct (map (\<lambda>r. column r ''id'') (shipmentRows db))"
  shows "find (\<lambda>r. column r ''id'' = Some (JStr i)) (shipmentRows db) = Some s"
proof -
  from assms(1) have m: "s \<in> set (shipmentRows db)" and k: "column s ''id'' = Some (JStr i)"
    by (auto simp: findShipmentRow_def find_Some_iff)
  from find_unique_key[OF assms(2) m] k show ?thesis by simp
qed

lemma shipmentUpdate_no_relation:
  assumes "find (\<lambda>r. column r ''id'' = Some (JStr i)) (shipmentRows db) = Some s"
    and "column d ''timeline'' = None"
  shows "shipmentUpdate L i d db
       = (case writeRow L d s of
            None \<Rightarrow> None
          | Some r \<Rightarrow>
              if column r ''id'' \<noteq> Some (JStr i)
                 \<and> column r ''id'' \<in> set (map (\<lambda>x. column x ''id'') (shipmentRows db))
              then None
              else Some (r, \<lparr> shipmentRows =
                                 map (\<lambda>x. if column x ''id'' = Some (JStr i) then r else x)
                                   (shipmentRows db),
                               timeline = timeline db \<rparr>))"
  using assms by (simp add: shipmentUpdate_def split: option.splits)

subsection \<open>Runs of the handler on the small table\<close>

lemmas ship_demo_defs =
  updateShipment_def requireAgent_def requireRole_def agent1_def findShipmentRow_def
  statusChanges_def shipdbOf_def shipmentIn_def shipmentUpdate_def shipmentData_def
  dateEntry_def column_def lib2_def statusEvent_def nestedCreate_def eventOf_def

subsection \<open>Timeline events of an update\<close>

text \<open>
  Claim C9, as stated, fails on the code. The row update and the timeline event are two
  separate writes: when the store fails on the second one, the status change to ARRIVED
  stays written and no TimelineEvent has been appended. And the whole request body goes
  to the row update as its data, so a body with the relation key \<open>timeline\<close> and no status
  appends an event, and with a status change it appends two (here with a store client
  that performs the nested create of the create handler).
\<close>

theorem updateShipment_not_atomic_counterexample:
  "updateShipment lib2 agent1 ''s1'' [(''status'', JStr ''ARRIVED'')] (Some 2)
     (shipdbOf (shipmentIn ''PENDING'') [])
     = (ShipServerError, shipdbOf (shipmentIn ''ARRIVED'') [])
   \<and> updateShipment lib2 agent1 ''s1''
       [(''timeline'', JObj [(''create'', JObj [(''action'', JStr ''x''), (''userId'', JStr ''u9''),
                                                (''userName'', JStr ''Zed'')])])]
       None (shipdbOf (shipmentIn ''PENDING'') [])
     = (Updated (shipmentIn ''PENDING''),
        shipdbOf (shipmentIn ''PENDING'')
          [\<lparr> ev_shipmentId = ''s1'', ev_action = ActionText (JStr ''x''), ev_userId = JStr ''u9'',
             ev_userName = JStr ''Zed'' \<rparr>])
   \<and> updateShipment lib2 agent1 ''s1''
       [(''status'', JStr ''ARRIVED''),
        (''timeline'', JObj [(''create'', JObj [(''action'', JStr ''x''), (''userId'', JStr ''u9''),
                                                (''userName'', JStr ''Zed'')])])]
       None (shipdbOf (shipmentIn ''PENDING'') [])
     = (Updated (shipmentIn ''ARRIVED''),
        shipdbOf (shipmentIn ''ARRIVED'')
          [\<lparr> ev_shipmentId = ''s1'', ev_action = ActionText (JStr ''x''), ev_userId = JStr ''u9'',
             ev_userName = JStr ''Zed'' \<rparr>,
           \<lparr> ev_shipmentId = ''s1'', ev_action = StatusChanged (JStr ''ARRIVED''),
             ev_userId = JStr ''u2'', ev_userName = JStr ''Binta'' \<rparr>])"
  by (simp add: ship_demo_defs)

text \<open>
  Claim C9, amended: for every shipment update(id, body) by a caller who is agent or
  above on a shipment of the caller's company (the keys of the shipment table being
  unique), with a body that has no key \<open>timeline\<close>: when the row update is refused by
  the store the answer is 500 and nothing is written. When it is carried out, it writes
  the body's keys to the row and leaves the timeline as it was; then, if the body's
  status is truthy and not strictly equal to the row's current status (for two strings:
  not empty and different), exactly one TimelineEvent carrying the body's status and the
  acting user is appended, after the row update and as a separate write, not in one
  transaction, so that when that write fails the row update stays and no event is
  appended; if the status is absent, falsy or equal to the current one, no event is
  appended. With each key once in the body, the status written to the row is the one the
  store keeps for the body's value.
\<close>

theorem updateShipment_timeline:
  assumes "requireAgent u"
    and "findShipmentRow db (ucompanyId u) i = Some s"
    and "distinct (map (\<lambda>r. column r ''id'') (shipmentRows db))"
    and "column body ''timeline'' = None"
  shows "(shipmentUpdate L i (shipmentData L body) db = None \<longrightarrow>
            updateShipment L u i body None db = (ShipServerError, db))
       \<and> (\<forall>r db1. shipmentUpdate L i (shipmentData L body) db = Some (r, db1) \<longrightarrow>
            writeRow L (shipmentData L body) s = Some r
            \<and> db1 = \<lparr> shipmentRows =
                        map (\<lambda>x. if column x ''id'' = Some (JStr i) then r else x)
                          (shipmentRows db),
                      timeline = timeline db \<rparr>
            \<and> (distinct (map fst body) \<longrightarrow>
                 (\<forall>v. column body ''status'' = Some v \<longrightarrow>
                    column r ''status'' = storedValue L ''status'' v))
            \<and> (statusChanges body s \<longrightarrow>
                 updateShipment L u i body None db
                   = (Updated r,
                      db1\<lparr>timeline := timeline db @
                        [\<lparr> ev_shipmentId = i,
                           ev_action = StatusChanged (the (column body ''status'')),
                           ev_userId = JStr (uid u), ev_userName = JStr (uname u) \<rparr>]\<rparr>)
                 \<and> updateShipment L u i body (Some 2) db = (ShipServerError, db1))
            \<and> (\<not> statusChanges body s \<longrightarrow>
                 updateShipment L u i body None db = (Updated r, db1)))
       \<and> statusChanges body s
           = (\<exists>v. column body ''status'' = Some v \<and> truthyValue v
                  \<and> (\<forall>w. column s ''status'' = Some w \<longrightarrow> \<not> strictEquals v w))
       \<and> (\<forall>n m. column body ''status'' = Some (JStr n) \<and> column s ''status'' = Some (JStr m) \<longrightarrow>
            statusChanges body s = (n \<noteq> [] \<and> n \<noteq> m))"
proof -
  let ?d = "shipmentData L body"
  have byId: "find (\<lambda>r. column r ''id'' = Some (JStr i)) (shipmentRows db) = Some s"
    using assms(2,3) by (rule findShipmentRow_by_id)
  have noRel: "column ?d ''timeline'' = None"
    using assms(4) by (simp add: column_shipmentData)
  note upd = shipmentUpdate_no_relation[OF byId noRel, of L]
  have refused: "shipmentUpdate L i ?d db = None \<longrightarrow>
            updateShipment L u i body None db = (ShipServerError, db)"
    using assms(1,2) by (simp add: updateShipment_def)
  have carried: "writeRow L ?d s = Some r
            \<and> db1 = \<lparr> shipmentRows =
                        map (\<lambda>x. if column x ''id'' = Some (JStr i) then r else x)
                          (shipmentRows db),
                      timeline = timeline db \<rparr>
            \<and> (distinct (map fst body) \<longrightarrow>
                 (\<forall>v. column body ''status'' = Some v \<longrightarrow>
                    column r ''status'' = storedValue L ''status'' v))
            \<and> (statusChanges body s \<longrightarrow>
                 updateShipment L u i body None db
                   = (Updated r,
                      db1\<lparr>timeline := timeline db @
                        [\<lparr> ev_shipmentId = i,
                           ev_action = StatusChanged (the (column body ''status'')),
                           ev_userId = JStr (uid u), ev_userName = JStr (uname u) \<rparr>]\<rparr>)
                 \<and> updateShipment L u i body (Some 2) db = (ShipServerError, db1))
            \<and> (\<not> statusChanges body s \<longrightarrow>
                 updateShipment L u i body None db = (Updated r, db1))"
    if ok: "shipmentUpdate L i ?d db = Some (r, db1)" for r db1
  proof -
    from ok upd have w: "writeRow L ?d s = Some r"
      and db1: "db1 = \<lparr> shipmentRows =
                        map (\<lambda>x. if column x ''id'' = Some (JStr i) then r else x)
                          (shipmentRows db),
                      timeline = timeline db \<rparr>"
      by (auto split: option.splits if_splits)
    have tl: "timeline db1 = timeline db" using db1 by simp
    have st: "column r ''status'' = storedValue L ''status'' v"
      if "distinct (map fst body)" "column body ''status'' = Some v" for v
    proof -
      have "distinct (map fst ?d)" using that(1) by (rule distinct_shipmentData)
      moreover have "column ?d ''status'' = Some v"
        using that(2) by (simp add: column_shipmentData)
      ultimately show ?thesis using w by (intro writeRow_column) simp_all
    qed
    have ch: "statusChanges body s \<longrightarrow>
                 updateShipment L u i body None db
                   = (Updated r,
                      db1\<lparr>timeline := timeline db @
                        [\<lparr> ev_shipmentId = i,
                           ev_action = StatusChanged (the (column body ''status'')),
                           ev_userId = JStr (uid u), ev_userName = JStr (uname u) \<rparr>]\<rparr>)
                 \<and> updateShipment L u i body (Some 2) db = (ShipServerError, db1)"
      using assms(1,2) ok tl by (simp add: updateShipment_def statusEvent_def)
    have same: "\<not> statusChanges body s \<longrightarrow>
                 updateShipment L u i body None db = (Updated r, db1)"
      using assms(1,2) ok by (simp add: updateShipment_def)
    from w db1 st ch same show ?thesis by blast
  qed
  have c: "statusChanges body s
           = (\<exists>v. column body ''status'' = Some v \<and> truthyValue v
                  \<and> (\<forall>w. column s ''status'' = Some w \<longrightarrow> \<not> strictEquals v w))"
    by (auto simp: statusChanges_def split: option.splits)
  have c2: "\<forall>n m. column body ''status'' = Some (JStr n) \<and> column s ''status'' = Some (JStr m) \<longrightarrow>
            statusChanges body s = (n \<noteq> [] \<and> n \<noteq> m)"
    by (simp add: statusChanges_def)
  from refused carried c c2 show ?thesis by blast
qed

theorem updateShipment_timeline_witness:
  "requireAgent agent1
   \<and> updateShipment lib2 agent1 ''s1'' [(''status'', JStr ''ARRIVED'')] None
       (shipdbOf (shipmentIn ''PENDING'') [])
     = (Updated (shipmentIn ''ARRIVED''),
        shipdbOf (shipmentIn ''ARRIVED'')
          [\<lparr> ev_shipmentId = ''s1'', ev_action = StatusChanged (JStr ''ARRIVED''),
             ev_userId = JStr ''u2'', ev_userName = JStr ''Binta'' \<rparr>])
   \<and> updateShipment lib2 agent1 ''s1'' [(''status'', JStr ''PENDING'')] None
       (shipdbOf (shipmentIn ''PENDING'') [])
     = (Updated (shipmentIn ''PENDING''), shipdbOf (shipmentIn ''PENDING'') [])
   \<and> updateShipment lib2 agent1 ''s1'' [(''companyId'', JStr ''c2''), (''eta'', JNum (Fin 0))] None
       (shipdbOf (shipmentIn ''PENDING'') [])
     = (Updated [(''id'', JStr ''s1''), (''companyId'', JStr ''c2''), (''status'', JStr ''PENDING'')],
        shipdbOf [(''id'', JStr ''s1''), (''companyId'', JStr ''c2''), (''status'', JStr ''PENDING'')] [])"
proof -
  let ?db = "shipdbOf (shipmentIn ''PENDING'') []"
  let ?moved = "[(''id'', JStr ''s1''), (''companyId'', JStr ''c2''), (''status'', JStr ''PENDING'')]"
  have a: "requireAgent agent1"
    by (simp add: requireAgent_def requireRole_def agent1_def)
  have f: "findShipmentRow ?db (ucompanyId agent1) ''s1'' = Some (shipmentIn ''PENDING'')"
    by (simp add: findShipmentRow_def shipdbOf_def shipmentIn_def agent1_def column_def)
  have d: "distinct (map (\<lambda>r. column r ''id'') (shipmentRows ?db))"
    by (simp add: shipdbOf_def)
  have n: "column [(''status'', JStr x)] ''timeline'' = None"
    "column [(''companyId'', JStr ''c2''), (''eta'', JNum (Fin 0))] ''timeline'' = None" for x
    by (simp_all add: column_def)
  have u1: "shipmentUpdate lib2 ''s1'' (shipmentData lib2 [(''status'', JStr x)]) ?db
      = Some (shipmentIn x, shipdbOf (shipmentIn x) [])" for x
    by (simp add: ship_demo_defs)
  have u2: "shipmentUpdate lib2 ''s1''
        (shipmentData lib2 [(''companyId'', JStr ''c2''), (''eta'', JNum (Fin 0))]) ?db
      = Some (?moved, shipdbOf ?moved [])"
    by (simp add: ship_demo_defs)
  have ch: "statusChanges [(''status'', JStr ''ARRIVED'')] (shipmentIn ''PENDING'')"
    "\<not> statusChanges [(''status'', JStr ''PENDING'')] (shipmentIn ''PENDING'')"
    "\<not> statusChanges [(''companyId'', JStr ''c2''), (''eta'', JNum (Fin 0))] (shipmentIn ''PENDING'')"
    by (simp_all add: statusChanges_def shipmentIn_def column_def)
  have ev: "(shipdbOf x [])\<lparr>timeline := timeline ?db @ [e]\<rparr> = shipdbOf x [e]" for x e
    by (simp add: shipdbOf_def)
  have ids: "uid agent1 = ''u2''" "uname agent1 = ''Binta''"
    "the (column [(''status'', JStr ''ARRIVED'')] ''status'') = JStr ''ARRIVED''"
    by (simp_all add: agent1_def column_def)
  note t1 = updateShipment_timeline[OF a f d n(1), of lib2, THEN conjunct2, THEN conjunct1,
      rule_format, OF u1]
  note t3 = updateShipment_timeline[OF a f d n(2), of lib2, THEN conjunct2, THEN conjunct1,
      rule_format, OF u2]
  note c1 = t1[of "''ARRIVED''", THEN conjunct2, THEN conjunct2, THEN conjunct2, THEN conjunct1,
      THEN mp, OF ch(1), THEN conjunct1]
  note c2 = t1[of "''PENDING''", THEN conjunct2, THEN conjunct2, THEN conjunct2, THEN conjunct2,
      THEN mp, OF ch(2)]
  note c3 = t3[THEN conjunct2, THEN conjunct2, THEN conjunct2, THEN conjunct2, THEN mp, OF ch(3)]
  have r1: "updateShipment lib2 agent1 ''s1'' [(''status'', JStr ''ARRIVED'')] None ?db
      = (Updated (shipmentIn ''ARRIVED''),
         shipdbOf (shipmentIn ''ARRIVED'')
           [\<lparr> ev_shipmentId = ''s1'', ev_action = StatusChanged (JStr ''ARRIVED''),
              ev_userId = JStr ''u2'', ev_userName = JStr ''Binta'' \<rparr>])"
    using c1 by (simp only: ids ev)
  have r2: "updateShipment lib2 agent1 ''s1'' [(''status'', JStr ''PENDING'')] None ?db
      = (Updated (shipmentIn ''PENDING''), shipdbOf (shipmentIn ''PENDING'') [])"
    by (rule c2)
  have r3: "updateShipment lib2 agent1 ''s1'' [(''companyId'', JStr ''c2''), (''eta'', JNum (Fin 0))]
        None ?db = (Updated ?moved, shipdbOf ?moved [])"
    by (rule c3)
  from a r1 r2 r3 show ?thesis
    by (intro conjI)
qed

section \<open>Properties of the customs duty calculator\<close>

subsection \<open>The rates and the worked examples in doubles\<close>

lemma ddRate_td: "toDouble (35 / 100) = Fin (3152519739159347 / 9007199254740992)"
  by (rule toDouble_eval[where e = "- 2" and n = 6305039478318694])
    (simp_all add: double_eval)

lemma ddRate_value: "ddRate = Fin (3152519739159347 / 9007199254740992)"
  by (simp only: ddRate_def ddRate_td)

lemma rtlRate_td: "toDouble (2 / 100) = Fin (5764607523034235 / 288230376151711744)"
  by (rule toDouble_eval[where e = "- 6" and n = 5764607523034235])
    (simp_all add: double_eval)

lemma rtlRate_value: "rtlRate = Fin (5764607523034235 / 288230376151711744)"
  by (simp only: rtlRate_def rtlRate_td)

lemma pcRate_td: "toDouble (5 / 1000) = Fin (5764607523034235 / 1152921504606846976)"
  by (rule toDouble_eval[where e = "- 8" and n = 5764607523034235])
    (simp_all add: double_eval)

lemma pcRate_value: "pcRate = Fin (5764607523034235 / 1152921504606846976)"
  by (simp only: pcRate_def pcRate_td)

lemma caRate_td: "toDouble (25 / 10000) = Fin (5764607523034235 / 2305843009213693952)"
  by (rule toDouble_eval[where e = "- 9" and n = 5764607523034235])
    (simp_all add: double_eval)

lemma caRate_value: "caRate = Fin (5764607523034235 / 2305843009213693952)"
  by (simp only: caRate_def caRate_td)

lemma tvaRate_td: "toDouble (18 / 100) = Fin (3242591731706757 / 18014398509481984)"
  by (rule toDouble_eval[where e = "- 3" and n = 6485183463413514])
    (simp_all add: double_eval)

lemma tvaRate_value: "tvaRate = Fin (3242591731706757 / 18014398509481984)"
  by (simp only: tvaRate_def tvaRate_td)

lemma usd_valueGnf: "times_number (Fin 18240) (Fin 8646) = Fin 157703040"
proof -
  have x: "18240 * 8646 = (157703040 :: rat)"
    by simp
  have "toDouble 157703040 = Fin 157703040"
    by (rule toDouble_eval[where e = "27" and n = 5291635931873280])
      (simp_all add: double_eval)
  then show ?thesis
    by (simp only: times_number.simps x)
qed

lemma usd_ddRate: "times_number (Fin 157703040) (Fin (3152519739159347 / 9007199254740992)) = Fin 55196064"
proof -
  have x: "157703040 * (3152519739159347 / 9007199254740992) = ((3884077707229969268085 / 70368744177664) :: rat)"
    by simp
  have "toDouble (3884077707229969268085 / 70368744177664) = Fin 55196064"
    by (rule toDouble_eval[where e = "25" and n = 7408290304622592])
      (simp_all add: double_eval)
  then show ?thesis
    by (simp only: times_number.simps x)
qed

lemma usd_rtlRate: "times_number (Fin 157703040) (Fin (5764607523034235 / 288230376151711744)) = Fin (6773293992797799 / 2147483648)"
proof -
  have x: "157703040 * (5764607523034235 / 288230376151711744) = ((7102313521791944402925 / 2251799813685248) :: rat)"
    by simp
  have "toDouble (7102313521791944402925 / 2251799813685248) = Fin (6773293992797799 / 2147483648)"
    by (rule toDouble_eval[where e = "21" and n = 6773293992797799])
      (simp_all add: double_eval)
  then show ?thesis
    by (simp only: times_number.simps x)
qed

lemma usd_pcRate: "times_number (Fin 157703040) (Fin (5764607523034235 / 1152921504606846976)) = Fin (6773293992797799 / 8589934592)"
proof -
  have x: "157703040 * (5764607523034235 / 1152921504606846976) = ((7102313521791944402925 / 9007199254740992) :: rat)"
    by simp
  have "toDouble (7102313521791944402925 / 9007199254740992) = Fin (6773293992797799 / 8589934592)"
    by (rule toDouble_eval[where e = "19" and n = 6773293992797799])
      (simp_all add: double_eval)
  then show ?thesis
    by (simp only: times_number.simps x)
qed

lemma usd_caRate: "times_number (Fin 157703040) (Fin (5764607523034235 / 2305843009213693952)) = Fin (6773293992797799 / 17179869184)"
proof -
  have x: "157703040 * (5764607523034235 / 2305843009213693952) = ((7102313521791944402925 / 18014398509481984) :: rat)"
    by simp
  have "toDouble (7102313521791944402925 / 18014398509481984) = Fin (6773293992797799 / 17179869184)"
    by (rule toDouble_eval[where e = "18" and n = 6773293992797799])
      (simp_all add: double_eval)
  then show ?thesis
    by (simp only: times_number.simps x)
qed

lemma usd_tvaBase: "plus_number (Fin 157703040) (Fin 55196064) = Fin 212899104"
proof -
  have x: "157703040 + 55196064 = (212899104 :: rat)"
    by simp
  have "toDouble 212899104 = Fin 212899104"
    by (rule toDouble_eval[where e = "27" and n = 7143708508028928])
      (simp_all add: double_eval)
  then show ?thesis
    by (simp only: plus_number.simps x)
qed

lemma usd_tvaRate: "times_number (Fin 212899104) (Fin (3242591731706757 / 18014398509481984)) = Fin (1285867531445207 / 33554432)"
proof -
  have x: "212899104 * (3242591731706757 / 18014398509481984) = ((21573277322443029876429 / 562949953421312) :: rat)"
    by simp
  have "toDouble (21573277322443029876429 / 562949953421312) = Fin (1285867531445207 / 33554432)"
    by (rule toDouble_eval[where e = "25" and n = 5143470125780828])
      (simp_all add: double_eval)
  then show ?thesis
    by (simp only: times_number.simps x)
qed

lemma usd_sum1: "plus_number (Fin 55196064) (Fin 3154061) = Fin 58350125"
proof -
  have x: "55196064 + 3154061 = (58350125 :: rat)"
    by simp
  have "toDouble 58350125 = Fin 58350125"
    by (rule toDouble_eval[where e = "25" and n = 7831621206016000])
      (simp_all add: double_eval)
  then show ?thesis
    by (simp only: plus_number.simps x)
qed

lemma usd_sum2: "plus_number (Fin 58350125) (Fin 788515) = Fin 59138640"
proof -
  have x: "58350125 + 788515 = (59138640 :: rat)"
    by simp
  have "toDouble 59138640 = Fin 59138640"
    by (rule toDouble_eval[where e = "25" and n = 7937453897809920])
      (simp_all add: double_eval)
  then show ?thesis
    by (simp only: plus_number.simps x)
qed

lemma usd_sum3: "plus_number (Fin 59138640) (Fin 394258) = Fin 59532898"
proof -
  have x: "59138640 + 394258 = (59532898 :: rat)"
    by simp
  have "toDouble 59532898 = Fin 59532898"
    by (rule toDouble_eval[where e = "25" and n = 7990370310815744])
      (simp_all add: double_eval)
  then show ?thesis
    by (simp only: plus_number.simps x)
qed

lemma usd_sum4: "plus_number (Fin 59532898) (Fin 38321839) = Fin 97854737"
proof -
  have x: "59532898 + 38321839 = (97854737 :: rat)"
    by simp
  have "toDouble 97854737 = Fin 97854737"
    by (rule toDouble_eval[where e = "26" and n = 6566920237088768])
      (simp_all add: double_eval)
  then show ?thesis
    by (simp only: plus_number.simps x)
qed

lemma usd_sum5: "plus_number (Fin 97854737) (Fin 500000) = Fin 98354737"
proof -
  have x: "97854737 + 500000 = (98354737 :: rat)"
    by simp
  have "toDouble 98354737 = Fin 98354737"
    by (rule toDouble_eval[where e = "26" and n = 6600474669088768])
      (simp_all add: double_eval)
  then show ?thesis
    by (simp only: plus_number.simps x)
qed

lemma gnf_valueGnf: "times_number (Fin 90) (Fin 1) = Fin 90"
proof -
  have x: "90 * 1 = (90 :: rat)"
    by simp
  have "toDouble 90 = Fin 90"
    by (rule toDouble_eval[where e = "6" and n = 6333186975989760])
      (simp_all add: double_eval)
  then show ?thesis
    by (simp only: times_number.simps x)
qed

lemma gnf_ddRate: "times_number (Fin 90) (Fin (3152519739159347 / 9007199254740992)) = Fin (8866461766385663 / 281474976710656)"
proof -
  have x: "90 * (3152519739159347 / 9007199254740992) = ((141863388262170615 / 4503599627370496) :: rat)"
    by simp
  have "toDouble (141863388262170615 / 4503599627370496) = Fin (8866461766385663 / 281474976710656)"
    by (rule toDouble_eval[where e = "4" and n = 8866461766385663])
      (simp_all add: double_eval)
  then show ?thesis
    by (simp only: times_number.simps x)
qed

lemma gnf_rtlRate: "times_number (Fin 90) (Fin (5764607523034235 / 288230376151711744)) = Fin (8106479329266893 / 4503599627370496)"
proof -
  have x: "90 * (5764607523034235 / 288230376151711744) = ((259407338536540575 / 144115188075855872) :: rat)"
    by simp
  have "toDouble (259407338536540575 / 144115188075855872) = Fin (8106479329266893 / 4503599627370496)"
    by (rule toDouble_eval[where e = "0" and n = 8106479329266893])
      (simp_all add: double_eval)
  then show ?thesis
    by (simp only: times_number.simps x)
qed

lemma gnf_pcRate: "times_number (Fin 90) (Fin (5764607523034235 / 1152921504606846976)) = Fin (8106479329266893 / 18014398509481984)"
proof -
  have x: "90 * (5764607523034235 / 1152921504606846976) = ((259407338536540575 / 576460752303423488) :: rat)"
    by simp
  have "toDouble (259407338536540575 / 576460752303423488) = Fin (8106479329266893 / 18014398509481984)"
    by (rule toDouble_eval[where e = "- 2" and n = 8106479329266893])
      (simp_all add: double_eval)
  then show ?thesis
    by (simp only: times_number.simps x)
qed

lemma gnf_caRate: "times_number (Fin 90) (Fin (5764607523034235 / 2305843009213693952)) = Fin (8106479329266893 / 36028797018963968)"
proof -
  have x: "90 * (5764607523034235 / 2305843009213693952) = ((259407338536540575 / 1152921504606846976) :: rat)"
    by simp
  have "toDouble (259407338536540575 / 1152921504606846976) = Fin (8106479329266893 / 36028797018963968)"
    by (rule toDouble_eval[where e = "- 3" and n = 8106479329266893])
      (simp_all add: double_eval)
  then show ?thesis
    by (simp only: times_number.simps x)
qed

lemma gnf_tvaBase: "plus_number (Fin 90) (Fin 31) = Fin 121"
proof -
  have x: "90 + 31 = (121 :: rat)"
    by simp
  have "toDouble 121 = Fin 121"
    by (rule toDouble_eval[where e = "6" and n = 8514618045497344])
      (simp_all add: double_eval)
  then show ?thesis
    by (simp only: plus_number.simps x)
qed

lemma gnf_tvaRate: "times_number (Fin 121) (Fin (3242591731706757 / 18014398509481984)) = Fin (6130524992758087 / 281474976710656)"
proof -
  have x: "121 * (3242591731706757 / 18014398509481984) = ((392353599536517597 / 18014398509481984) :: rat)"
    by simp
  have "toDouble (392353599536517597 / 18014398509481984) = Fin (6130524992758087 / 281474976710656)"
    by (rule toDouble_eval[where e = "4" and n = 6130524992758087])
      (simp_all add: double_eval)
  then show ?thesis
    by (simp only: times_number.simps x)
qed

lemma gnf_sum1: "plus_number (Fin 31) (Fin 2) = Fin 33"
proof -
  have x: "31 + 2 = (33 :: rat)"
    by simp
  have "toDouble 33 = Fin 33"
    by (rule toDouble_eval[where e = "5" and n = 4644337115725824])
      (simp_all add: double_eval)
  then show ?thesis
    by (simp only: plus_number.simps x)
qed

lemma gnf_sum2: "plus_number (Fin 33) (Fin 0) = Fin 33"
proof -
  have x: "33 + 0 = (33 :: rat)"
    by simp
  have "toDouble 33 = Fin 33"
    by (rule toDouble_eval[where e = "5" and n = 4644337115725824])
      (simp_all add: double_eval)
  then show ?thesis
    by (simp only: plus_number.simps x)
qed

lemma gnf_sum3: "plus_number (Fin 33) (Fin 0) = Fin 33"
proof -
  have x: "33 + 0 = (33 :: rat)"
    by simp
  have "toDouble 33 = Fin 33"
    by (rule toDouble_eval[where e = "5" and n = 4644337115725824])
      (simp_all add: double_eval)
  then show ?thesis
    by (simp only: plus_number.simps x)
qed

lemma gnf_sum4: "plus_number (Fin 33) (Fin 22) = Fin 55"
proof -
  have x: "33 + 22 = (55 :: rat)"
    by simp
  have "toDouble 55 = Fin 55"
    by (rule toDouble_eval[where e = "5" and n = 7740561859543040])
      (simp_all add: double_eval)
  then show ?thesis
    by (simp only: plus_number.simps x)
qed

lemma gnf_sum5: "plus_number (Fin 55) (Fin 200000) = Fin 200055"
proof -
  have x: "55 + 200000 = (200055 :: rat)"
    by simp
  have "toDouble 200055 = Fin 200055"
    by (rule toDouble_eval[where e = "17" and n = 6873837459210240])
      (simp_all add: double_eval)
  then show ?thesis
    by (simp only: plus_number.simps x)
qed

subsection \<open>The duty lines\<close>

lemma mathRound_half_up: "mathRound (Fin a) = Fin (of_int (roundHalfUp a))"
  by (simp add: roundHalfUp_def)

lemma usd_lines:
  "cifValueGnf (calculateCustoms (Fin 18240) ''USD'') = Fin 157703040"
  "dd (calculateCustoms (Fin 18240) ''USD'') = Fin 55196064"
  "tvaBase (calculateCustoms (Fin 18240) ''USD'') = Fin 212899104"
  "tva (calculateCustoms (Fin 18240) ''USD'') = Fin 38321839"
  by (simp_all add: calculateCustoms_def Let_def rateOf_def usd_valueGnf ddRate_value
      tvaRate_value usd_ddRate usd_tvaBase usd_tvaRate floor_rat_numeral
      del: times_number.simps plus_number.simps)

lemma usd_total:
  "calculateCustoms (Fin 18240) ''USD''
     = \<lparr> exchangeRate = Fin 8646, cifValueGnf = Fin 157703040, dd = Fin 55196064,
         rtl = Fin 3154061, pc = Fin 788515, ca = Fin 394258, tvaBase = Fin 212899104,
         tva = Fin 38321839, bfu = Fin 500000, totalDuties = Fin 98354737 \<rparr>"
  by (simp add: calculateCustoms_def Let_def rateOf_def usd_valueGnf ddRate_value rtlRate_value
      pcRate_value caRate_value tvaRate_value usd_ddRate usd_rtlRate usd_pcRate usd_caRate
      usd_tvaBase usd_tvaRate usd_sum1 usd_sum2 usd_sum3 usd_sum4 usd_sum5 floor_rat_numeral
      del: times_number.simps plus_number.simps)

lemma gnf_lines:
  "cifValueGnf (calculateCustoms (Fin 90) ''GNF'') = Fin 90"
  "dd (calculateCustoms (Fin 90) ''GNF'') = Fin 31"
  by (simp_all add: calculateCustoms_def Let_def rateOf_def gnf_valueGnf ddRate_value
      gnf_ddRate floor_rat_numeral del: times_number.simps plus_number.simps)

text \<open>The doubles of the five decimal rates, against the decimals.\<close>

lemma rate_bounds:
  "1 / 512 \<le> (3152519739159347 / 9007199254740992 :: rat)"
  "(3152519739159347 / 9007199254740992 :: rat) + 35 / 100 \<le> 1"
  "\<bar>(3152519739159347 / 9007199254740992 :: rat) - 35 / 100\<bar> \<le> (35 / 100) / 2 ^ 53"
  "1 / 512 \<le> (5764607523034235 / 288230376151711744 :: rat)"
  "(5764607523034235 / 288230376151711744 :: rat) + 2 / 100 \<le> 1"
  "\<bar>(5764607523034235 / 288230376151711744 :: rat) - 2 / 100\<bar> \<le> (2 / 100) / 2 ^ 53"
  "1 / 512 \<le> (5764607523034235 / 1152921504606846976 :: rat)"
  "(5764607523034235 / 1152921504606846976 :: rat) + 5 / 1000 \<le> 1"
  "\<bar>(5764607523034235 / 1152921504606846976 :: rat) - 5 / 1000\<bar> \<le> (5 / 1000) / 2 ^ 53"
  "1 / 512 \<le> (5764607523034235 / 2305843009213693952 :: rat)"
  "(5764607523034235 / 2305843009213693952 :: rat) + 25 / 10000 \<le> 1"
  "\<bar>(5764607523034235 / 2305843009213693952 :: rat) - 25 / 10000\<bar> \<le> (25 / 10000) / 2 ^ 53"
  "1 / 512 \<le> (3242591731706757 / 18014398509481984 :: rat)"
  "(3242591731706757 / 18014398509481984 :: rat) + 18 / 100 \<le> 1"
  "\<bar>(3242591731706757 / 18014398509481984 :: rat) - 18 / 100\<bar> \<le> (18 / 100) / 2 ^ 53"
  by simp_all

lemma dd_bound:
  assumes "1 / 2 \<le> g" "g \<le> 2 ^ 53"
  shows "\<exists>d. mathRound (times_number (Fin g) ddRate) = Fin (of_int d)
             \<and> \<bar>of_int d - 35 / 100 * g\<bar> \<le> 1 / 2 + g / 2 ^ 53"
  unfolding ddRate_value by (rule duty_line_bound[OF assms rate_bounds(1,2,3)]) simp

lemma rtl_bound:
  assumes "1 / 2 \<le> g" "g \<le> 2 ^ 53"
  shows "\<exists>d. mathRound (times_number (Fin g) rtlRate) = Fin (of_int d)
             \<and> \<bar>of_int d - 2 / 100 * g\<bar> \<le> 1 / 2 + g / 2 ^ 53"
  unfolding rtlRate_value by (rule duty_line_bound[OF assms rate_bounds(4,5,6)]) simp

lemma pc_bound:
  assumes "1 / 2 \<le> g" "g \<le> 2 ^ 53"
  shows "\<exists>d. mathRound (times_number (Fin g) pcRate) = Fin (of_int d)
             \<and> \<bar>of_int d - 5 / 1000 * g\<bar> \<le> 1 / 2 + g / 2 ^ 53"
  unfolding pcRate_value by (rule duty_line_bound[OF assms rate_bounds(7,8,9)]) simp

lemma ca_bound:
  assumes "1 / 2 \<le> g" "g \<le> 2 ^ 53"
  shows "\<exists>d. mathRound (times_number (Fin g) caRate) = Fin (of_int d)
             \<and> \<bar>of_int d - 25 / 10000 * g\<bar> \<le> 1 / 2 + g / 2 ^ 53"
  unfolding caRate_value by (rule duty_line_bound[OF assms rate_bounds(10,11,12)]) simp

lemma tva_line_bound:
  assumes "1 / 2 \<le> g" "g \<le> 2 ^ 53"
  shows "\<exists>d. mathRound (times_number (Fin g) tvaRate) = Fin (of_int d)
             \<and> \<bar>of_int d - 18 / 100 * g\<bar> \<le> 1 / 2 + g / 2 ^ 53"
  unfolding tvaRate_value by (rule duty_line_bound[OF assms rate_bounds(13,14,15)]) simp

text \<open>
  TVA on the base \<open>g + d\<close>, where \<open>d\<close> is the DD line of the converted value \<open>g\<close>: the
  sum is rounded to a double first, then taxed and rounded by \<open>Math.round\<close>.
\<close>

lemma rel_err_lower:
  fixes b s :: rat
  assumes "\<bar>b - s\<bar> \<le> s / 9007199254740992" and "1 \<le> s"
  shows "1 / 2 \<le> b"
proof -
  have a: "s - s / 9007199254740992 \<le> b"
    using assms(1) by (simp only: abs_le_iff) linarith
  have c: "s / 9007199254740992 \<le> s / 2" using assms(2) by (simp add: field_simps)
  show ?thesis using a c assms(2) by linarith
qed

lemma rel_err_upper:
  fixes b s :: rat
  assumes "\<bar>b - s\<bar> \<le> s / 9007199254740992"
    and "s \<le> 6079859496950170 + 1" and "1 \<le> s"
  shows "b \<le> 9007199254740992"
proof -
  have a: "b \<le> s + s / 9007199254740992"
    using assms(1) by (simp only: abs_le_iff) linarith
  have c: "s / 9007199254740992 \<le> s" using assms(3) by (simp add: field_simps)
  show ?thesis using a c assms(2) by linarith
qed

lemma tva_err_compose:
  fixes b s t :: rat
  assumes "\<bar>b - s\<bar> \<le> s / 9007199254740992"
    and "\<bar>t - 18 / 100 * b\<bar> \<le> 1 / 2 + b / 9007199254740992"
    and "1 \<le> s"
  shows "\<bar>t - 18 / 100 * s\<bar> \<le> 1 / 2 + s / 4503599627370496"
proof -
  have a1: "b \<le> s + s / 9007199254740992"
    using assms(1) by (simp only: abs_le_iff) linarith
  have a2: "s - s / 9007199254740992 \<le> b"
    using assms(1) by (simp only: abs_le_iff) linarith
  have c: "s / 9007199254740992 \<le> s" using assms(3) by (simp add: field_simps)
  have e1: "b / 9007199254740992 \<le> (2 * s) / 9007199254740992"
    using a1 c by (simp add: field_simps)
  have t1: "t \<le> 18 / 100 * b + 1 / 2 + b / 9007199254740992"
    using assms(2) by (simp only: abs_le_iff) linarith
  have t2: "18 / 100 * b - 1 / 2 - b / 9007199254740992 \<le> t"
    using assms(2) by (simp only: abs_le_iff) linarith
  have u: "t - 18 / 100 * s \<le> 1 / 2 + s / 4503599627370496"
    using t1 a1 e1 c assms(3) by linarith
  have l: "- (t - 18 / 100 * s) \<le> 1 / 2 + s / 4503599627370496"
    using t2 a2 e1 c assms(3) by linarith
  show ?thesis using u l by (rule abs_leI)
qed

lemma tva_bound:
  assumes g: "1 \<le> g" "g \<le> 2 ^ 52"
    and d: "\<bar>of_int d - 35 / 100 * g\<bar> \<le> 1 / 2 + g / 2 ^ 53"
  shows "\<exists>t. mathRound (times_number (plus_number (Fin g) (Fin (of_int d))) tvaRate)
               = Fin (of_int t)
             \<and> \<bar>of_int t - 18 / 100 * (g + of_int d)\<bar> \<le> 1 / 2 + (g + of_int d) / 2 ^ 52"
proof -
  let ?s = "g + of_int d"
  have small: "g / 2 ^ 53 \<le> 1 / 2" using g(2) by (simp add: field_simps)
  have "- 1 < (of_int d :: rat)" using d g(1) small by linarith
  then have "0 \<le> d" by linarith
  then have d0: "0 \<le> (of_int d :: rat)" by simp
  have dhi: "of_int d \<le> 35 / 100 * g + 1" using d small by linarith
  have s1: "1 \<le> ?s" using g(1) d0 by linarith
  have shi: "?s \<le> 135 / 100 * 2 ^ 52 + 1" using dhi g(2) by linarith
  have num: "(135 / 100 * 2 ^ 52 + 1 + 1 / 2 :: rat) \<le> 2 ^ 53" by simp
  have s2: "?s + 1 / 2 \<le> 2 ^ 53" using shi num by linarith
  have lo: "pow2 (- 1022) \<le> ?s"
  proof -
    have "pow2 (- 1022) \<le> pow2 0" by (rule pow2_mono) simp
    then show ?thesis using s1 by (simp add: pow2_def)
  qed
  have hi: "?s \<le> pow2 1023"
  proof -
    have "?s \<le> 2 ^ 53" using s2 by linarith
    also have "\<dots> = pow2 53" by (simp add: pow2_def)
    also have "\<dots> \<le> pow2 1023" by (rule pow2_mono) simp
    finally show ?thesis .
  qed
  from toDouble_error[OF lo hi] obtain b where
    b: "toDouble ?s = Fin b" "\<bar>b - ?s\<bar> \<le> ?s / 2 ^ 53" by blast
  have b': "\<bar>b - ?s\<bar> \<le> ?s / 9007199254740992" using b(2) by simp
  have shi': "?s \<le> 6079859496950170 + 1" using shi by simp
  have b1: "1 / 2 \<le> b" using b' s1 by (rule rel_err_lower)
  have "b \<le> 9007199254740992" using b' shi' s1 by (rule rel_err_upper)
  then have b2: "b \<le> 2 ^ 53" by simp
  from tva_line_bound[OF b1 b2] obtain t where
    t: "mathRound (times_number (Fin b) tvaRate) = Fin (of_int t)"
       "\<bar>of_int t - 18 / 100 * b\<bar> \<le> 1 / 2 + b / 2 ^ 53" by blast
  have t': "\<bar>of_int t - 18 / 100 * b\<bar> \<le> 1 / 2 + b / 9007199254740992"
    using t(2) by simp
  have "\<bar>of_int t - 18 / 100 * ?s\<bar> \<le> 1 / 2 + ?s / 4503599627370496"
    using b' t' s1 by (rule tva_err_compose)
  then have "\<bar>of_int t - 18 / 100 * ?s\<bar> \<le> 1 / 2 + ?s / 2 ^ 52" by simp
  then show ?thesis using t(1) b(1) by auto
qed

text \<open>
  How far the duty lines are from the exact percentages: with the converted value g
  between 1 and 2^52, each line is a whole number, DD, RTL, PC and CA within
  1/2 + g / 2^53 of the exact percentage of g, and TVA within 1/2 + (g + DD) / 2^52 of
  0.18 times (g + DD).
\<close>

lemma customs_accuracy:
  assumes k: "cifValueGnf (calculateCustoms (Fin v) currency) = Fin g"
    and g: "1 \<le> g" "g \<le> 2 ^ 52"
  shows "(\<exists>d r p c t.
       dd (calculateCustoms (Fin v) currency) = Fin (of_int d)
       \<and> \<bar>of_int d - 35 / 100 * g\<bar> \<le> 1 / 2 + g / 2 ^ 53
       \<and> rtl (calculateCustoms (Fin v) currency) = Fin (of_int r)
       \<and> \<bar>of_int r - 2 / 100 * g\<bar> \<le> 1 / 2 + g / 2 ^ 53
       \<and> pc (calculateCustoms (Fin v) currency) = Fin (of_int p)
       \<and> \<bar>of_int p - 5 / 1000 * g\<bar> \<le> 1 / 2 + g / 2 ^ 53
       \<and> ca (calculateCustoms (Fin v) currency) = Fin (of_int c)
       \<and> \<bar>of_int c - 25 / 10000 * g\<bar> \<le> 1 / 2 + g / 2 ^ 53
       \<and> tva (calculateCustoms (Fin v) currency) = Fin (of_int t)
       \<and> \<bar>of_int t - 18 / 100 * (g + of_int d)\<bar> \<le> 1 / 2 + (g + of_int d) / 2 ^ 52)"
proof -
  let ?k = "calculateCustoms (Fin v) currency"
  have l: "dd ?k = mathRound (times_number (cifValueGnf ?k) ddRate)"
    "rtl ?k = mathRound (times_number (cifValueGnf ?k) rtlRate)"
    "pc ?k = mathRound (times_number (cifValueGnf ?k) pcRate)"
    "ca ?k = mathRound (times_number (cifValueGnf ?k) caRate)"
    "tva ?k = mathRound (times_number (plus_number (cifValueGnf ?k) (dd ?k)) tvaRate)"
    by (simp_all add: calculateCustoms_def Let_def)
  have g1: "1 / 2 \<le> g" using g(1) by linarith
  have "(2 :: rat) ^ 52 \<le> 2 ^ 53" by simp
  with g(2) have g2: "g \<le> 2 ^ 53" by linarith
  from dd_bound[OF g1 g2] obtain d where
    d: "mathRound (times_number (Fin g) ddRate) = Fin (of_int d)"
       "\<bar>of_int d - 35 / 100 * g\<bar> \<le> 1 / 2 + g / 2 ^ 53" by blast
  from rtl_bound[OF g1 g2] obtain r where
    r: "mathRound (times_number (Fin g) rtlRate) = Fin (of_int r)"
       "\<bar>of_int r - 2 / 100 * g\<bar> \<le> 1 / 2 + g / 2 ^ 53" by blast
  from pc_bound[OF g1 g2] obtain p where
    p: "mathRound (times_number (Fin g) pcRate) = Fin (of_int p)"
       "\<bar>of_int p - 5 / 1000 * g\<bar> \<le> 1 / 2 + g / 2 ^ 53" by blast
  from ca_bound[OF g1 g2] obtain c where
    c: "mathRound (times_number (Fin g) caRate) = Fin (of_int c)"
       "\<bar>of_int c - 25 / 10000 * g\<bar> \<le> 1 / 2 + g / 2 ^ 53" by blast
  from tva_bound[OF g d(2)] obtain t where
    t: "mathRound (times_number (plus_number (Fin g) (Fin (of_int d))) tvaRate) = Fin (of_int t)"
       "\<bar>of_int t - 18 / 100 * (g + of_int d)\<bar> \<le> 1 / 2 + (g + of_int d) / 2 ^ 52"
    by blast
  have e1: "dd ?k = Fin (of_int d)" by (simp only: l(1) k d(1))
  have e2: "rtl ?k = Fin (of_int r)" by (simp only: l(2) k r(1))
  have e3: "pc ?k = Fin (of_int p)" by (simp only: l(3) k p(1))
  have e4: "ca ?k = Fin (of_int c)" by (simp only: l(4) k c(1))
  have "tva ?k = mathRound (times_number (plus_number (Fin g) (Fin (of_int d))) tvaRate)"
    using l(5) by (simp only: k e1)
  then have e5: "tva ?k = Fin (of_int t)" by (simp only: t(1))
  from e1 d(2) e2 r(2) e3 p(2) e4 c(2) e5 t(2) show ?thesis by blast
qed

text \<open>
  Claim C4, as stated, fails on the code. At CIF 18240 USD and rate 8646 the calculator
  gives the converted value 157,703,040, DD = 55,196,064 and TVA = 38,321,839, not the
  55,197,883 and 38,890,851 of the claim (which are 1,819 and 569,012 away). And the
  rounding is applied to the product in double arithmetic, which is not always the
  rounding half up of the exact product with the decimal rate: at 90 GNF the double
  product with 0.35 lies just below 31.5 and DD is 31, where 0.35 times 90 is 31.5 and
  rounds half up to 32.
\<close>

theorem customs_worked_example_counterexample:
  "cifValueGnf (calculateCustoms (Fin 18240) ''USD'') = Fin 157703040
   \<and> dd (calculateCustoms (Fin 18240) ''USD'') = Fin 55196064
   \<and> tva (calculateCustoms (Fin 18240) ''USD'') = Fin 38321839
   \<and> (55197883 - 55196064 :: int) = 1819 \<and> (38890851 - 38321839 :: int) = 569012
   \<and> cifValueGnf (calculateCustoms (Fin 90) ''GNF'') = Fin 90
   \<and> dd (calculateCustoms (Fin 90) ''GNF'') = Fin 31
   \<and> roundHalfUp (35 / 100 * 90) = 32"
  by (simp add: usd_lines gnf_lines roundHalfUp_def floor_rat_numeral)

text \<open>
  Claim C4, amended: for every positive CIF value and every currency in USD, EUR, GNF,
  the calculator computes, in double arithmetic, convertedValue = value times the static
  rate of the currency (8646, 9400, and 1 for GNF); DD, RTL, PC and CA as Math.round of
  convertedValue times 0.35, 0.02, 0.005 and 0.0025; TVA as Math.round of 0.18 times
  (convertedValue + DD), so on value plus DD; BFU as 500,000 above 100,000,000, 350,000
  above 50,000,000 and 200,000 otherwise; totalDuties = DD + RTL + PC + CA + TVA + BFU.
  Math.round rounds the double it is given half up to the whole unit. In particular CIF
  18240 USD at rate 8646 yields the converted value 157,703,040, DD = 55,196,064,
  TVA = 38,321,839 and the total 98,354,737. Against the exact percentages: whenever the
  converted value g is between 1 and 2^52, DD, RTL, PC and CA are whole numbers within
  1/2 + g / 2^53 of 0.35, 0.02, 0.005 and 0.0025 times g, and TVA is a whole number within
  1/2 + (g + DD) / 2^52 of 0.18 times (g + DD).
\<close>

theorem customs_duty_lines:
  assumes "0 < v" and "currency \<in> {''USD'', ''EUR'', ''GNF''}"
  shows "exchangeRate (calculateCustoms (Fin v) currency)
           = (if currency = ''USD'' then Fin 8646 else if currency = ''EUR'' then Fin 9400 else Fin 1)
       \<and> cifValueGnf (calculateCustoms (Fin v) currency)
           = times_number (Fin v) (exchangeRate (calculateCustoms (Fin v) currency))
       \<and> dd (calculateCustoms (Fin v) currency)
           = mathRound (times_number (cifValueGnf (calculateCustoms (Fin v) currency))
                          (toDouble (35 / 100)))
       \<and> rtl (calculateCustoms (Fin v) currency)
           = mathRound (times_number (cifValueGnf (calculateCustoms (Fin v) currency))
                          (toDouble (2 / 100)))
       \<and> pc (calculateCustoms (Fin v) currency)
           = mathRound (times_number (cifValueGnf (calculateCustoms (Fin v) currency))
                          (toDouble (5 / 1000)))
       \<and> ca (calculateCustoms (Fin v) currency)
           = mathRound (times_number (cifValueGnf (calculateCustoms (Fin v) currency))
                          (toDouble (25 / 10000)))
       \<and> tvaBase (calculateCustoms (Fin v) currency)
           = plus_number (cifValueGnf (calculateCustoms (Fin v) currency))
                         (dd (calculateCustoms (Fin v) currency))
       \<and> tva (calculateCustoms (Fin v) currency)
           = mathRound (times_number (tvaBase (calculateCustoms (Fin v) currency))
                          (toDouble (18 / 100)))
       \<and> bfu (calculateCustoms (Fin v) currency)
           = (if greater_number (cifValueGnf (calculateCustoms (Fin v) currency)) 100000000
              then Fin 500000
              else if greater_number (cifValueGnf (calculateCustoms (Fin v) currency)) 50000000
              then Fin 350000 else Fin 200000)
       \<and> totalDuties (calculateCustoms (Fin v) currency)
           = plus_number (plus_number (plus_number (plus_number (plus_number
               (dd (calculateCustoms (Fin v) currency)) (rtl (calculateCustoms (Fin v) currency)))
               (pc (calculateCustoms (Fin v) currency))) (ca (calculateCustoms (Fin v) currency)))
               (tva (calculateCustoms (Fin v) currency))) (bfu (calculateCustoms (Fin v) currency))
       \<and> (\<forall>a. mathRound (Fin a) = Fin (of_int (roundHalfUp a)))
       \<and> calculateCustoms (Fin 18240) ''USD''
           = \<lparr> exchangeRate = Fin 8646, cifValueGnf = Fin 157703040, dd = Fin 55196064,
               rtl = Fin 3154061, pc = Fin 788515, ca = Fin 394258, tvaBase = Fin 212899104,
               tva = Fin 38321839, bfu = Fin 500000, totalDuties = Fin 98354737 \<rparr>
       \<and> (\<forall>g. cifValueGnf (calculateCustoms (Fin v) currency) = Fin g \<longrightarrow> 1 \<le> g \<longrightarrow> g \<le> 2 ^ 52 \<longrightarrow>
            (\<exists>d r p c t.
              dd (calculateCustoms (Fin v) currency) = Fin (of_int d)
              \<and> \<bar>of_int d - 35 / 100 * g\<bar> \<le> 1 / 2 + g / 2 ^ 53
              \<and> rtl (calculateCustoms (Fin v) currency) = Fin (of_int r)
              \<and> \<bar>of_int r - 2 / 100 * g\<bar> \<le> 1 / 2 + g / 2 ^ 53
              \<and> pc (calculateCustoms (Fin v) currency) = Fin (of_int p)
              \<and> \<bar>of_int p - 5 / 1000 * g\<bar> \<le> 1 / 2 + g / 2 ^ 53
              \<and> ca (calculateCustoms (Fin v) currency) = Fin (of_int c)
              \<and> \<bar>of_int c - 25 / 10000 * g\<bar> \<le> 1 / 2 + g / 2 ^ 53
              \<and> tva (calculateCustoms (Fin v) currency) = Fin (of_int t)
              \<and> \<bar>of_int t - 18 / 100 * (g + of_int d)\<bar> \<le> 1 / 2 + (g + of_int d) / 2 ^ 52))"
proof -
  have r: "rateOf currency
      = (if currency = ''USD'' then Fin 8646 else if currency = ''EUR'' then Fin 9400 else Fin 1)"
    using assms(2) by (auto simp: rateOf_def)
  have lines: "exchangeRate (calculateCustoms (Fin v) currency) = rateOf currency"
    "cifValueGnf (calculateCustoms (Fin v) currency)
       = times_number (Fin v) (exchangeRate (calculateCustoms (Fin v) currency))"
    "dd (calculateCustoms (Fin v) currency)
       = mathRound (times_number (cifValueGnf (calculateCustoms (Fin v) currency)) (toDouble (35 / 100)))"
    "rtl (calculateCustoms (Fin v) currency)
       = mathRound (times_number (cifValueGnf (calculateCustoms (Fin v) currency)) (toDouble (2 / 100)))"
    "pc (calculateCustoms (Fin v) currency)
       = mathRound (times_number (cifValueGnf (calculateCustoms (Fin v) currency)) (toDouble (5 / 1000)))"
    "ca (calculateCustoms (Fin v) currency)
       = mathRound (times_number (cifValueGnf (calculateCustoms (Fin v) currency)) (toDouble (25 / 10000)))"
    "tvaBase (calculateCustoms (Fin v) currency)
       = plus_number (cifValueGnf (calculateCustoms (Fin v) currency))
                     (dd (calculateCustoms (Fin v) currency))"
    "tva (calculateCustoms (Fin v) currency)
       = mathRound (times_number (tvaBase (calculateCustoms (Fin v) currency)) (toDouble (18 / 100)))"
    "bfu (calculateCustoms (Fin v) currency)
       = (if greater_number (cifValueGnf (calculateCustoms (Fin v) currency)) 100000000
          then Fin 500000
          else if greater_number (cifValueGnf (calculateCustoms (Fin v) currency)) 50000000
          then Fin 350000 else Fin 200000)"
    "totalDuties (calculateCustoms (Fin v) currency)
       = plus_number (plus_number (plus_number (plus_number (plus_number
           (dd (calculateCustoms (Fin v) currency)) (rtl (calculateCustoms (Fin v) currency)))
           (pc (calculateCustoms (Fin v) currency))) (ca (calculateCustoms (Fin v) currency)))
           (tva (calculateCustoms (Fin v) currency))) (bfu (calculateCustoms (Fin v) currency))"
    by (simp_all add: calculateCustoms_def Let_def ddRate_def rtlRate_def pcRate_def caRate_def
        tvaRate_def)
  have l1: "exchangeRate (calculateCustoms (Fin v) currency)
      = (if currency = ''USD'' then Fin 8646 else if currency = ''EUR'' then Fin 9400 else Fin 1)"
    by (simp only: lines(1) r)
  have mr: "\<forall>a. mathRound (Fin a) = Fin (of_int (roundHalfUp a))"
    by (intro allI) (rule mathRound_half_up)
  have acc: "\<forall>g. cifValueGnf (calculateCustoms (Fin v) currency) = Fin g \<longrightarrow> 1 \<le> g \<longrightarrow> g \<le> 2 ^ 52 \<longrightarrow>
            (\<exists>d r p c t.
              dd (calculateCustoms (Fin v) currency) = Fin (of_int d)
              \<and> \<bar>of_int d - 35 / 100 * g\<bar> \<le> 1 / 2 + g / 2 ^ 53
              \<and> rtl (calculateCustoms (Fin v) currency) = Fin (of_int r)
              \<and> \<bar>of_int r - 2 / 100 * g\<bar> \<le> 1 / 2 + g / 2 ^ 53
              \<and> pc (calculateCustoms (Fin v) currency) = Fin (of_int p)
              \<and> \<bar>of_int p - 5 / 1000 * g\<bar> \<le> 1 / 2 + g / 2 ^ 53
              \<and> ca (calculateCustoms (Fin v) currency) = Fin (of_int c)
              \<and> \<bar>of_int c - 25 / 10000 * g\<bar> \<le> 1 / 2 + g / 2 ^ 53
              \<and> tva (calculateCustoms (Fin v) currency) = Fin (of_int t)
              \<and> \<bar>of_int t - 18 / 100 * (g + of_int d)\<bar> \<le> 1 / 2 + (g + of_int d) / 2 ^ 52)"
    by (intro allI impI) (rule customs_accuracy)
  show ?thesis
    by (intro conjI l1 lines(2-) mr usd_total acc)
qed

theorem customs_duty_lines_witness:
  "(0::rat) < 18240 \<and> ''USD'' \<in> {''USD'', ''EUR'', ''GNF''}
   \<and> exchangeRate (calculateCustoms (Fin 18240) ''USD'') = Fin 8646
   \<and> cifValueGnf (calculateCustoms (Fin 18240) ''USD'') = Fin 157703040
   \<and> dd (calculateCustoms (Fin 18240) ''USD'') = Fin 55196064
   \<and> tvaBase (calculateCustoms (Fin 18240) ''USD'') = Fin 212899104
   \<and> tva (calculateCustoms (Fin 18240) ''USD'') = Fin 38321839
   \<and> bfu (calculateCustoms (Fin 18240) ''USD'') = Fin 500000
   \<and> totalDuties (calculateCustoms (Fin 18240) ''USD'') = Fin 98354737
   \<and> (1::rat) \<le> 157703040 \<and> (157703040::rat) \<le> 2 ^ 52
   \<and> (\<exists>d t. dd (calculateCustoms (Fin 18240) ''USD'') = Fin (of_int d)
         \<and> \<bar>of_int d - 35 / 100 * (157703040::rat)\<bar> \<le> 1 / 2 + 157703040 / 2 ^ 53
         \<and> tva (calculateCustoms (Fin 18240) ''USD'') = Fin (of_int t)
         \<and> \<bar>of_int t - 18 / 100 * (157703040 + of_int d :: rat)\<bar>
             \<le> 1 / 2 + (157703040 + of_int d) / 2 ^ 52)"
proof -
  have h: "(0::rat) < 18240" "''USD'' \<in> {''USD'', ''EUR'', ''GNF''}"
    by simp_all
  note main = customs_duty_lines[OF h]
  from main have m: "exchangeRate (calculateCustoms (Fin 18240) ''USD'') = Fin 8646
   \<and> cifValueGnf (calculateCustoms (Fin 18240) ''USD'') = Fin 157703040
   \<and> dd (calculateCustoms (Fin 18240) ''USD'') = Fin 55196064
   \<and> tvaBase (calculateCustoms (Fin 18240) ''USD'') = Fin 212899104
   \<and> tva (calculateCustoms (Fin 18240) ''USD'') = Fin 38321839
   \<and> bfu (calculateCustoms (Fin 18240) ''USD'') = Fin 500000
   \<and> totalDuties (calculateCustoms (Fin 18240) ''USD'') = Fin 98354737"
    by simp
  then have k: "cifValueGnf (calculateCustoms (Fin 18240) ''USD'') = Fin 157703040" by (elim conjE)
  have b: "(1::rat) \<le> 157703040" "(157703040::rat) \<le> 2 ^ 52" by simp_all
  from main have "\<forall>g. cifValueGnf (calculateCustoms (Fin 18240) ''USD'') = Fin g \<longrightarrow> 1 \<le> g \<longrightarrow> g \<le> 2 ^ 52 \<longrightarrow>
            (\<exists>d r p c t.
              dd (calculateCustoms (Fin 18240) ''USD'') = Fin (of_int d)
              \<and> \<bar>of_int d - 35 / 100 * g\<bar> \<le> 1 / 2 + g / 2 ^ 53
              \<and> rtl (calculateCustoms (Fin 18240) ''USD'') = Fin (of_int r)
              \<and> \<bar>of_int r - 2 / 100 * g\<bar> \<le> 1 / 2 + g / 2 ^ 53
              \<and> pc (calculateCustoms (Fin 18240) ''USD'') = Fin (of_int p)
              \<and> \<bar>of_int p - 5 / 1000 * g\<bar> \<le> 1 / 2 + g / 2 ^ 53
              \<and> ca (calculateCustoms (Fin 18240) ''USD'') = Fin (of_int c)
              \<and> \<bar>of_int c - 25 / 10000 * g\<bar> \<le> 1 / 2 + g / 2 ^ 53
              \<and> tva (calculateCustoms (Fin 18240) ''USD'') = Fin (of_int t)
              \<and> \<bar>of_int t - 18 / 100 * (g + of_int d)\<bar> \<le> 1 / 2 + (g + of_int d) / 2 ^ 52)"
    by (elim conjE)
  from this k b have
    "(\<exists>d r p c t.
     dd (calculateCustoms (Fin 18240) ''USD'') = Fin (of_int d)
     \<and> \<bar>of_int d - 35 / 100 * (157703040::rat)\<bar> \<le> 1 / 2 + (157703040::rat) / 2 ^ 53
     \<and> rtl (calculateCustoms (Fin 18240) ''USD'') = Fin (of_int r)
     \<and> \<bar>of_int r - 2 / 100 * (157703040::rat)\<bar> \<le> 1 / 2 + (157703040::rat) / 2 ^ 53
     \<and> pc (calculateCustoms (Fin 18240) ''USD'') = Fin (of_int p)
     \<and> \<bar>of_int p - 5 / 1000 * (157703040::rat)\<bar> \<le> 1 / 2 + (157703040::rat) / 2 ^ 53
     \<and> ca (calculateCustoms (Fin 18240) ''USD'') = Fin (of_int c)
     \<and> \<bar>of_int c - 25 / 10000 * (157703040::rat)\<bar> \<le> 1 / 2 + (157703040::rat) / 2 ^ 53
     \<and> tva (calculateCustoms (Fin 18240) ''USD'') = Fin (of_int t)
     \<and> \<bar>of_int t - 18 / 100 * ((157703040::rat) + of_int d)\<bar> \<le> 1 / 2 + ((157703040::rat) + of_int d) / 2 ^ 52)"
    by blast
  then have acc: "\<exists>d t. dd (calculateCustoms (Fin 18240) ''USD'') = Fin (of_int d)
         \<and> \<bar>of_int d - 35 / 100 * (157703040::rat)\<bar> \<le> 1 / 2 + 157703040 / 2 ^ 53
         \<and> tva (calculateCustoms (Fin 18240) ''USD'') = Fin (of_int t)
         \<and> \<bar>of_int t - 18 / 100 * (157703040 + of_int d :: rat)\<bar>
             \<le> 1 / 2 + (157703040 + of_int d) / 2 ^ 52"
    by blast
  from h m b acc show ?thesis by (intro conjI) (simp_all only: simp_thms)
qed

end
